theory Spec2Isabelle
  imports Main "HOL-Library.Extended_Nat" "HOL-Library.Char_ord" "HOL-Library.List_Lexorder"
begin

text \<open>
  The server side of the notes application: the note routes, the invitation routes, and the
  validation, subscription and authorization modules they call, as functions on an explicit
  store. A handler takes what the framework, the token library and the datastore hand to
  it (the verified claims of the token, the parsed body, the time, a new identifier) and
  returns its response together with the store after the call.
\<close>

section \<open>Data model\<close>

text \<open>
  The enums of the types module (\<^verbatim>\<open>Role\<close>, \<^verbatim>\<open>Plan\<close>, \<^verbatim>\<open>InvitationStatus\<close>) and
  the four kinds of row of the relational store. A \<^verbatim>\<open>Date\<close> is a number of
  milliseconds since the epoch. A \<^typ>\<open>char\<close> stands for one UTF-16 code unit
  below 256, so \<^const>\<open>length\<close> is the \<^verbatim>\<open>.length\<close> of a JavaScript string over
  that range.
\<close>

datatype Role = ADMIN | MEMBER

datatype Plan = FREE | PRO

datatype InvitationStatus = PENDING | ACCEPTED | EXPIRED | CANCELLED

record Tenant =
  t_id :: string
  t_slug :: string
  t_name :: string
  t_plan :: Plan

record User =
  u_id :: string
  u_email :: string
  u_password :: string
  u_role :: Role
  u_tenantId :: string

record Note =
  n_id :: string
  n_title :: string
  n_content :: string
  n_authorId :: string
  n_tenantId :: string
  n_createdAt :: nat
  n_updatedAt :: nat

record Invitation =
  i_id :: string
  i_email :: string
  i_role :: Role
  i_token :: string
  i_status :: InvitationStatus
  i_tenantId :: string
  i_invitedBy :: string
  i_expiresAt :: nat
  i_acceptedAt :: "nat option"
  i_createdAt :: nat

text \<open>
  The module-level \<^verbatim>\<open>prisma\<close> client is the one piece of shared state: the
  store holds the rows of each table in the order the datastore returns them.
\<close>

record store =
  tenant_rows :: "Tenant list"
  user_rows :: "User list"
  note_rows :: "Note list"
  invitation_rows :: "Invitation list"

text \<open>The claims a verified JWT carries (\<^verbatim>\<open>JWTUser\<close>, \<^verbatim>\<open>UserContext\<close>).\<close>

record UserContext =
  userId :: string
  email :: string
  role :: Role
  tenantId :: string
  tenantSlug :: string

section \<open>JSON values and responses\<close>

text \<open>
  A JavaScript value as the handlers build and inspect it. Numbers are the integers,
  \<^verbatim>\<open>Infinity\<close> and \<^verbatim>\<open>NaN\<close>: the handlers produce nothing else, and of a
  number in a request body they inspect only its type and whether it is zero. An object is
  the list of its own properties in insertion order; a property whose value is
  \<^verbatim>\<open>undefined\<close> is left out, as it is when the body is written.
\<close>

datatype json =
    JNull
  | JBool bool
  | JNum int
  | JInfinity
  | JNaN
  | JStr string
  | JArr "json list"
  | JObj "(string \<times> json) list"

text \<open>Property access \<^verbatim>\<open>value.key\<close>; \<^const>\<open>None\<close> is \<^verbatim>\<open>undefined\<close>.\<close>

fun jget :: "json \<Rightarrow> string \<Rightarrow> json option" where
  "jget (JObj kvs) k = map_of kvs k"
| "jget _ k = None"

text \<open>JavaScript truthiness (\<^verbatim>\<open>!v\<close> is its negation).\<close>

fun truthy :: "json option \<Rightarrow> bool" where
  "truthy None = False"
| "truthy (Some JNull) = False"
| "truthy (Some (JBool b)) = b"
| "truthy (Some (JNum n)) = (n \<noteq> 0)"
| "truthy (Some JInfinity) = True"
| "truthy (Some JNaN) = False"
| "truthy (Some (JStr s)) = (s \<noteq> [])"
| "truthy (Some (JArr xs)) = True"
| "truthy (Some (JObj kvs)) = True"

record response =
  status :: nat
  body :: json

text \<open>The helpers of the api-response module. Response headers are not modelled.\<close>

definition createApiResponse :: "json \<Rightarrow> string \<Rightarrow> nat \<Rightarrow> response" where
  "createApiResponse data message st =
     \<lparr>status = st,
      body = JObj [(''success'', JBool True), (''data'', data), (''message'', JStr message)]\<rparr>"

definition createApiError :: "string \<Rightarrow> nat \<Rightarrow> response" where
  "createApiError err st =
     \<lparr>status = st, body = JObj [(''success'', JBool False), (''error'', JStr err)]\<rparr>"

definition createValidationError :: "string \<Rightarrow> response" where
  "createValidationError message = createApiError message 400"

definition createNotFoundError :: "string \<Rightarrow> response" where
  "createNotFoundError resource = createApiError (resource @ '' not found'') 404"

section \<open>Note validation\<close>

definition is_digit :: "char \<Rightarrow> bool" where
  "is_digit c = (CHR ''0'' \<le> c \<and> c \<le> CHR ''9'')"

definition is_lower :: "char \<Rightarrow> bool" where
  "is_lower c = (CHR ''a'' \<le> c \<and> c \<le> CHR ''z'')"

definition is_upper :: "char \<Rightarrow> bool" where
  "is_upper c = (CHR ''A'' \<le> c \<and> c \<le> CHR ''Z'')"

text \<open>
  \<^verbatim>\<open>/^c[a-z0-9]{24}$/i.test(id)\<close>: the \<^verbatim>\<open>i\<close> flag makes both the leading
  letter and the class \<^verbatim>\<open>[a-z0-9]\<close> case-insensitive, and without the \<^verbatim>\<open>m\<close>
  flag \<^verbatim>\<open>$\<close> matches at the end of the input only.
\<close>

definition cuid_char :: "char \<Rightarrow> bool" where
  "cuid_char c = (is_lower c \<or> is_upper c \<or> is_digit c)"

definition validateNoteId :: "string \<Rightarrow> bool" where
  "validateNoteId ident =
     (case ident of
        [] \<Rightarrow> False
      | c # rest \<Rightarrow> (c = CHR ''c'' \<or> c = CHR ''C'') \<and> length rest = 24 \<and> list_all cuid_char rest)"

text \<open>
  \<^verbatim>\<open>String.prototype.trim\<close> removes the white space and line terminators of
  ECMAScript from both ends; below 256 these are the code units 9 to 13, 32 and 160.
\<close>

definition is_space :: "char \<Rightarrow> bool" where
  "is_space c = (c = CHR 0x09 \<or> c = CHR 0x0A \<or> c = CHR 0x0B \<or> c = CHR 0x0C \<or> c = CHR 0x0D
                 \<or> c = CHR 0x20 \<or> c = CHR 0xA0)"

definition trim :: "string \<Rightarrow> string" where
  "trim str = rev (dropWhile is_space (rev (dropWhile is_space str)))"

text \<open>\<^verbatim>\<open>errors.join(', ')\<close>.\<close>

fun join_errors :: "string list \<Rightarrow> string" where
  "join_errors [] = []"
| "join_errors [e] = e"
| "join_errors (e # es) = e @ '', '' @ join_errors es"

record CreateNoteRequest =
  title :: string
  content :: string
  tags :: "string list"

record UpdateNoteRequest =
  upd_title :: "string option"
  upd_content :: "string option"
  upd_tags :: "string list option"

text \<open>The loop over the tags, which stops at the first offending tag.\<close>

fun tag_loop_errors :: "json list \<Rightarrow> string list" where
  "tag_loop_errors [] = []"
| "tag_loop_errors (JStr t # rest) =
     (if length t > 50 then [''Each tag must be 50 characters or less'']
      else tag_loop_errors rest)"
| "tag_loop_errors (other # rest) = [''All tags must be strings'']"

fun tags_errors :: "json option \<Rightarrow> string list" where
  "tags_errors None = []"
| "tags_errors (Some (JArr ts)) =
     (if length ts > 10 then [''Maximum 10 tags allowed''] else []) @ tag_loop_errors ts"
| "tags_errors (Some other) = [''Tags must be an array'']"

fun tag_string :: "json \<Rightarrow> string" where
  "tag_string (JStr t) = trim t"
| "tag_string other = []"

fun trimmed_tags :: "json option \<Rightarrow> string list option" where
  "trimmed_tags (Some (JArr ts)) = Some (map tag_string ts)"
| "trimmed_tags other = None"

fun string_of :: "json option \<Rightarrow> string" where
  "string_of (Some (JStr t)) = t"
| "string_of other = []"

text \<open>\<^verbatim>\<open>typeof v === 'string'\<close>.\<close>

fun is_string :: "json option \<Rightarrow> bool" where
  "is_string (Some (JStr t)) = True"
| "is_string other = False"

text \<open>
  \<^verbatim>\<open>!data || typeof data !== 'object'\<close> lets objects and arrays through
  (\<^verbatim>\<open>typeof []\<close> is \<^verbatim>\<open>'object'\<close>) and stops \<^verbatim>\<open>null\<close> and the primitives.
\<close>

fun is_object :: "json \<Rightarrow> bool" where
  "is_object (JObj kvs) = True"
| "is_object (JArr xs) = True"
| "is_object other = False"

text \<open>The checks of the title and of the content in \<^verbatim>\<open>validateCreateNote\<close>.\<close>

definition create_title_errors :: "json option \<Rightarrow> string list" where
  "create_title_errors rtitle =
     (if \<not> truthy rtitle \<or> \<not> is_string rtitle
        then [''Title is required and must be a string'']
      else if length (trim (string_of rtitle)) = 0 then [''Title cannot be empty'']
      else if length (string_of rtitle) > 200 then [''Title must be 200 characters or less'']
      else [])"

definition create_content_errors :: "json option \<Rightarrow> string list" where
  "create_content_errors rcontent =
     (if \<not> truthy rcontent \<or> \<not> is_string rcontent
        then [''Content is required and must be a string'']
      else if length (trim (string_of rcontent)) = 0 then [''Content cannot be empty'']
      else if length (string_of rcontent) > 10000
        then [''Content must be 10,000 characters or less'']
      else [])"

text \<open>
  \<^verbatim>\<open>validateCreateNote\<close>: \<^const>\<open>Inl\<close> carries the errors of
  \<^verbatim>\<open>{isValid: false, errors}\<close>, \<^const>\<open>Inr\<close> the data of \<^verbatim>\<open>{isValid: true, data}\<close>.
\<close>

definition validateCreateNote :: "json \<Rightarrow> string list + CreateNoteRequest" where
  "validateCreateNote data =
     (if \<not> is_object data then Inl [''Request body must be an object'']
      else
        let rtitle = jget data ''title'';
            rcontent = jget data ''content'';
            rtags = jget data ''tags'';
            errors = create_title_errors rtitle @ create_content_errors rcontent @ tags_errors rtags
        in if length errors > 0 then Inl errors
           else Inr \<lparr>title = trim (string_of rtitle),
                     content = trim (string_of rcontent),
                     tags = (case trimmed_tags rtags of Some ts \<Rightarrow> ts | None \<Rightarrow> [])\<rparr>)"

text \<open>The checks of the title and of the content in \<^verbatim>\<open>validateUpdateNote\<close>.\<close>

definition update_title_errors :: "json option \<Rightarrow> string list" where
  "update_title_errors rtitle =
     (if rtitle \<noteq> None then
        (if \<not> is_string rtitle then [''Title must be a string'']
         else if length (trim (string_of rtitle)) = 0 then [''Title cannot be empty'']
         else if length (string_of rtitle) > 200 then [''Title must be 200 characters or less'']
         else [])
      else [])"

definition update_content_errors :: "json option \<Rightarrow> string list" where
  "update_content_errors rcontent =
     (if rcontent \<noteq> None then
        (if \<not> is_string rcontent then [''Content must be a string'']
         else if length (trim (string_of rcontent)) = 0 then [''Content cannot be empty'']
         else if length (string_of rcontent) > 10000
           then [''Content must be 10,000 characters or less'']
         else [])
      else [])"

definition validateUpdateNote :: "json \<Rightarrow> string list + UpdateNoteRequest" where
  "validateUpdateNote data =
     (if \<not> is_object data then Inl [''Request body must be an object'']
      else
        let rtitle = jget data ''title'';
            rcontent = jget data ''content'';
            rtags = jget data ''tags'';
            errors =
              (if \<not> truthy rtitle \<and> \<not> truthy rcontent \<and> \<not> truthy rtags
                 then [''At least one field (title, content, or tags) must be provided for update'']
               else [])
              @ update_title_errors rtitle @ update_content_errors rcontent @ tags_errors rtags
        in if length errors > 0 then Inl errors
           else Inr \<lparr>upd_title = (if rtitle \<noteq> None then Some (trim (string_of rtitle)) else None),
                     upd_content =
                       (if rcontent \<noteq> None then Some (trim (string_of rcontent)) else None),
                     upd_tags = trimmed_tags rtags\<rparr>)"

section \<open>Subscription limits\<close>

text \<open>
  \<^verbatim>\<open>SUBSCRIPTION_LIMITS\<close>: a limit is a number or \<^verbatim>\<open>Infinity\<close>. The feature
  flags of the table are used by none of the handlers below and are left out.
\<close>

fun maxNotes :: "Plan \<Rightarrow> enat" where
  "maxNotes FREE = 3"
| "maxNotes PRO = \<infinity>"

fun maxUsers :: "Plan \<Rightarrow> enat" where
  "maxUsers FREE = 5"
| "maxUsers PRO = \<infinity>"

definition canCreateNote :: "Plan \<Rightarrow> nat \<Rightarrow> bool" where
  "canCreateNote plan currentNoteCount = (enat currentNoteCount < maxNotes plan)"

definition canInviteUser :: "Plan \<Rightarrow> nat \<Rightarrow> bool" where
  "canInviteUser plan currentUserCount = (enat currentUserCount < maxUsers plan)"

text \<open>
  \<^verbatim>\<open>Math.max(0, limit - count)\<close>: the subtraction of \<^typ>\<open>enat\<close> stops at zero,
  which is what the maximum with 0 computes.
\<close>

definition getRemainingNotes :: "Plan \<Rightarrow> nat \<Rightarrow> enat" where
  "getRemainingNotes plan currentNoteCount =
     (if plan = PRO then \<infinity> else max 0 (maxNotes plan - enat currentNoteCount))"

definition getRemainingUsers :: "Plan \<Rightarrow> nat \<Rightarrow> enat" where
  "getRemainingUsers plan currentUserCount =
     (if plan = PRO then \<infinity> else max 0 (maxUsers plan - enat currentUserCount))"

definition canUpgradePlan :: "Plan \<Rightarrow> bool" where
  "canUpgradePlan currentPlan = (currentPlan = FREE)"

record SubscriptionStatus =
  ss_plan :: Plan
  ss_maxNotes :: enat
  ss_maxUsers :: enat
  ss_currentNotes :: nat
  ss_currentUsers :: nat
  ss_remainingNotes :: enat
  ss_remainingUsers :: enat
  ss_canUpgrade :: bool

text \<open>
  \<^verbatim>\<open>getSubscriptionStatus\<close>: \<^verbatim>\<open>tenant.findUnique\<close> with the counts of the
  tenant's notes and users; \<^const>\<open>None\<close> is the thrown \<^verbatim>\<open>Tenant not found\<close>.
\<close>

definition getSubscriptionStatus :: "string \<Rightarrow> store \<Rightarrow> SubscriptionStatus option" where
  "getSubscriptionStatus tid s =
     (case find (\<lambda>t. t_id t = tid) (tenant_rows s) of
        None \<Rightarrow> None
      | Some tenant \<Rightarrow>
          let plan = t_plan tenant;
              currentNotes = length (filter (\<lambda>n. n_tenantId n = t_id tenant) (note_rows s));
              currentUsers = length (filter (\<lambda>u. u_tenantId u = t_id tenant) (user_rows s))
          in Some \<lparr>ss_plan = plan,
                   ss_maxNotes = maxNotes plan,
                   ss_maxUsers = maxUsers plan,
                   ss_currentNotes = currentNotes,
                   ss_currentUsers = currentUsers,
                   ss_remainingNotes = getRemainingNotes plan currentNotes,
                   ss_remainingUsers = getRemainingUsers plan currentUsers,
                   ss_canUpgrade = canUpgradePlan plan\<rparr>)"

text \<open>\<^verbatim>\<open>Number.prototype.toString\<close> on a count or a limit.\<close>

fun show_nat :: "nat \<Rightarrow> string" where
  "show_nat n =
     (if n < 10 then [char_of (48 + n)] else show_nat (n div 10) @ [char_of (48 + n mod 10)])"

fun show_enat :: "enat \<Rightarrow> string" where
  "show_enat (enat n) = show_nat n"
| "show_enat \<infinity> = ''Infinity''"

record NoteLimitCheck =
  canCreate :: bool
  reason :: "string option"
  currentCount :: nat
  limit :: enat

definition checkNoteLimit :: "string \<Rightarrow> store \<Rightarrow> NoteLimitCheck option" where
  "checkNoteLimit tid s =
     (case getSubscriptionStatus tid s of
        None \<Rightarrow> None
      | Some st \<Rightarrow>
          let can = canCreateNote (ss_plan st) (ss_currentNotes st)
          in Some \<lparr>canCreate = can,
                   reason = (if can then None
                             else Some (''Note limit reached. Current plan allows ''
                                        @ show_enat (ss_maxNotes st) @ '' notes.'')),
                   currentCount = ss_currentNotes st,
                   limit = ss_maxNotes st\<rparr>)"

text \<open>
  \<^verbatim>\<open>validateNoteCreation\<close> returns nothing or throws; \<^const>\<open>Some\<close> carries the
  message of the thrown error, which the caller puts into its 403 response.
\<close>

definition validateNoteCreation :: "string \<Rightarrow> store \<Rightarrow> string option" where
  "validateNoteCreation tid s =
     (case checkNoteLimit tid s of
        None \<Rightarrow> Some ''Tenant not found''
      | Some limitCheck \<Rightarrow>
          if \<not> canCreate limitCheck then
            (case reason limitCheck of
               Some r \<Rightarrow> if r \<noteq> [] then Some r
                         else Some ''Note creation limit reached. Upgrade to Pro plan for unlimited notes.''
             | None \<Rightarrow> Some ''Note creation limit reached. Upgrade to Pro plan for unlimited notes.'')
          else None)"

section \<open>Note handlers\<close>

fun role_json :: "Role \<Rightarrow> json" where
  "role_json ADMIN = JStr ''ADMIN''"
| "role_json MEMBER = JStr ''MEMBER''"

fun plan_json :: "Plan \<Rightarrow> json" where
  "plan_json FREE = JStr ''FREE''"
| "plan_json PRO = JStr ''PRO''"

fun enat_json :: "enat \<Rightarrow> json" where
  "enat_json (enat n) = JNum (int n)"
| "enat_json \<infinity> = JInfinity"

text \<open>
  \<^verbatim>\<open>include: {author: {select: {id, email, role}}}\<close>: the row of the users table the
  note's \<^verbatim>\<open>authorId\<close> refers to.
\<close>

definition author_json :: "store \<Rightarrow> string \<Rightarrow> json" where
  "author_json s aid =
     (case find (\<lambda>u. u_id u = aid) (user_rows s) of
        None \<Rightarrow> JNull
      | Some u \<Rightarrow>
          JObj [(''id'', JStr (u_id u)), (''email'', JStr (u_email u)), (''role'', role_json (u_role u))])"

definition note_json :: "store \<Rightarrow> Note \<Rightarrow> json" where
  "note_json s note =
     JObj [(''id'', JStr (n_id note)),
           (''title'', JStr (n_title note)),
           (''content'', JStr (n_content note)),
           (''createdAt'', JNum (int (n_createdAt note))),
           (''updatedAt'', JNum (int (n_updatedAt note))),
           (''author'', author_json s (n_authorId note))]"

definition subscription_json :: "SubscriptionStatus \<Rightarrow> json" where
  "subscription_json st =
     JObj [(''plan'', plan_json (ss_plan st)),
           (''notesUsed'', JNum (int (ss_currentNotes st))),
           (''notesLimit'', enat_json (ss_maxNotes st)),
           (''notesRemaining'', enat_json (ss_remainingNotes st))]"

text \<open>
  \<^verbatim>\<open>GET /api/notes/[id]\<close>. The first argument is the result of
  \<^verbatim>\<open>getUserContextFromToken\<close>: \<^const>\<open>None\<close> when it throws (the token is missing
  or does not verify), which the handler's \<^verbatim>\<open>catch\<close> turns into a 500. A missing
  claim of the token is the empty string.
\<close>

definition note_GET :: "UserContext option \<Rightarrow> string \<Rightarrow> store \<Rightarrow> response \<times> store" where
  "note_GET token_ctx ident s =
     (case token_ctx of
        None \<Rightarrow> (createApiError ''Failed to retrieve note'' 500, s)
      | Some ctx \<Rightarrow>
          if userId ctx = [] \<or> tenantId ctx = [] then
            (createApiError ''Authentication required'' 401, s)
          else if \<not> validateNoteId ident then
            (createValidationError ''Invalid note ID format'', s)
          else
            (case find (\<lambda>n. n_id n = ident \<and> n_tenantId n = tenantId ctx) (note_rows s) of
               None \<Rightarrow> (createNotFoundError ''Note'', s)
             | Some note \<Rightarrow>
                 (createApiResponse (JObj [(''note'', note_json s note)])
                    ''Note retrieved successfully'' 200, s)))"

text \<open>
  \<^verbatim>\<open>note.update({where: {id}, data})\<close>: the fields present in the data are written
  and \<^verbatim>\<open>updatedAt\<close> is set to the time of the call.
\<close>

definition apply_update :: "UpdateNoteRequest \<Rightarrow> nat \<Rightarrow> Note \<Rightarrow> Note" where
  "apply_update d now note =
     note\<lparr>n_title := (case upd_title d of Some t \<Rightarrow> t | None \<Rightarrow> n_title note),
          n_content := (case upd_content d of Some c \<Rightarrow> c | None \<Rightarrow> n_content note),
          n_updatedAt := now\<rparr>"

text \<open>
  \<^verbatim>\<open>PUT /api/notes/[id]\<close>; the body is \<^const>\<open>None\<close> when \<^verbatim>\<open>request.json()\<close>
  throws. The notes table has no \<^verbatim>\<open>tags\<close> column, so data that carry tags are refused
  by the datastore client, and the \<^verbatim>\<open>catch\<close> answers 500.
\<close>

definition note_PUT ::
  "nat \<Rightarrow> UserContext option \<Rightarrow> string \<Rightarrow> json option \<Rightarrow> store \<Rightarrow> response \<times> store" where
  "note_PUT now token_ctx ident requestBody s =
     (case token_ctx of
        None \<Rightarrow> (createApiError ''Failed to update note'' 500, s)
      | Some ctx \<Rightarrow>
          if userId ctx = [] \<or> tenantId ctx = [] then
            (createApiError ''Authentication required'' 401, s)
          else if \<not> validateNoteId ident then
            (createValidationError ''Invalid note ID format'', s)
          else
            (case requestBody of
               None \<Rightarrow> (createValidationError ''Invalid JSON in request body'', s)
             | Some b \<Rightarrow>
                 (case validateUpdateNote b of
                    Inl errors \<Rightarrow>
                      (createValidationError (''Validation failed: '' @ join_errors errors), s)
                  | Inr d \<Rightarrow>
                      (case find (\<lambda>n. n_id n = ident \<and> n_tenantId n = tenantId ctx) (note_rows s) of
                         None \<Rightarrow> (createNotFoundError ''Note'', s)
                       | Some existingNote \<Rightarrow>
                           if n_authorId existingNote \<noteq> userId ctx \<and> role ctx \<noteq> ADMIN then
                             (createApiError ''You can only edit your own notes'' 403, s)
                           else if upd_tags d \<noteq> None then
                             (createApiError ''Failed to update note'' 500, s)
                           else
                             let s' = s\<lparr>note_rows :=
                                        map (\<lambda>n. if n_id n = ident then apply_update d now n else n)
                                          (note_rows s)\<rparr>
                             in (case find (\<lambda>n. n_id n = ident) (note_rows s') of
                                   None \<Rightarrow> (createNotFoundError ''Note'', s)
                                 | Some updatedNote \<Rightarrow>
                                     (createApiResponse (JObj [(''note'', note_json s' updatedNote)])
                                        ''Note updated successfully'' 200, s'))))))"

text \<open>
  \<^verbatim>\<open>DELETE /api/notes/[id]\<close>. The row is deleted before the subscription status is
  read, so a failure of that read answers 500 with the row gone.
\<close>

definition note_DELETE :: "UserContext option \<Rightarrow> string \<Rightarrow> store \<Rightarrow> response \<times> store" where
  "note_DELETE token_ctx ident s =
     (case token_ctx of
        None \<Rightarrow> (createApiError ''Failed to delete note'' 500, s)
      | Some ctx \<Rightarrow>
          if userId ctx = [] \<or> tenantId ctx = [] then
            (createApiError ''Authentication required'' 401, s)
          else if \<not> validateNoteId ident then
            (createValidationError ''Invalid note ID format'', s)
          else
            (case find (\<lambda>n. n_id n = ident \<and> n_tenantId n = tenantId ctx) (note_rows s) of
               None \<Rightarrow> (createNotFoundError ''Note'', s)
             | Some existingNote \<Rightarrow>
                 if n_authorId existingNote \<noteq> userId ctx \<and> role ctx \<noteq> ADMIN then
                   (createApiError ''You can only delete your own notes'' 403, s)
                 else
                   let s' = s\<lparr>note_rows := filter (\<lambda>n. n_id n \<noteq> ident) (note_rows s)\<rparr>
                   in (case getSubscriptionStatus (tenantId ctx) s' of
                         None \<Rightarrow> (createApiError ''Failed to delete note'' 500, s')
                       | Some subscriptionStatus \<Rightarrow>
                           (createApiResponse
                              (JObj [(''deletedNote'',
                                      JObj [(''id'', JStr (n_id existingNote)),
                                            (''title'', JStr (n_title existingNote)),
                                            (''author'', author_json s (n_authorId existingNote))]),
                                     (''subscription'', subscription_json subscriptionStatus)])
                              ''Note deleted successfully'' 200, s'))))"


text \<open>
  \<^verbatim>\<open>POST /api/notes\<close>. The datastore supplies the time \<open>now\<close> and the identifier
  \<open>newId\<close> of the new row (\<^verbatim>\<open>@default(cuid())\<close>). It refuses a row whose identifier
  exists (a unique constraint) and a row whose author is no row of the users table (a
  foreign key constraint); the handler's \<^verbatim>\<open>catch\<close> answers 409 and 400 for these.
\<close>

definition notes_POST ::
  "nat \<Rightarrow> string \<Rightarrow> UserContext option \<Rightarrow> json option \<Rightarrow> store \<Rightarrow> response \<times> store" where
  "notes_POST now newId token_ctx requestBody s =
     (case token_ctx of
        None \<Rightarrow> (createApiError ''Failed to create note'' 500, s)
      | Some ctx \<Rightarrow>
          if userId ctx = [] \<or> tenantId ctx = [] then
            (createApiError ''Authentication required'' 401, s)
          else
            (case requestBody of
               None \<Rightarrow> (createValidationError ''Invalid JSON in request body'', s)
             | Some b \<Rightarrow>
                 (case validateCreateNote b of
                    Inl errors \<Rightarrow>
                      (createValidationError (''Validation failed: '' @ join_errors errors), s)
                  | Inr d \<Rightarrow>
                      (case validateNoteCreation (tenantId ctx) s of
                         Some message \<Rightarrow> (createApiError message 403, s)
                       | None \<Rightarrow>
                           if list_ex (\<lambda>n. n_id n = newId) (note_rows s) then
                             (createApiError ''A note with this title already exists'' 409, s)
                           else if \<not> list_ex (\<lambda>u. u_id u = userId ctx) (user_rows s) then
                             (createApiError ''Invalid tenant or user reference'' 400, s)
                           else
                             let note = \<lparr>n_id = newId, n_title = title d, n_content = content d,
                                         n_authorId = userId ctx, n_tenantId = tenantId ctx,
                                         n_createdAt = now, n_updatedAt = now\<rparr>;
                                 s' = s\<lparr>note_rows := note_rows s @ [note]\<rparr>
                             in (case getSubscriptionStatus (tenantId ctx) s' of
                                   None \<Rightarrow> (createApiError ''Failed to create note'' 500, s')
                                 | Some subscriptionStatus \<Rightarrow>
                                     (createApiResponse
                                        (JObj [(''note'', note_json s' note),
                                               (''subscription'', subscription_json subscriptionStatus)])
                                        ''Note created successfully'' 201, s'))))))"

subsection \<open>Listing\<close>

definition is_hex_digit :: "char \<Rightarrow> bool" where
  "is_hex_digit c =
     (is_digit c \<or> (CHR ''a'' \<le> c \<and> c \<le> CHR ''f'') \<or> (CHR ''A'' \<le> c \<and> c \<le> CHR ''F''))"

definition digit_value :: "char \<Rightarrow> nat" where
  "digit_value c =
     (if is_digit c then of_char c - 48
      else if is_lower c then of_char c - 87
      else of_char c - 55)"

text \<open>
  \<^verbatim>\<open>parseInt(str)\<close> without a radix: leading white space, an optional sign, an optional
  \<^verbatim>\<open>0x\<close> that selects radix 16, then the longest run of digits; \<^const>\<open>None\<close> is
  \<^verbatim>\<open>NaN\<close>. The result is the exact integer, which is JavaScript's result up to
  \<^verbatim>\<open>2^53\<close>; above that JavaScript rounds to a double.
\<close>

definition parseInt :: "string \<Rightarrow> int option" where
  "parseInt str =
     (let s1 = dropWhile is_space str;
          negative = (take 1 s1 = ''-'');
          s2 = (if take 1 s1 = ''+'' \<or> take 1 s1 = ''-'' then drop 1 s1 else s1);
          hex = (take 2 s2 = ''0x'' \<or> take 2 s2 = ''0X'');
          radix = (if hex then 16 else 10);
          ds = (if hex then takeWhile is_hex_digit (drop 2 s2) else takeWhile is_digit s2);
          magnitude = foldl (\<lambda>acc c. acc * radix + digit_value c) 0 ds
      in if ds = [] then None
         else Some (if negative then - int magnitude else int magnitude))"

text \<open>
  The query string as \<^verbatim>\<open>Object.fromEntries(searchParams)\<close>: every value present is a
  string.
\<close>

record NoteQueryParams =
  q_page :: "string option"
  q_limit :: "string option"
  q_search :: "string option"
  q_tags :: "string option"
  q_sortBy :: "string option"
  q_sortOrder :: "string option"

text \<open>
  \<^verbatim>\<open>validateNoteQueryParams\<close>. The validated query copies each field that passed its
  check, so without errors it is the query itself.
\<close>

definition validateNoteQueryParams :: "NoteQueryParams \<Rightarrow> string list + NoteQueryParams" where
  "validateNoteQueryParams query =
     (let errors =
            (case q_page query of
               None \<Rightarrow> []
             | Some p \<Rightarrow>
                 (case parseInt p of
                    None \<Rightarrow> [''Page must be a positive integer'']
                  | Some n \<Rightarrow> if n < 1 then [''Page must be a positive integer''] else []))
            @ (case q_limit query of
                 None \<Rightarrow> []
               | Some l \<Rightarrow>
                   (case parseInt l of
                      None \<Rightarrow> [''Limit must be between 1 and 100'']
                    | Some n \<Rightarrow>
                        if n < 1 \<or> n > 100 then [''Limit must be between 1 and 100''] else []))
            @ (case q_search query of
                 None \<Rightarrow> []
               | Some q \<Rightarrow>
                   if length q > 200 then [''Search query must be 200 characters or less'']
                   else [])
            @ (case q_sortBy query of
                 None \<Rightarrow> []
               | Some f \<Rightarrow>
                   if f \<notin> set [''createdAt'', ''updatedAt'', ''title'']
                   then [''SortBy must be one of: createdAt, updatedAt, title'']
                   else [])
            @ (case q_sortOrder query of
                 None \<Rightarrow> []
               | Some ord \<Rightarrow>
                   if ord \<notin> set [''asc'', ''desc''] then [''SortOrder must be either asc or desc'']
                   else [])
      in if length errors > 0 then Inl errors else Inr query)"

text \<open>
  The datastore's \<^verbatim>\<open>contains\<close> with \<^verbatim>\<open>mode: 'insensitive'\<close>: a substring test
  that ignores the case of the ASCII letters.
\<close>

definition to_lower :: "char \<Rightarrow> char" where
  "to_lower c = (if is_upper c then char_of (of_char c + (32::nat)) else c)"

fun contains :: "string \<Rightarrow> string \<Rightarrow> bool" where
  "contains [] needle = (needle = [])"
| "contains (c # cs) needle = (take (length needle) (c # cs) = needle \<or> contains cs needle)"

definition contains_insensitive :: "string \<Rightarrow> string \<Rightarrow> bool" where
  "contains_insensitive hay needle = contains (map to_lower hay) (map to_lower needle)"

text \<open>
  \<^verbatim>\<open>orderBy[sortBy] = sortOrder\<close>: strings are compared code unit by code unit; a
  descending order is the ascending one reversed.
\<close>

definition order_notes :: "string \<Rightarrow> string \<Rightarrow> Note list \<Rightarrow> Note list" where
  "order_notes sortBy sortOrder rows =
     (let ascending =
            (if sortBy = ''title'' then sort_key n_title rows
             else if sortBy = ''updatedAt'' then sort_key n_updatedAt rows
             else sort_key n_createdAt rows)
      in if sortOrder = ''desc'' then rev ascending else ascending)"

text \<open>The \<^verbatim>\<open>where\<close> clause of the listing: the caller's tenant, and the search if any.\<close>

definition list_where :: "UserContext \<Rightarrow> string option \<Rightarrow> Note \<Rightarrow> bool" where
  "list_where ctx search n =
     (n_tenantId n = tenantId ctx \<and>
      (case search of
         None \<Rightarrow> True
       | Some q \<Rightarrow>
           if q = [] then True
           else contains_insensitive (n_title n) q \<or> contains_insensitive (n_content n) q))"

text \<open>
  \<^verbatim>\<open>GET /api/notes\<close>. A page or limit that is \<^verbatim>\<open>NaN\<close> would be refused by the
  datastore client (the validation excludes it).
\<close>

definition notes_GET :: "UserContext option \<Rightarrow> NoteQueryParams \<Rightarrow> store \<Rightarrow> response \<times> store" where
  "notes_GET token_ctx query s =
     (case token_ctx of
        None \<Rightarrow> (createApiError ''Failed to retrieve notes'' 500, s)
      | Some ctx \<Rightarrow>
          if userId ctx = [] \<or> tenantId ctx = [] then
            (createApiError ''Authentication required'' 401, s)
          else
            (case validateNoteQueryParams query of
               Inl errors \<Rightarrow>
                 (createValidationError (''Query validation failed: '' @ join_errors errors), s)
             | Inr q \<Rightarrow>
                 let page = (case q_page q of Some p \<Rightarrow> p | None \<Rightarrow> ''1'');
                     lim = (case q_limit q of Some l \<Rightarrow> l | None \<Rightarrow> ''10'');
                     search = q_search q;
                     sortBy = (case q_sortBy q of Some f \<Rightarrow> f | None \<Rightarrow> ''createdAt'');
                     sortOrder = (case q_sortOrder q of Some ord \<Rightarrow> ord | None \<Rightarrow> ''desc'')
                 in (case (parseInt page, parseInt lim) of
                       (Some pageNum, Some limitNum) \<Rightarrow>
                         let skip = (pageNum - 1) * limitNum;
                             matching = filter (list_where ctx search) (note_rows s);
                             found = take (nat limitNum)
                                       (drop (nat skip) (order_notes sortBy sortOrder matching));
                             totalCount = int (length matching);
                             totalPages = (totalCount + limitNum - 1) div limitNum;
                             hasNextPage = (pageNum < totalPages);
                             hasPrevPage = (pageNum > 1)
                         in (case getSubscriptionStatus (tenantId ctx) s of
                               None \<Rightarrow> (createApiError ''Failed to retrieve notes'' 500, s)
                             | Some subscriptionStatus \<Rightarrow>
                                 (createApiResponse
                                    (JObj [(''notes'', JArr (map (note_json s) found)),
                                           (''pagination'',
                                            JObj [(''page'', JNum pageNum),
                                                  (''limit'', JNum limitNum),
                                                  (''totalCount'', JNum totalCount),
                                                  (''totalPages'', JNum totalPages),
                                                  (''hasNextPage'', JBool hasNextPage),
                                                  (''hasPrevPage'', JBool hasPrevPage)]),
                                           (''subscription'', subscription_json subscriptionStatus)])
                                    ''Notes retrieved successfully'' 200, s))
                     | _ \<Rightarrow> (createApiError ''Failed to retrieve notes'' 500, s))))"


section \<open>Authorization\<close>

datatype Permission =
    CREATE_NOTE | READ_OWN_NOTES | READ_ALL_NOTES | UPDATE_OWN_NOTES | UPDATE_ALL_NOTES
  | DELETE_OWN_NOTES | DELETE_ALL_NOTES
  | INVITE_USERS | LIST_USERS | UPDATE_USER_ROLES | DELETE_USERS
  | UPGRADE_SUBSCRIPTION | VIEW_TENANT_STATS | MANAGE_TENANT_SETTINGS

fun PERMISSIONS :: "Permission \<Rightarrow> Role list" where
  "PERMISSIONS CREATE_NOTE = [ADMIN, MEMBER]"
| "PERMISSIONS READ_OWN_NOTES = [ADMIN, MEMBER]"
| "PERMISSIONS READ_ALL_NOTES = [ADMIN]"
| "PERMISSIONS UPDATE_OWN_NOTES = [ADMIN, MEMBER]"
| "PERMISSIONS UPDATE_ALL_NOTES = [ADMIN]"
| "PERMISSIONS DELETE_OWN_NOTES = [ADMIN, MEMBER]"
| "PERMISSIONS DELETE_ALL_NOTES = [ADMIN]"
| "PERMISSIONS INVITE_USERS = [ADMIN]"
| "PERMISSIONS LIST_USERS = [ADMIN]"
| "PERMISSIONS UPDATE_USER_ROLES = [ADMIN]"
| "PERMISSIONS DELETE_USERS = [ADMIN]"
| "PERMISSIONS UPGRADE_SUBSCRIPTION = [ADMIN]"
| "PERMISSIONS VIEW_TENANT_STATS = [ADMIN]"
| "PERMISSIONS MANAGE_TENANT_SETTINGS = [ADMIN]"

definition hasPermission :: "Role \<Rightarrow> Permission \<Rightarrow> bool" where
  "hasPermission r permission = list_ex (\<lambda>allowedRole. allowedRole = r) (PERMISSIONS permission)"

text \<open>
  \<^verbatim>\<open>canPerformAction\<close>; the optional owner is \<^const>\<open>None\<close> when the argument is
  left out, and \<^verbatim>\<open>!resourceOwnerId\<close> also holds of the empty string.
\<close>

definition canPerformAction :: "UserContext \<Rightarrow> Permission \<Rightarrow> string option \<Rightarrow> bool" where
  "canPerformAction ctx permission resourceOwnerId =
     (if \<not> hasPermission (role ctx) permission then False
      else
        (case resourceOwnerId of
           None \<Rightarrow> True
         | Some owner \<Rightarrow>
             if owner = [] then True
             else if role ctx = ADMIN then True
             else userId ctx = owner))"

section \<open>The tenant-aware repository\<close>

definition findNoteById :: "string \<Rightarrow> string \<Rightarrow> store \<Rightarrow> Note option" where
  "findNoteById repoTenantId noteId s =
     find (\<lambda>n. n_id n = noteId \<and> n_tenantId n = repoTenantId) (note_rows s)"

text \<open>
  \<^verbatim>\<open>listNotes\<close>, newest update first; \<^verbatim>\<open>...(authorId && {authorId})\<close> adds the
  author to the filter when it is a non-empty string.
\<close>

definition listNotes :: "string \<Rightarrow> nat \<Rightarrow> nat \<Rightarrow> string option \<Rightarrow> store \<Rightarrow> Note list" where
  "listNotes repoTenantId skip tk authorId s =
     take tk (drop skip (rev (sort_key n_updatedAt
       (filter (\<lambda>n. n_tenantId n = repoTenantId \<and>
                     (case authorId of
                        None \<Rightarrow> True
                      | Some a \<Rightarrow> a = [] \<or> n_authorId n = a))
          (note_rows s)))))"

section \<open>Invitations\<close>

text \<open>
  The invitation handlers answer with \<^verbatim>\<open>NextResponse.json\<close> directly. Two parts of
  the validation library are parameters: \<open>is_email\<close>, the test behind
  \<^verbatim>\<open>z.string().email()\<close>, and \<open>issues\<close>, the list of \<^verbatim>\<open>{field, message}\<close> objects
  made from the issues it reports for a body the schema rejects.
\<close>

definition bare_error :: "string \<Rightarrow> nat \<Rightarrow> response" where
  "bare_error err st = \<lparr>status = st, body = JObj [(''error'', JStr err)]\<rparr>"

text \<open>
  \<^verbatim>\<open>inviteRequestSchema\<close>: a strict object (no key besides the two) with an email
  and a role of the enum.
\<close>

definition parse_invite :: "(string \<Rightarrow> bool) \<Rightarrow> json \<Rightarrow> (string \<times> Role) option" where
  "parse_invite is_email b =
     (case b of
        JObj kvs \<Rightarrow>
          if \<not> list_all (\<lambda>k. k = ''email'' \<or> k = ''role'') (map fst kvs) then None
          else
            (case (map_of kvs ''email'', map_of kvs ''role'') of
               (Some (JStr e), Some (JStr r)) \<Rightarrow>
                 if \<not> is_email e then None
                 else if r = ''ADMIN'' then Some (e, ADMIN)
                 else if r = ''MEMBER'' then Some (e, MEMBER)
                 else None
             | _ \<Rightarrow> None)
      | _ \<Rightarrow> None)"

text \<open>
  \<^verbatim>\<open>getExpirationDate\<close>: seven days after the call. The days are days of 24 hours,
  which is what \<^verbatim>\<open>setDate(getDate() + 7)\<close> adds in UTC; in a time zone that changes
  its offset within the seven days the code's instant is an hour earlier or later.
\<close>

definition getExpirationDate :: "nat \<Rightarrow> nat" where
  "getExpirationDate now = now + 7 * 24 * 60 * 60 * 1000"

fun status_json :: "InvitationStatus \<Rightarrow> json" where
  "status_json PENDING = JStr ''PENDING''"
| "status_json ACCEPTED = JStr ''ACCEPTED''"
| "status_json EXPIRED = JStr ''EXPIRED''"
| "status_json CANCELLED = JStr ''CANCELLED''"

text \<open>
  \<^verbatim>\<open>POST /api/users/invite\<close>. \<^verbatim>\<open>getUserContextFromToken\<close> returns an object or
  throws, so the branch for a falsy context is never taken; a throw, here and in
  \<^verbatim>\<open>request.json()\<close>, ends in the \<^verbatim>\<open>catch\<close> with a 500. The datastore supplies
  \<open>newId\<close>, the random generator \<open>newToken\<close>, and \<open>appUrl\<close> is the configured base
  address (empty when unset). The datastore refuses an invitation whose identifier or token
  exists and one whose inviter is no row of the users table.
\<close>

definition invite_POST ::
  "(string \<Rightarrow> bool) \<Rightarrow> (json \<Rightarrow> json) \<Rightarrow> string \<Rightarrow> nat \<Rightarrow> string \<Rightarrow> string
     \<Rightarrow> UserContext option \<Rightarrow> json option \<Rightarrow> store \<Rightarrow> response \<times> store" where
  "invite_POST is_email issues appUrl now newId newToken token_ctx requestBody s =
     (case token_ctx of
        None \<Rightarrow> (bare_error ''Internal server error'' 500, s)
      | Some userContext \<Rightarrow>
          if role userContext \<noteq> ADMIN then
            (bare_error ''Admin access required. Only administrators can invite users.'' 403, s)
          else
            (case requestBody of
               None \<Rightarrow> (bare_error ''Internal server error'' 500, s)
             | Some b \<Rightarrow>
                 (case parse_invite is_email b of
                    None \<Rightarrow>
                      (\<lparr>status = 400,
                        body = JObj [(''error'', JStr ''Invalid request data''),
                                     (''details'', issues b)]\<rparr>, s)
                  | Some (em, r) \<Rightarrow>
                      if list_ex (\<lambda>u. u_email u = em \<and> u_tenantId u = tenantId userContext)
                           (user_rows s) then
                        (bare_error ''User already exists in this organization'' 409, s)
                      else if list_ex (\<lambda>i. i_email i = em \<and> i_tenantId i = tenantId userContext
                                            \<and> i_status i = PENDING) (invitation_rows s) then
                        (bare_error ''Invitation already sent to this email address'' 409, s)
                      else
                        (case find (\<lambda>t. t_id t = tenantId userContext) (tenant_rows s) of
                           None \<Rightarrow> (bare_error ''Tenant not found'' 404, s)
                         | Some tenant \<Rightarrow>
                             let currentUserCount =
                                   length (filter (\<lambda>u. u_tenantId u = tenantId userContext)
                                             (user_rows s));
                                 pendingInvitationCount =
                                   length (filter (\<lambda>i. i_tenantId i = tenantId userContext
                                                        \<and> i_status i = PENDING)
                                             (invitation_rows s));
                                 totalPotentialUsers = currentUserCount + pendingInvitationCount + 1
                             in if t_plan tenant = FREE \<and> totalPotentialUsers > 5 then
                                  (\<lparr>status = 403,
                                    body = JObj [(''error'', JStr ''User limit exceeded''),
                                                 (''message'', JStr ''FREE plan allows up to 5 users. Upgrade to PRO for unlimited users.''),
                                                 (''currentUsers'', JNum (int currentUserCount)),
                                                 (''pendingInvitations'',
                                                  JNum (int pendingInvitationCount)),
                                                 (''limit'', JNum 5)]\<rparr>, s)
                                else
                                  (case find (\<lambda>u. u_id u = userId userContext) (user_rows s) of
                                     None \<Rightarrow> (bare_error ''Internal server error'' 500, s)
                                   | Some inviter \<Rightarrow>
                                       if list_ex (\<lambda>i. i_id i = newId \<or> i_token i = newToken)
                                            (invitation_rows s) then
                                         (bare_error ''Internal server error'' 500, s)
                                       else
                                         let invitation =
                                               \<lparr>i_id = newId, i_email = em, i_role = r,
                                                i_token = newToken, i_status = PENDING,
                                                i_tenantId = tenantId userContext,
                                                i_invitedBy = userId userContext,
                                                i_expiresAt = getExpirationDate now,
                                                i_acceptedAt = None, i_createdAt = now\<rparr>;
                                             s' = s\<lparr>invitation_rows := invitation_rows s @ [invitation]\<rparr>;
                                             invitationLink =
                                               (if appUrl = [] then ''http://localhost:3000''
                                                else appUrl)
                                               @ ''/invite/accept?token='' @ newToken
                                         in (\<lparr>status = 201,
                                              body = JObj
                                                [(''message'', JStr ''Invitation sent successfully''),
                                                 (''invitation'',
                                                  JObj [(''id'', JStr (i_id invitation)),
                                                        (''email'', JStr (i_email invitation)),
                                                        (''role'', role_json (i_role invitation)),
                                                        (''status'', status_json (i_status invitation)),
                                                        (''expiresAt'',
                                                         JNum (int (i_expiresAt invitation))),
                                                        (''tenantName'', JStr (t_name tenant)),
                                                        (''invitedBy'', JStr (u_email inviter)),
                                                        (''invitationToken'', JStr newToken),
                                                        (''invitationLink'',
                                                         JStr invitationLink)])]\<rparr>, s'))))))"


subsection \<open>Accepting an invitation\<close>

text \<open>
  \<^verbatim>\<open>acceptInvitationSchema\<close>: an object with a non-empty token, a password of at least
  8 characters and a non-empty confirmation equal to the password; other keys are ignored.
\<close>

definition parse_accept :: "json \<Rightarrow> (string \<times> string) option" where
  "parse_accept b =
     (case b of
        JObj kvs \<Rightarrow>
          (case (map_of kvs ''token'', map_of kvs ''password'', map_of kvs ''confirmPassword'') of
             (Some (JStr tok), Some (JStr pw), Some (JStr cpw)) \<Rightarrow>
               if length tok \<ge> 1 \<and> length pw \<ge> 8 \<and> length cpw \<ge> 1 \<and> pw = cpw
               then Some (tok, pw) else None
           | _ \<Rightarrow> None)
      | _ \<Rightarrow> None)"

text \<open>
  The two writes of the datastore that the handler uses, \<^const>\<open>None\<close> when the datastore
  throws. \<^verbatim>\<open>user.create\<close> fails on an identifier that exists, on an email that exists
  in the tenant, and on a tenant that does not exist; \<^verbatim>\<open>invitation.update\<close> fails when
  no row has the identifier.
\<close>

definition user_create :: "User \<Rightarrow> store \<Rightarrow> store option" where
  "user_create u s =
     (if list_ex (\<lambda>x. u_id x = u_id u) (user_rows s)
         \<or> list_ex (\<lambda>x. u_email x = u_email u \<and> u_tenantId x = u_tenantId u) (user_rows s)
         \<or> \<not> list_ex (\<lambda>t. t_id t = u_tenantId u) (tenant_rows s)
      then None
      else Some (s\<lparr>user_rows := user_rows s @ [u]\<rparr>))"

definition invitation_update :: "string \<Rightarrow> (Invitation \<Rightarrow> Invitation) \<Rightarrow> store \<Rightarrow> store option" where
  "invitation_update ident change s =
     (if \<not> list_ex (\<lambda>i. i_id i = ident) (invitation_rows s) then None
      else Some (s\<lparr>invitation_rows :=
                     map (\<lambda>i. if i_id i = ident then change i else i) (invitation_rows s)\<rparr>))"

text \<open>
  The client \<^verbatim>\<open>tx\<close> that \<^verbatim>\<open>prisma.$transaction\<close> hands to its callback. A
  write through it returns \<^const>\<open>None\<close> when it throws, for a reason that the rows
  give or for any other (a lost connection, a time-out, a row that another request has
  removed). \<open>prisma_client\<close> is the client of a datastore that throws for no other
  reason than the rows.
\<close>

record tx_client =
  tx_user_create :: "User \<Rightarrow> store \<Rightarrow> store option"
  tx_invitation_update :: "string \<Rightarrow> (Invitation \<Rightarrow> Invitation) \<Rightarrow> store \<Rightarrow> store option"

definition prisma_client :: tx_client where
  "prisma_client = \<lparr>tx_user_create = user_create, tx_invitation_update = invitation_update\<rparr>"

text \<open>
  \<^verbatim>\<open>prisma.$transaction\<close>: the body runs on the store; when it throws, the store is
  the one before the transaction.
\<close>

definition prisma_transaction ::
  "(store \<Rightarrow> ('a \<times> store) option) \<Rightarrow> store \<Rightarrow> 'a option \<times> store" where
  "prisma_transaction tx_body s =
     (case tx_body s of
        None \<Rightarrow> (None, s)
      | Some (result, s') \<Rightarrow> (Some result, s'))"

definition mark_accepted :: "nat \<Rightarrow> Invitation \<Rightarrow> Invitation" where
  "mark_accepted now i = i\<lparr>i_status := ACCEPTED, i_acceptedAt := Some now\<rparr>"

definition mark_expired :: "Invitation \<Rightarrow> Invitation" where
  "mark_expired i = i\<lparr>i_status := EXPIRED\<rparr>"

text \<open>
  The body of the transaction, the callback with its parameter \<^verbatim>\<open>tx\<close>: create the
  user, then update the invitation.
\<close>

definition accept_tx ::
  "tx_client \<Rightarrow> User \<Rightarrow> string \<Rightarrow> nat \<Rightarrow> store \<Rightarrow> (User \<times> store) option" where
  "accept_tx tx newUser invitationId now s =
     (case tx_user_create tx newUser s of
        None \<Rightarrow> None
      | Some s1 \<Rightarrow>
          (case tx_invitation_update tx invitationId (mark_accepted now) s1 of
             None \<Rightarrow> None
           | Some s2 \<Rightarrow> Some (newUser, s2)))"

text \<open>
  \<^verbatim>\<open>POST /api/users/invite/accept\<close>. \<open>tx\<close> is the client of the transaction,
  \<open>bcrypt_hash\<close> is the password hashing library,
  \<open>now\<close> the value of \<^verbatim>\<open>new Date()\<close>, \<open>newId\<close> the identifier the datastore gives
  the new user. The invitation is read with its tenant; reading the plan of a tenant that is
  not there throws.
\<close>

definition accept_POST_with ::
  "tx_client \<Rightarrow> (json \<Rightarrow> json) \<Rightarrow> (string \<Rightarrow> nat \<Rightarrow> string) \<Rightarrow> nat \<Rightarrow> string
     \<Rightarrow> json option \<Rightarrow> store \<Rightarrow> response \<times> store" where
  "accept_POST_with tx issues bcrypt_hash now newId requestBody s =
     (case requestBody of
        None \<Rightarrow> (bare_error ''Internal server error'' 500, s)
      | Some b \<Rightarrow>
          (case parse_accept b of
             None \<Rightarrow>
               (\<lparr>status = 400,
                 body = JObj [(''error'', JStr ''Invalid request data''), (''details'', issues b)]\<rparr>, s)
           | Some (tok, password) \<Rightarrow>
               (case find (\<lambda>i. i_token i = tok \<and> i_status i = PENDING) (invitation_rows s) of
                  None \<Rightarrow> (bare_error ''Invalid or expired invitation token'' 404, s)
                | Some invitation \<Rightarrow>
                    if i_expiresAt invitation < now then
                      (case invitation_update (i_id invitation) mark_expired s of
                         None \<Rightarrow> (bare_error ''Internal server error'' 500, s)
                       | Some s' \<Rightarrow> (bare_error ''Invitation has expired'' 410, s'))
                    else if list_ex (\<lambda>u. u_email u = i_email invitation
                                          \<and> u_tenantId u = i_tenantId invitation) (user_rows s) then
                      (case invitation_update (i_id invitation) (mark_accepted now) s of
                         None \<Rightarrow> (bare_error ''Internal server error'' 500, s)
                       | Some s' \<Rightarrow>
                           (bare_error ''User already exists in this organization'' 409, s'))
                    else
                      let currentUserCount =
                            length (filter (\<lambda>u. u_tenantId u = i_tenantId invitation) (user_rows s))
                      in (case find (\<lambda>t. t_id t = i_tenantId invitation) (tenant_rows s) of
                            None \<Rightarrow> (bare_error ''Internal server error'' 500, s)
                          | Some tenant \<Rightarrow>
                              if t_plan tenant = FREE \<and> currentUserCount \<ge> 5 then
                                (\<lparr>status = 403,
                                  body = JObj [(''error'', JStr ''User limit exceeded''),
                                               (''message'', JStr ''This organization has reached its user limit. Please contact an administrator to upgrade the plan.''),
                                               (''currentUsers'', JNum (int currentUserCount)),
                                               (''limit'', JNum 5)]\<rparr>, s)
                              else
                                let hashedPassword = bcrypt_hash password 12;
                                    newUser = \<lparr>u_id = newId, u_email = i_email invitation,
                                               u_password = hashedPassword,
                                               u_role = i_role invitation,
                                               u_tenantId = i_tenantId invitation\<rparr>
                                in (case prisma_transaction
                                           (accept_tx tx newUser (i_id invitation) now) s of
                                      (None, s') \<Rightarrow> (bare_error ''Internal server error'' 500, s')
                                    | (Some result, s') \<Rightarrow>
                                        (\<lparr>status = 201,
                                          body = JObj
                                            [(''message'', JStr ''Account created successfully''),
                                             (''user'',
                                              JObj [(''id'', JStr (u_id result)),
                                                    (''email'', JStr (u_email result)),
                                                    (''role'', role_json (u_role result)),
                                                    (''tenantId'', JStr (u_tenantId result)),
                                                    (''tenantName'', JStr (t_name tenant)),
                                                    (''tenantSlug'', JStr (t_slug tenant))])]\<rparr>,
                                         s'))))))"

text \<open>The handler on a datastore whose writes throw for no other reason than the rows.\<close>

definition accept_POST ::
  "(json \<Rightarrow> json) \<Rightarrow> (string \<Rightarrow> nat \<Rightarrow> string) \<Rightarrow> nat \<Rightarrow> string
     \<Rightarrow> json option \<Rightarrow> store \<Rightarrow> response \<times> store" where
  "accept_POST issues bcrypt_hash now newId requestBody s =
     accept_POST_with prisma_client issues bcrypt_hash now newId requestBody s"

text \<open>
  \<^verbatim>\<open>GET /api/users/invite/accept?token=\<close>, which validates a token; the token is
  \<^const>\<open>None\<close> when the parameter is absent.
\<close>

definition accept_GET :: "nat \<Rightarrow> string option \<Rightarrow> store \<Rightarrow> response \<times> store" where
  "accept_GET now token s =
     (case token of
        None \<Rightarrow> (bare_error ''Token is required'' 400, s)
      | Some tok \<Rightarrow>
          if tok = [] then (bare_error ''Token is required'' 400, s)
          else
            (case find (\<lambda>i. i_token i = tok \<and> i_status i = PENDING) (invitation_rows s) of
               None \<Rightarrow> (bare_error ''Invalid invitation token'' 404, s)
             | Some invitation \<Rightarrow>
                 if i_expiresAt invitation < now then
                   (case invitation_update (i_id invitation) mark_expired s of
                      None \<Rightarrow> (bare_error ''Internal server error'' 500, s)
                    | Some s' \<Rightarrow> (bare_error ''Invitation has expired'' 410, s'))
                 else if list_ex (\<lambda>u. u_email u = i_email invitation
                                       \<and> u_tenantId u = i_tenantId invitation) (user_rows s) then
                   (bare_error ''User already exists in this organization'' 409, s)
                 else
                   (case (find (\<lambda>t. t_id t = i_tenantId invitation) (tenant_rows s),
                          find (\<lambda>u. u_id u = i_invitedBy invitation) (user_rows s)) of
                      (Some tenant, Some inviter) \<Rightarrow>
                        (\<lparr>status = 200,
                          body = JObj
                            [(''invitation'',
                              JObj [(''email'', JStr (i_email invitation)),
                                    (''role'', role_json (i_role invitation)),
                                    (''tenantName'', JStr (t_name tenant)),
                                    (''invitedBy'', JStr (u_email inviter)),
                                    (''expiresAt'', JNum (int (i_expiresAt invitation)))])]\<rparr>, s)
                    | _ \<Rightarrow> (bare_error ''Internal server error'' 500, s))))"

subsection \<open>Listing the invitations\<close>

text \<open>The query string of the listing; \<^const>\<open>None\<close> is what \<^verbatim>\<open>get\<close> returns as null.\<close>

record InvitationQuery =
  iq_status :: "string option"
  iq_page :: "string option"
  iq_limit :: "string option"

text \<open>\<^verbatim>\<open>value || fallback\<close> on a string that may be null.\<close>

definition or_default :: "string option \<Rightarrow> string \<Rightarrow> string" where
  "or_default v fallback = (case v of None \<Rightarrow> fallback | Some x \<Rightarrow> if x = [] then fallback else x)"

text \<open>
  \<^verbatim>\<open>Math.ceil(total / limit)\<close>: division by zero gives \<^verbatim>\<open>NaN\<close> for a zero total
  and \<^verbatim>\<open>Infinity\<close> otherwise.
\<close>

definition ceil_div_json :: "int \<Rightarrow> int \<Rightarrow> json" where
  "ceil_div_json totalCount limitNum =
     (if limitNum = 0 then (if totalCount = 0 then JNaN else JInfinity)
      else JNum (- ((- totalCount) div limitNum)))"

fun nat_option_json :: "nat option \<Rightarrow> json" where
  "nat_option_json None = JNull"
| "nat_option_json (Some t) = JNum (int t)"

text \<open>
  One element of the listing; reading the email of an inviter that is no row of the users
  table throws (\<^const>\<open>None\<close>).
\<close>

definition invitation_json :: "store \<Rightarrow> Invitation \<Rightarrow> json option" where
  "invitation_json s invitation =
     (case find (\<lambda>u. u_id u = i_invitedBy invitation) (user_rows s) of
        None \<Rightarrow> None
      | Some inviter \<Rightarrow>
          Some (JObj [(''id'', JStr (i_id invitation)),
                      (''email'', JStr (i_email invitation)),
                      (''role'', role_json (i_role invitation)),
                      (''status'', status_json (i_status invitation)),
                      (''expiresAt'', JNum (int (i_expiresAt invitation))),
                      (''acceptedAt'', nat_option_json (i_acceptedAt invitation)),
                      (''createdAt'', JNum (int (i_createdAt invitation))),
                      (''invitedBy'', JStr (u_email inviter))]))"

fun all_some :: "'a option list \<Rightarrow> 'a list option" where
  "all_some [] = Some []"
| "all_some (None # rest) = None"
| "all_some (Some x # rest) = (case all_some rest of None \<Rightarrow> None | Some xs \<Rightarrow> Some (x # xs))"

text \<open>
  The datastore's \<^verbatim>\<open>skip\<close> and \<^verbatim>\<open>take\<close> on ordered rows: a negative
  \<^verbatim>\<open>take\<close> counts from the end of the order.
\<close>

definition skip_take :: "nat \<Rightarrow> int \<Rightarrow> 'a list \<Rightarrow> 'a list" where
  "skip_take skip tk rows =
     (if tk \<ge> 0 then take (nat tk) (drop skip rows)
      else rev (take (nat (- tk)) (drop skip (rev rows))))"

text \<open>
  \<^verbatim>\<open>GET /api/users/invite\<close>, for administrators. The status filter applies when the
  parameter is one of the four status names. The datastore client refuses a page or limit
  that is \<^verbatim>\<open>NaN\<close> and a negative \<^verbatim>\<open>skip\<close>; the \<^verbatim>\<open>catch\<close> answers 500.
\<close>

definition status_of_name :: "string \<Rightarrow> InvitationStatus option" where
  "status_of_name n =
     (if n = ''PENDING'' then Some PENDING
      else if n = ''ACCEPTED'' then Some ACCEPTED
      else if n = ''EXPIRED'' then Some EXPIRED
      else if n = ''CANCELLED'' then Some CANCELLED
      else None)"

definition invitations_where :: "UserContext \<Rightarrow> string option \<Rightarrow> Invitation \<Rightarrow> bool" where
  "invitations_where userContext st i =
     (i_tenantId i = tenantId userContext \<and>
      (case st of
         None \<Rightarrow> True
       | Some n \<Rightarrow> (case status_of_name n of None \<Rightarrow> True | Some wanted \<Rightarrow> i_status i = wanted)))"

definition invitations_GET ::
  "UserContext option \<Rightarrow> InvitationQuery \<Rightarrow> store \<Rightarrow> response \<times> store" where
  "invitations_GET token_ctx query s =
     (case token_ctx of
        None \<Rightarrow> (bare_error ''Internal server error'' 500, s)
      | Some userContext \<Rightarrow>
          if role userContext \<noteq> ADMIN then (bare_error ''Admin access required'' 403, s)
          else
            (case (parseInt (or_default (iq_page query) ''1''),
                   parseInt (or_default (iq_limit query) ''10'')) of
               (Some page, Some parsedLimit) \<Rightarrow>
                 let limit = min parsedLimit 50;
                     offset = (page - 1) * limit;
                     matching = filter (invitations_where userContext (iq_status query))
                                  (invitation_rows s);
                     totalCount = int (length matching)
                 in if offset < 0 then (bare_error ''Internal server error'' 500, s)
                    else
                      (case all_some (map (invitation_json s)
                                        (skip_take (nat offset) limit
                                           (rev (sort_key i_createdAt matching)))) of
                         None \<Rightarrow> (bare_error ''Internal server error'' 500, s)
                       | Some listed \<Rightarrow>
                           (\<lparr>status = 200,
                             body = JObj [(''invitations'', JArr listed),
                                          (''pagination'',
                                           JObj [(''page'', JNum page),
                                                 (''limit'', JNum limit),
                                                 (''total'', JNum totalCount),
                                                 (''totalPages'', ceil_div_json totalCount limit)])]\<rparr>,
                            s))
             | _ \<Rightarrow> (bare_error ''Internal server error'' 500, s)))"

section \<open>Sessions and tokens\<close>

text \<open>
  The token library is a parameter. \<open>jwt_verify\<close> is \<^verbatim>\<open>verify(token, secret)\<close>,
  \<open>jwt_verify_app\<close> is the same with the issuer and the audience of the application, and
  \<open>jwt_sign\<close> is \<^verbatim>\<open>sign\<close> with these and an expiry of 24 hours. Each returns
  \<^const>\<open>None\<close> when the library throws, which includes a missing secret. A decoded
  payload is an object; its \<^verbatim>\<open>exp\<close>, when present, is a number of seconds.
\<close>

record jwt_library =
  jwt_verify :: "string \<Rightarrow> json option"
  jwt_verify_app :: "string \<Rightarrow> json option"
  jwt_sign :: "json \<Rightarrow> string option"

definition createApiResponse_data :: "json \<Rightarrow> response" where
  \<comment> \<open>\<^verbatim>\<open>createApiResponse(data)\<close>: no message, and the status 200 of the default\<close>
  "createApiResponse_data data =
     \<lparr>status = 200, body = JObj [(''success'', JBool True), (''data'', data)]\<rparr>"

definition createForbiddenError :: response where
  "createForbiddenError = createApiError ''Forbidden'' 403"

text \<open>An object literal some of whose values may be \<^verbatim>\<open>undefined\<close>.\<close>

definition js_object :: "(string \<times> json option) list \<Rightarrow> json" where
  "js_object props =
     JObj (concat (map (\<lambda>(k, v). case v of None \<Rightarrow> [] | Some j \<Rightarrow> [(k, j)]) props))"

text \<open>
  \<^verbatim>\<open>getAuthToken\<close>, on the value of the \<^verbatim>\<open>authorization\<close> header
  (\<^const>\<open>None\<close> when the header is absent).
\<close>

definition getAuthToken :: "string option \<Rightarrow> string option" where
  "getAuthToken authHeader =
     (case authHeader of
        None \<Rightarrow> None
      | Some h \<Rightarrow> if h = [] \<or> take 7 h \<noteq> ''Bearer '' then None else Some (drop 7 h))"

definition verifyJWT :: "jwt_library \<Rightarrow> string \<Rightarrow> json option" where
  "verifyJWT jwt token = jwt_verify_app jwt token"

definition getCurrentUser :: "jwt_library \<Rightarrow> string option \<Rightarrow> json option" where
  "getCurrentUser jwt authHeader =
     (case getAuthToken authHeader of
        None \<Rightarrow> None
      | Some token \<Rightarrow> if token = [] then None else verifyJWT jwt token)"

text \<open>
  \<^verbatim>\<open>isTokenExpired\<close>; \<open>now\<close> is \<^verbatim>\<open>Date.now()\<close> in milliseconds. A payload
  without \<^verbatim>\<open>exp\<close> compares \<^verbatim>\<open>undefined\<close> with a number, which is false.
\<close>

definition isTokenExpired :: "jwt_library \<Rightarrow> nat \<Rightarrow> string \<Rightarrow> bool" where
  "isTokenExpired jwt now token =
     (case jwt_verify jwt token of
        None \<Rightarrow> True
      | Some decoded \<Rightarrow>
          (case jget decoded ''exp'' of
             Some (JNum e) \<Rightarrow> e < int (now div 1000)
           | _ \<Rightarrow> False))"

text \<open>
  \<^verbatim>\<open>getTokenExpirationTime\<close>: \<^const>\<open>None\<close> is null, \<open>Some None\<close> the invalid date
  made from a payload without \<^verbatim>\<open>exp\<close>, and otherwise the date in milliseconds.
\<close>

definition getTokenExpirationTime :: "jwt_library \<Rightarrow> string \<Rightarrow> int option option" where
  "getTokenExpirationTime jwt token =
     (case jwt_verify jwt token of
        None \<Rightarrow> None
      | Some decoded \<Rightarrow>
          (case jget decoded ''exp'' of
             Some (JNum e) \<Rightarrow> Some (Some (e * 1000))
           | _ \<Rightarrow> Some None))"

text \<open>The claims of a payload as the handlers copy them into a response.\<close>

definition payload_user_json :: "json \<Rightarrow> json" where
  "payload_user_json user =
     js_object [(''userId'', jget user ''userId''),
                (''email'', jget user ''email''),
                (''role'', jget user ''role''),
                (''tenantId'', jget user ''tenantId''),
                (''tenantSlug'', jget user ''tenantSlug'')]"

text \<open>
  The first handler of the token validation route (\<^verbatim>\<open>GET\<close>), which reports the
  expiry as well. \<^verbatim>\<open>toISOString\<close> throws on an invalid date, and the \<^verbatim>\<open>catch\<close>
  answers 401.
\<close>

definition validate_GET :: "jwt_library \<Rightarrow> nat \<Rightarrow> string option \<Rightarrow> response" where
  "validate_GET jwt now authHeader =
     (case authHeader of
        None \<Rightarrow> createApiError ''No token provided'' 401
      | Some h \<Rightarrow>
          if h = [] \<or> take 7 h \<noteq> ''Bearer '' then createApiError ''No token provided'' 401
          else
            let token = drop 7 h
            in if isTokenExpired jwt now token then createApiError ''Token has expired'' 401
               else
                 (case getCurrentUser jwt authHeader of
                    None \<Rightarrow> createApiError ''Invalid token'' 401
                  | Some user \<Rightarrow>
                      if \<not> truthy (Some user) then createApiError ''Invalid token'' 401
                      else
                        (case getTokenExpirationTime jwt token of
                           Some None \<Rightarrow> createApiError ''Token validation failed'' 401
                         | expirationTime \<Rightarrow>
                             createApiResponse_data
                               (JObj [(''message'', JStr ''Token is valid''),
                                      (''valid'', JBool True),
                                      (''user'', payload_user_json user),
                                      (''token'',
                                       js_object
                                         [(''expiresAt'',
                                           (case expirationTime of
                                              Some (Some t) \<Rightarrow> Some (JNum t)
                                            | _ \<Rightarrow> None)),
                                          (''isExpired'', Some (JBool False))])]))))"

text \<open>The logout handler (\<^verbatim>\<open>POST\<close>) and the session check (\<^verbatim>\<open>GET\<close>) beside it.\<close>

definition logout_POST :: "jwt_library \<Rightarrow> nat \<Rightarrow> string option \<Rightarrow> response" where
  "logout_POST jwt now authHeader =
     (case getCurrentUser jwt authHeader of
        None \<Rightarrow> createApiError ''Not authenticated'' 401
      | Some user \<Rightarrow>
          if \<not> truthy (Some user) then createApiError ''Not authenticated'' 401
          else createApiResponse_data
                 (JObj [(''message'', JStr ''Logout successful''),
                        (''loggedOut'', JBool True),
                        (''timestamp'', JNum (int now))]))"

definition session_GET :: "jwt_library \<Rightarrow> string option \<Rightarrow> response" where
  "session_GET jwt authHeader =
     (case getCurrentUser jwt authHeader of
        None \<Rightarrow> createApiError ''Invalid or expired token'' 401
      | Some user \<Rightarrow>
          if \<not> truthy (Some user) then createApiError ''Invalid or expired token'' 401
          else createApiResponse_data
                 (JObj [(''message'', JStr ''Token is valid''),
                        (''user'', payload_user_json user),
                        (''valid'', JBool True)]))"

text \<open>\<^verbatim>\<open>str.replace(pattern, '')\<close> with a string pattern: the first occurrence goes.\<close>

fun remove_first :: "string \<Rightarrow> string \<Rightarrow> string" where
  "remove_first pat [] = []"
| "remove_first pat (c # cs) =
     (if take (length pat) (c # cs) = pat then drop (length pat) (c # cs)
      else c # remove_first pat cs)"

text \<open>The token verification route (\<^verbatim>\<open>GET\<close>), which writes its bodies itself.\<close>

definition verify_GET :: "jwt_library \<Rightarrow> string option \<Rightarrow> response" where
  "verify_GET jwt authHeader =
     (case authHeader of
        None \<Rightarrow>
          \<lparr>status = 401,
           body = JObj [(''success'', JBool False), (''error'', JStr ''No token provided'')]\<rparr>
      | Some h \<Rightarrow>
          let token = remove_first ''Bearer '' h
          in if token = [] then
               \<lparr>status = 401,
                body = JObj [(''success'', JBool False), (''error'', JStr ''No token provided'')]\<rparr>
             else
               (case jwt_verify jwt token of
                  None \<Rightarrow>
                    \<lparr>status = 401,
                     body = JObj [(''success'', JBool False), (''error'', JStr ''Invalid token'')]\<rparr>
                | Some decoded \<Rightarrow>
                    \<lparr>status = 200,
                     body = JObj [(''success'', JBool True),
                                  (''data'', JObj [(''valid'', JBool True),
                                                   (''decoded'', decoded)])]\<rparr>))"

subsection \<open>The request middleware\<close>

text \<open>
  The middleware on a path under \<^verbatim>\<open>/api\<close> other than the login, the token
  verification and the health check. \<^const>\<open>None\<close> lets the request through to its
  handler, with the claims of the token as headers.
\<close>

definition middleware_api :: "jwt_library \<Rightarrow> string option \<Rightarrow> response option" where
  "middleware_api jwt authHeader =
     (case authHeader of
        None \<Rightarrow> Some (bare_error ''Authentication required'' 401)
      | Some h \<Rightarrow>
          let token = remove_first ''Bearer '' h
          in if token = [] then Some (bare_error ''Authentication required'' 401)
             else
               (case jwt_verify jwt token of
                  None \<Rightarrow> Some (bare_error ''Invalid token'' 401)
                | Some decoded \<Rightarrow> None))"

subsection \<open>Login\<close>

text \<open>
  \<^verbatim>\<open>/^[^\s@]+@[^\s@]+\.[^\s@]+$/\<close>: no white space, one \<^verbatim>\<open>@\<close> with text before
  it, and after it text that has a dot neither at its start nor at its end.
\<close>

definition plain_char :: "char \<Rightarrow> bool" where
  "plain_char c = (\<not> is_space c \<and> c \<noteq> CHR ''@'')"

definition emailRegex :: "string \<Rightarrow> bool" where
  "emailRegex e =
     (let localPart = takeWhile (\<lambda>c. c \<noteq> CHR ''@'') e;
          rest = dropWhile (\<lambda>c. c \<noteq> CHR ''@'') e;
          domainPart = drop 1 rest
      in localPart \<noteq> [] \<and> list_all plain_char localPart \<and> rest \<noteq> []
         \<and> list_all plain_char domainPart
         \<and> list_ex (\<lambda>c. c = CHR ''.'') (butlast (drop 1 domainPart)))"

record AuthenticatedUser =
  au_user :: User
  au_tenant :: Tenant
  au_token :: string

text \<open>
  \<^verbatim>\<open>authenticateUser\<close>: the first user with the email, in any tenant, read with its
  tenant. \<open>compare\<close> is \<^verbatim>\<open>bcrypt.compare\<close>. Every throw inside ends in the
  \<^verbatim>\<open>catch\<close>, which returns null.
\<close>

definition authenticateUser ::
  "jwt_library \<Rightarrow> (string \<Rightarrow> string \<Rightarrow> bool) \<Rightarrow> string \<Rightarrow> string \<Rightarrow> store
     \<Rightarrow> AuthenticatedUser option" where
  "authenticateUser jwt compare em password s =
     (case find (\<lambda>u. u_email u = em) (user_rows s) of
        None \<Rightarrow> None
      | Some user \<Rightarrow>
          if \<not> compare password (u_password user) then None
          else
            (case find (\<lambda>t. t_id t = u_tenantId user) (tenant_rows s) of
               None \<Rightarrow> None
             | Some tenant \<Rightarrow>
                 (case jwt_sign jwt
                         (JObj [(''userId'', JStr (u_id user)),
                                (''email'', JStr (u_email user)),
                                (''role'', role_json (u_role user)),
                                (''tenantId'', JStr (u_tenantId user)),
                                (''tenantSlug'', JStr (t_slug tenant))]) of
                    None \<Rightarrow> None
                  | Some token \<Rightarrow>
                      Some \<lparr>au_user = user, au_tenant = tenant, au_token = token\<rparr>)))"

text \<open>
  The login handler (\<^verbatim>\<open>POST\<close>). The body is \<^const>\<open>None\<close> when
  \<^verbatim>\<open>request.json()\<close> throws its syntax error; destructuring the body \<^verbatim>\<open>null\<close>
  throws a type error, which the \<^verbatim>\<open>catch\<close> answers with 500.
\<close>

definition login_POST ::
  "jwt_library \<Rightarrow> (string \<Rightarrow> string \<Rightarrow> bool) \<Rightarrow> json option \<Rightarrow> store \<Rightarrow> response" where
  "login_POST jwt compare requestBody s =
     (case requestBody of
        None \<Rightarrow> createValidationError ''Invalid JSON in request body''
      | Some b \<Rightarrow>
          if b = JNull then createApiError ''Internal server error during login'' 500
          else
            let em = jget b ''email'';
                password = jget b ''password''
            in if \<not> truthy em \<or> \<not> truthy password then
                 createValidationError ''Email and password are required''
               else if \<not> is_string em \<or> \<not> is_string password then
                 createValidationError ''Email and password must be strings''
               else if \<not> emailRegex (string_of em) then
                 createValidationError ''Invalid email format''
               else if length (string_of password) < 1 then
                 createValidationError ''Password cannot be empty''
               else
                 (case authenticateUser jwt compare (string_of em) (string_of password) s of
                    None \<Rightarrow> createApiError ''Invalid email or password'' 401
                  | Some authResult \<Rightarrow>
                      createApiResponse_data
                        (JObj [(''message'', JStr ''Login successful''),
                               (''user'',
                                JObj [(''id'', JStr (u_id (au_user authResult))),
                                      (''email'', JStr (u_email (au_user authResult))),
                                      (''role'', role_json (u_role (au_user authResult))),
                                      (''tenantId'', JStr (u_tenantId (au_user authResult)))]),
                               (''tenant'',
                                JObj [(''id'', JStr (t_id (au_tenant authResult))),
                                      (''slug'', JStr (t_slug (au_tenant authResult))),
                                      (''name'', JStr (t_name (au_tenant authResult))),
                                      (''plan'', plan_json (t_plan (au_tenant authResult)))]),
                               (''token'', JStr (au_token authResult)),
                               (''expiresIn'', JStr ''24h'')])))"

section \<open>Upgrading a tenant\<close>

text \<open>The feature flags of \<^verbatim>\<open>SUBSCRIPTION_LIMITS\<close>, in the order of the source.\<close>

fun plan_features :: "Plan \<Rightarrow> (string \<times> bool) list" where
  "plan_features FREE =
     [(''basicNotes'', True), (''advancedEditor'', False), (''apiAccess'', False),
      (''customIntegrations'', False), (''prioritySupport'', False)]"
| "plan_features PRO =
     [(''basicNotes'', True), (''advancedEditor'', True), (''apiAccess'', True),
      (''customIntegrations'', True), (''prioritySupport'', True)]"

definition getPlanDisplayName :: "Plan \<Rightarrow> string" where
  "getPlanDisplayName plan = (if plan = FREE then ''Free Plan'' else ''Pro Plan'')"

record UpgradeResult =
  ur_oldPlan :: Plan
  ur_newPlan :: Plan
  ur_timestamp :: nat
  ur_notesUnlocked :: bool
  ur_usersUnlocked :: bool
  ur_featuresUnlocked :: "string list"

text \<open>
  \<^verbatim>\<open>upgradeTenant\<close>: \<^const>\<open>Inl\<close> carries the message of the error it throws. The
  update writes the plan of the row with the identifier and returns that row.
\<close>

definition upgradeTenant :: "nat \<Rightarrow> string \<Rightarrow> store \<Rightarrow> string + (UpgradeResult \<times> store)" where
  "upgradeTenant now tid s =
     (case find (\<lambda>t. t_id t = tid) (tenant_rows s) of
        None \<Rightarrow> Inl ''Tenant not found''
      | Some tenant \<Rightarrow>
          let oldPlan = t_plan tenant
          in if oldPlan = PRO then Inl ''Tenant is already on PRO plan''
             else
               let updatedTenant = tenant\<lparr>t_plan := PRO\<rparr>;
                   s' = s\<lparr>tenant_rows :=
                            map (\<lambda>t. if t_id t = tid then t\<lparr>t_plan := PRO\<rparr> else t) (tenant_rows s)\<rparr>;
                   newFeatures =
                     map fst
                       (filter (\<lambda>(feature, enabled).
                                  enabled \<and> map_of (plan_features FREE) feature \<noteq> Some True)
                          (plan_features PRO))
               in Inr (\<lparr>ur_oldPlan = oldPlan,
                        ur_newPlan = t_plan updatedTenant,
                        ur_timestamp = now,
                        ur_notesUnlocked = (maxNotes FREE < maxNotes PRO),
                        ur_usersUnlocked = (maxUsers FREE < maxUsers PRO),
                        ur_featuresUnlocked = newFeatures\<rparr>, s'))"

definition benefits_json :: "UpgradeResult \<Rightarrow> json" where
  "benefits_json r =
     JObj [(''notesUnlocked'', JBool (ur_notesUnlocked r)),
           (''usersUnlocked'', JBool (ur_usersUnlocked r)),
           (''featuresUnlocked'', JArr (map JStr (ur_featuresUnlocked r)))]"

text \<open>
  The upgrade handler (\<^verbatim>\<open>POST\<close>) for the tenant with the slug of the path. A throw
  of \<^verbatim>\<open>getUserContextFromToken\<close> has none of the messages the outer \<^verbatim>\<open>catch\<close>
  looks for, so it answers 500. The events it logs are left out.
\<close>

definition upgrade_POST ::
  "nat \<Rightarrow> UserContext option \<Rightarrow> string \<Rightarrow> store \<Rightarrow> response \<times> store" where
  "upgrade_POST now token_ctx slug s =
     (case token_ctx of
        None \<Rightarrow> (createApiError ''Internal server error during upgrade'' 500, s)
      | Some ctx \<Rightarrow>
          if \<not> hasPermission (role ctx) UPGRADE_SUBSCRIPTION then (createForbiddenError, s)
          else
            (case find (\<lambda>t. t_slug t = slug) (tenant_rows s) of
               None \<Rightarrow> (createApiError ''Tenant not found'' 404, s)
             | Some tenant \<Rightarrow>
                 if t_id tenant \<noteq> tenantId ctx then (createForbiddenError, s)
                 else
                   let notesCount = length (filter (\<lambda>n. n_tenantId n = t_id tenant) (note_rows s));
                       usersCount = length (filter (\<lambda>u. u_tenantId u = t_id tenant) (user_rows s))
                   in (case upgradeTenant now (t_id tenant) s of
                         Inl message \<Rightarrow>
                           if contains message ''already on PRO plan'' then
                             (createApiError ''Tenant is already on PRO plan'' 400, s)
                           else (createApiError message 400, s)
                       | Inr (upgradeResult, s') \<Rightarrow>
                           (createApiResponse
                              (JObj [(''message'', JStr ''Tenant successfully upgraded to PRO plan''),
                                     (''tenant'',
                                      JObj [(''id'', JStr (t_id tenant)),
                                            (''slug'', JStr (t_slug tenant)),
                                            (''name'', JStr (t_name tenant)),
                                            (''plan'', plan_json (ur_newPlan upgradeResult))]),
                                     (''upgrade'',
                                      JObj [(''from'', plan_json (ur_oldPlan upgradeResult)),
                                            (''to'', plan_json (ur_newPlan upgradeResult)),
                                            (''timestamp'', JNum (int (ur_timestamp upgradeResult))),
                                            (''upgradedBy'',
                                             JObj [(''userId'', JStr (userId ctx)),
                                                   (''email'', JStr (email ctx))]),
                                            (''benefits'', benefits_json upgradeResult)]),
                                     (''limits'',
                                      JObj [(''before'',
                                             JObj [(''notes'',
                                                    (if ur_oldPlan upgradeResult = FREE then JNum 3
                                                     else JInfinity)),
                                                   (''users'',
                                                    (if ur_oldPlan upgradeResult = FREE then JNum 5
                                                     else JInfinity))]),
                                            (''after'',
                                             JObj [(''notes'', JStr ''unlimited''),
                                                   (''users'', JStr ''unlimited'')])]),
                                     (''currentUsage'',
                                      JObj [(''notes'', JNum (int notesCount)),
                                            (''users'', JNum (int usersCount))])])
                              ''Upgrade completed successfully'' 200, s'))))"

text \<open>The eligibility check beside it (\<^verbatim>\<open>GET\<close>).\<close>

definition upgrade_GET :: "UserContext option \<Rightarrow> string \<Rightarrow> store \<Rightarrow> response" where
  "upgrade_GET token_ctx slug s =
     (case token_ctx of
        None \<Rightarrow> createApiError ''Failed to check upgrade eligibility'' 500
      | Some ctx \<Rightarrow>
          (case find (\<lambda>t. t_slug t = slug) (tenant_rows s) of
             None \<Rightarrow> createApiError ''Tenant not found'' 404
           | Some tenant \<Rightarrow>
               if t_id tenant \<noteq> tenantId ctx then createForbiddenError
               else
                 let tenantPlan = t_plan tenant;
                     canUpgrade = canUpgradePlan tenantPlan;
                     notesCount = length (filter (\<lambda>n. n_tenantId n = t_id tenant) (note_rows s));
                     usersCount = length (filter (\<lambda>u. u_tenantId u = t_id tenant) (user_rows s))
                 in createApiResponse_data
                      (JObj [(''tenant'',
                              JObj [(''id'', JStr (t_id tenant)),
                                    (''slug'', JStr (t_slug tenant)),
                                    (''name'', JStr (t_name tenant)),
                                    (''plan'', plan_json (t_plan tenant)),
                                    (''planDisplayName'', JStr (getPlanDisplayName tenantPlan))]),
                             (''upgrade'',
                              js_object
                                [(''eligible'', Some (JBool canUpgrade)),
                                 (''currentPlan'', Some (plan_json (t_plan tenant))),
                                 (''targetPlan'',
                                  Some (if canUpgrade then JStr ''PRO'' else plan_json (t_plan tenant))),
                                 (''reason'',
                                  (if canUpgrade then None
                                   else Some (JStr ''Tenant is already on the highest plan'')))]),
                             (''currentUsage'',
                              JObj [(''notes'', JNum (int notesCount)),
                                    (''users'', JNum (int usersCount))]),
                             (''limits'',
                              JObj [(''current'',
                                     JObj [(''notes'',
                                            (if t_plan tenant = FREE then JNum 3
                                             else JStr ''unlimited'')),
                                           (''users'',
                                            (if t_plan tenant = FREE then JNum 5
                                             else JStr ''unlimited''))]),
                                    (''afterUpgrade'',
                                     JObj [(''notes'', JStr ''unlimited''),
                                           (''users'', JStr ''unlimited'')])])])))"

section \<open>Tenant information\<close>

text \<open>The headers the request-boundary filter sets; \<^const>\<open>None\<close> is an absent header.\<close>

record TenantHeaders =
  x_tenant_id :: "string option"
  x_tenant_slug :: "string option"
  x_user_id :: "string option"
  x_user_role :: "string option"

record TenantContext =
  tc_tenantId :: string
  tc_tenantSlug :: string
  tc_userId :: string
  tc_userRole :: string

text \<open>\<^verbatim>\<open>getTenantContext\<close>; \<^const>\<open>None\<close> is the error it throws.\<close>

definition getTenantContext :: "TenantHeaders \<Rightarrow> TenantContext option" where
  "getTenantContext headers =
     (case (x_tenant_id headers, x_tenant_slug headers, x_user_id headers, x_user_role headers) of
        (Some tid, Some tslug, Some uid, Some urole) \<Rightarrow>
          if tid = [] \<or> tslug = [] \<or> uid = [] \<or> urole = [] then None
          else Some \<lparr>tc_tenantId = tid, tc_tenantSlug = tslug, tc_userId = uid, tc_userRole = urole\<rparr>
      | _ \<Rightarrow> None)"

text \<open>The repository's \<^verbatim>\<open>getRemainingNotes\<close>, for a tenant that exists.\<close>

definition repo_getRemainingNotes :: "Tenant \<Rightarrow> nat \<Rightarrow> enat" where
  "repo_getRemainingNotes tenant noteCount =
     (if t_plan tenant = PRO then \<infinity> else max 0 (3 - enat noteCount))"

text \<open>
  The tenant information handler (\<^verbatim>\<open>GET\<close>). \<^verbatim>\<open>listUsers()\<close> returns at most 50
  users of the tenant, of which the handler uses the number.
\<close>

definition tenant_GET :: "TenantHeaders \<Rightarrow> store \<Rightarrow> response" where
  "tenant_GET headers s =
     (case getTenantContext headers of
        None \<Rightarrow> createApiError ''Missing tenant context in request headers'' 500
      | Some context \<Rightarrow>
          (case find (\<lambda>t. t_id t = tc_tenantId context) (tenant_rows s) of
             None \<Rightarrow> createApiError ''Tenant not found'' 404
           | Some tenant \<Rightarrow>
               let userCount =
                     length (take 50 (filter (\<lambda>u. u_tenantId u = tc_tenantId context) (user_rows s)));
                   noteCount =
                     length (filter (\<lambda>n. n_tenantId n = tc_tenantId context) (note_rows s));
                   remainingNotes = repo_getRemainingNotes tenant noteCount
               in createApiResponse_data
                    (JObj [(''tenant'',
                            JObj [(''id'', JStr (t_id tenant)),
                                  (''slug'', JStr (t_slug tenant)),
                                  (''name'', JStr (t_name tenant)),
                                  (''plan'', plan_json (t_plan tenant))]),
                           (''context'',
                            JObj [(''userId'', JStr (tc_userId context)),
                                  (''userRole'', JStr (tc_userRole context))]),
                           (''statistics'',
                            JObj [(''users'', JNum (int userCount)),
                                  (''notes'', JNum (int noteCount)),
                                  (''remainingNotes'',
                                   (if remainingNotes = \<infinity> then JStr ''unlimited''
                                    else enat_json remainingNotes))]),
                           (''isolation'',
                            JObj [(''message'',
                                   JStr ''This data is completely isolated to your tenant''),
                                  (''tenantId'', JStr (tc_tenantId context))])])))"

section \<open>Reading a response\<close>

text \<open>The fields a client reads from a response body.\<close>

definition response_note :: "response \<Rightarrow> json option" where
  "response_note resp =
     (case jget (body resp) ''data'' of
        None \<Rightarrow> None
      | Some d \<Rightarrow> jget d ''note'')"

definition response_notes :: "response \<Rightarrow> json list" where
  "response_notes resp =
     (case jget (body resp) ''data'' of
        None \<Rightarrow> []
      | Some d \<Rightarrow> (case jget d ''notes'' of Some (JArr xs) \<Rightarrow> xs | _ \<Rightarrow> []))"

definition json_author_id :: "json \<Rightarrow> json option" where
  "json_author_id j =
     (case jget j ''author'' of
        None \<Rightarrow> None
      | Some a \<Rightarrow> jget a ''id'')"

text \<open>
  The envelope \<^verbatim>\<open>{success: false, error: <message>}\<close>: an object with exactly these
  two properties, the first \<^verbatim>\<open>false\<close> and the second a string.
\<close>

fun error_envelope :: "json \<Rightarrow> bool" where
  "error_envelope (JObj kvs) =
     (map_of kvs ''success'' = Some (JBool False) \<and> is_string (map_of kvs ''error'')
      \<and> list_all (\<lambda>k. k = ''success'' \<or> k = ''error'') (map fst kvs))"
| "error_envelope other = False"


text \<open>Single properties of the note in a response.\<close>

definition response_note_field :: "response \<Rightarrow> string \<Rightarrow> json option" where
  "response_note_field resp k =
     (case response_note resp of
        None \<Rightarrow> None
      | Some j \<Rightarrow> jget j k)"

definition response_note_author_id :: "response \<Rightarrow> json option" where
  "response_note_author_id resp =
     (case response_note resp of
        None \<Rightarrow> None
      | Some j \<Rightarrow> json_author_id j)"

definition response_note_ids :: "response \<Rightarrow> json option list" where
  "response_note_ids resp = map (\<lambda>j. jget j ''id'') (response_notes resp)"

text \<open>
  The error body of the invitation handlers: an object whose \<^verbatim>\<open>error\<close> property is a
  string and which has no \<^verbatim>\<open>success\<close> property.
\<close>

fun bare_error_body :: "json \<Rightarrow> bool" where
  "bare_error_body (JObj kvs) = (is_string (map_of kvs ''error'') \<and> map_of kvs ''success'' = None)"
| "bare_error_body other = False"

text \<open>
  A property of a store: every invitation that is ACCEPTED has a user with its email in its
  tenant.
\<close>

definition accepted_have_users :: "store \<Rightarrow> bool" where
  "accepted_have_users s =
     list_all (\<lambda>i. i_status i = ACCEPTED \<longrightarrow>
                    list_ex (\<lambda>u. u_email u = i_email i \<and> u_tenantId u = i_tenantId i) (user_rows s))
       (invitation_rows s)"

section \<open>The seed data\<close>

text \<open>
  The rows the seed script creates: two tenants on the FREE plan, an administrator and a
  member in each, two notes of Acme and one of Globex (contents shortened). The
  identifiers stand for the ones the datastore generates.
\<close>

definition acme :: Tenant where
  "acme = \<lparr>t_id = ''tenant-acme'', t_slug = ''acme'', t_name = ''Acme Corp'', t_plan = FREE\<rparr>"

definition globex :: Tenant where
  "globex = \<lparr>t_id = ''tenant-globex'', t_slug = ''globex'', t_name = ''Globex Industries'',
              t_plan = FREE\<rparr>"

definition acme_admin :: User where
  "acme_admin = \<lparr>u_id = ''user-acme-admin'', u_email = ''admin@acme.test'', u_password = ''hash'',
                  u_role = ADMIN, u_tenantId = ''tenant-acme''\<rparr>"

definition acme_user :: User where
  "acme_user = \<lparr>u_id = ''user-acme-member'', u_email = ''user@acme.test'', u_password = ''hash'',
                 u_role = MEMBER, u_tenantId = ''tenant-acme''\<rparr>"

definition globex_admin :: User where
  "globex_admin = \<lparr>u_id = ''user-globex-admin'', u_email = ''admin@globex.test'',
                    u_password = ''hash'', u_role = ADMIN, u_tenantId = ''tenant-globex''\<rparr>"

definition globex_user :: User where
  "globex_user = \<lparr>u_id = ''user-globex-member'', u_email = ''user@globex.test'',
                   u_password = ''hash'', u_role = MEMBER, u_tenantId = ''tenant-globex''\<rparr>"

definition acme_note1 :: Note where
  "acme_note1 = \<lparr>n_id = ''cacme00000000000000000001'', n_title = ''Welcome to Acme Notes'',
                  n_content = ''This is your first note in the Acme tenant.'',
                  n_authorId = ''user-acme-member'', n_tenantId = ''tenant-acme'',
                  n_createdAt = 1000, n_updatedAt = 1000\<rparr>"

definition acme_note2 :: Note where
  "acme_note2 = \<lparr>n_id = ''cacme00000000000000000002'', n_title = ''Admin Note'',
                  n_content = ''This note was created by an admin user.'',
                  n_authorId = ''user-acme-admin'', n_tenantId = ''tenant-acme'',
                  n_createdAt = 2000, n_updatedAt = 2000\<rparr>"

definition globex_note1 :: Note where
  "globex_note1 = \<lparr>n_id = ''cglobex000000000000000001'', n_title = ''Welcome to Globex Notes'',
                    n_content = ''This is your first note in the Globex tenant.'',
                    n_authorId = ''user-globex-member'', n_tenantId = ''tenant-globex'',
                    n_createdAt = 3000, n_updatedAt = 3000\<rparr>"

definition seed_store :: store where
  "seed_store = \<lparr>tenant_rows = [acme, globex],
                  user_rows = [acme_admin, acme_user, globex_admin, globex_user],
                  note_rows = [acme_note1, acme_note2, globex_note1],
                  invitation_rows = []\<rparr>"

text \<open>The contexts of the tokens the login issues to two of the seeded users.\<close>

definition acme_member_ctx :: UserContext where
  "acme_member_ctx = \<lparr>userId = ''user-acme-member'', email = ''user@acme.test'', role = MEMBER,
                       tenantId = ''tenant-acme'', tenantSlug = ''acme''\<rparr>"

definition acme_admin_ctx :: UserContext where
  "acme_admin_ctx = \<lparr>userId = ''user-acme-admin'', email = ''admin@acme.test'', role = ADMIN,
                      tenantId = ''tenant-acme'', tenantSlug = ''acme''\<rparr>"

text \<open>The seed data with a third note of Acme, which fills its plan.\<close>

definition acme_note3 :: Note where
  "acme_note3 = \<lparr>n_id = ''cacme00000000000000000003'', n_title = ''Third'', n_content = ''Third note.'',
                  n_authorId = ''user-acme-admin'', n_tenantId = ''tenant-acme'',
                  n_createdAt = 4000, n_updatedAt = 4000\<rparr>"

definition full_store :: store where
  "full_store = seed_store\<lparr>note_rows := [acme_note1, acme_note2, globex_note1, acme_note3]\<rparr>"

definition default_query :: NoteQueryParams where
  "default_query = \<lparr>q_page = None, q_limit = None, q_search = None, q_tags = None,
                     q_sortBy = None, q_sortOrder = None\<rparr>"

text \<open>
  The seed data with three invitations to Acme, all PENDING: one for a new address, one for
  the address of a user who is in the tenant already, and one whose time has passed at the
  time 5000 of the examples.
\<close>

definition new_invitation :: Invitation where
  "new_invitation = \<lparr>i_id = ''inv-new'', i_email = ''new@acme.test'', i_role = MEMBER,
                      i_token = ''token-new'', i_status = PENDING, i_tenantId = ''tenant-acme'',
                      i_invitedBy = ''user-acme-admin'', i_expiresAt = 9000, i_acceptedAt = None,
                      i_createdAt = 4000\<rparr>"

definition duplicate_invitation :: Invitation where
  "duplicate_invitation = \<lparr>i_id = ''inv-dup'', i_email = ''user@acme.test'', i_role = MEMBER,
                            i_token = ''token-dup'', i_status = PENDING,
                            i_tenantId = ''tenant-acme'', i_invitedBy = ''user-acme-admin'',
                            i_expiresAt = 9000, i_acceptedAt = None,
                      i_createdAt = 4000\<rparr>"

definition old_invitation :: Invitation where
  "old_invitation = \<lparr>i_id = ''inv-old'', i_email = ''late@acme.test'', i_role = MEMBER,
                      i_token = ''token-old'', i_status = PENDING, i_tenantId = ''tenant-acme'',
                      i_invitedBy = ''user-acme-admin'', i_expiresAt = 100, i_acceptedAt = None,
                      i_createdAt = 50\<rparr>"

definition invited_store :: store where
  "invited_store =
     seed_store\<lparr>invitation_rows := [new_invitation, duplicate_invitation, old_invitation]\<rparr>"

text \<open>Stand-ins for the validation library's issue list and for the password hash.\<close>

definition no_issues :: "json \<Rightarrow> json" where
  "no_issues b = JArr []"

definition demo_hash :: "string \<Rightarrow> nat \<Rightarrow> string" where
  "demo_hash password rounds = ''hash of '' @ password"

definition any_email :: "string \<Rightarrow> bool" where
  "any_email e = (CHR ''@'' \<in> set e)"

definition accept_body :: "string \<Rightarrow> json" where
  "accept_body tok = JObj [(''token'', JStr tok), (''password'', JStr ''password1''),
                           (''confirmPassword'', JStr ''password1'')]"

definition invite_body :: "string \<Rightarrow> json" where
  "invite_body e = JObj [(''email'', JStr e), (''role'', JStr ''MEMBER'')]"

text \<open>
  A datastore that throws at the update of an invitation inside a transaction, a token
  library that has no secret, so that each of its calls throws, a password comparison that
  matches nothing, a request without the headers of the middleware, and a query string
  without parameters.
\<close>

definition failing_update :: tx_client where
  "failing_update = \<lparr>tx_user_create = user_create, tx_invitation_update = (\<lambda>ident change s. None)\<rparr>"

definition no_jwt :: jwt_library where
  "no_jwt = \<lparr>jwt_verify = (\<lambda>token. None), jwt_verify_app = (\<lambda>token. None),
             jwt_sign = (\<lambda>payload. None)\<rparr>"

definition no_match :: "string \<Rightarrow> string \<Rightarrow> bool" where
  "no_match password hash = False"

definition no_headers :: TenantHeaders where
  "no_headers = \<lparr>x_tenant_id = None, x_tenant_slug = None, x_user_id = None, x_user_role = None\<rparr>"

definition no_query :: InvitationQuery where
  "no_query = \<lparr>iq_status = None, iq_page = None, iq_limit = None\<rparr>"

text \<open>Request bodies used in the examples.\<close>

definition retitle :: json where
  "retitle = JObj [(''title'', JStr ''Changed'')]"

definition plain_body :: json where
  "plain_body = JObj [(''title'', JStr ''T''), (''content'', JStr ''C'')]"

definition spaced_body :: json where
  "spaced_body = JObj [(''title'', JStr '' T''), (''content'', JStr ''C'')]"

section \<open>Facts about responses\<close>

declare show_nat.simps [simp del]

lemma createApiError_status [simp]: "status (createApiError e st) = st"
  by (simp add: createApiError_def)

lemma createApiResponse_status [simp]: "status (createApiResponse d m st) = st"
  by (simp add: createApiResponse_def)

lemma createValidationError_status [simp]: "status (createValidationError m) = 400"
  by (simp add: createValidationError_def)

lemma createNotFoundError_status [simp]: "status (createNotFoundError r) = 404"
  by (simp add: createNotFoundError_def)

lemma response_note_error [simp]: "response_note (createApiError e st) = None"
  by (simp add: response_note_def createApiError_def)

lemma response_note_ok [simp]:
  "response_note (createApiResponse (JObj ((''note'', j) # rest)) m st) = Some j"
  by (simp add: response_note_def createApiResponse_def)

lemma response_notes_error [simp]: "response_notes (createApiError e st) = []"
  by (simp add: response_notes_def createApiError_def)

lemma response_notes_ok [simp]:
  "response_notes (createApiResponse (JObj ((''notes'', JArr js) # rest)) m st) = js"
  by (simp add: response_notes_def createApiResponse_def)

lemma note_json_id [simp]: "jget (note_json s n) ''id'' = Some (JStr (n_id n))"
  by (simp add: note_json_def)

lemma note_json_title [simp]: "jget (note_json s n) ''title'' = Some (JStr (n_title n))"
  by (simp add: note_json_def)

lemma note_json_content [simp]: "jget (note_json s n) ''content'' = Some (JStr (n_content n))"
  by (simp add: note_json_def)

section \<open>The format of a note identifier\<close>

lemma validateNoteId_iff:
  "validateNoteId ident \<longleftrightarrow>
     length ident = 25 \<and> (hd ident = CHR ''c'' \<or> hd ident = CHR ''C'') \<and> list_all cuid_char (tl ident)"
  by (cases ident) (auto simp: validateNoteId_def)

text \<open>
  C9. A get, update or delete request of an authenticated caller whose identifier does not
  match the CUID pattern is answered with the 400 validation error, whatever the store
  holds, and the store is left as it was: the check comes before any lookup, and the 404 of
  an absent row is not used.
\<close>

theorem note_id_format_gate:
  assumes "userId ctx \<noteq> []" and "tenantId ctx \<noteq> []" and "\<not> validateNoteId ident"
  shows "note_GET (Some ctx) ident s = (createValidationError ''Invalid note ID format'', s)
       \<and> note_PUT now (Some ctx) ident requestBody s
            = (createValidationError ''Invalid note ID format'', s)
       \<and> note_DELETE (Some ctx) ident s = (createValidationError ''Invalid note ID format'', s)
       \<and> status (createValidationError ''Invalid note ID format'') = 400"
  using assms by (simp add: note_GET_def note_PUT_def note_DELETE_def)

theorem note_id_format_gate_witness:
  "userId acme_member_ctx \<noteq> [] \<and> tenantId acme_member_ctx \<noteq> [] \<and> \<not> validateNoteId ''note-1''
   \<and> note_GET (Some acme_member_ctx) ''note-1'' seed_store
        = (createValidationError ''Invalid note ID format'', seed_store)
   \<and> note_PUT 5000 (Some acme_member_ctx) ''note-1'' None seed_store
        = (createValidationError ''Invalid note ID format'', seed_store)
   \<and> note_DELETE (Some acme_member_ctx) ''note-1'' seed_store
        = (createValidationError ''Invalid note ID format'', seed_store)"
  using note_id_format_gate [of acme_member_ctx "''note-1''" seed_store 5000 None]
  by (simp add: acme_member_ctx_def validateNoteId_def)

section \<open>Ownership\<close>

lemma same_id_same_row:
  assumes "distinct (map n_id rows)" and "n \<in> set rows" and "m \<in> set rows" and "n_id n = n_id m"
  shows "n = m"
  using assms by (auto simp: distinct_map inj_on_def)

lemma find_row_by_id:
  assumes "distinct (map n_id rows)" and "n \<in> set rows" and "Q n"
  shows "find (\<lambda>m. n_id m = n_id n \<and> Q m) rows = Some n"
proof (cases "find (\<lambda>m. n_id m = n_id n \<and> Q m) rows")
  case None
  with assms(2,3) show ?thesis by (auto simp: find_None_iff)
next
  case (Some m)
  then have "m \<in> set rows" and "n_id m = n_id n"
    by (auto simp: find_Some_iff)
  with assms(1,2) have "m = n" using same_id_same_row by metis
  with Some show ?thesis by simp
qed

text \<open>
  C3. A MEMBER who asks to update or delete a note of the own tenant that another user wrote
  is answered 403 and the store is unchanged; whatever body the update carries, it does
  not succeed. \<^const>\<open>canPerformAction\<close> denies the same request.
\<close>

theorem member_ownership_restriction:
  assumes "role ctx = MEMBER" and "userId ctx \<noteq> []" and "tenantId ctx \<noteq> []"
    and "distinct (map n_id (note_rows s))"
    and "note \<in> set (note_rows s)" and "n_tenantId note = tenantId ctx"
    and "validateNoteId (n_id note)"
    and "n_authorId note \<noteq> userId ctx"
    and "validateUpdateNote b = Inr d"
  shows "note_PUT now (Some ctx) (n_id note) (Some b) s
           = (createApiError ''You can only edit your own notes'' 403, s)
       \<and> note_DELETE (Some ctx) (n_id note) s
           = (createApiError ''You can only delete your own notes'' 403, s)
       \<and> snd (note_PUT now (Some ctx) (n_id note) requestBody s) = s
       \<and> status (fst (note_PUT now (Some ctx) (n_id note) requestBody s)) \<in> {400, 403}
       \<and> canPerformAction ctx UPDATE_OWN_NOTES (Some (n_authorId note)) = (n_authorId note = [])
       \<and> canPerformAction ctx DELETE_OWN_NOTES (Some (n_authorId note)) = (n_authorId note = [])"
proof -
  have found: "find (\<lambda>n. n_id n = n_id note \<and> n_tenantId n = tenantId ctx) (note_rows s) = Some note"
    using find_row_by_id [OF assms(4,5), of "\<lambda>n. n_tenantId n = tenantId ctx"] assms(6) by simp
  have put: "note_PUT now (Some ctx) (n_id note) (Some b) s
           = (createApiError ''You can only edit your own notes'' 403, s)"
    using assms found by (simp add: note_PUT_def)
  have del: "note_DELETE (Some ctx) (n_id note) s
           = (createApiError ''You can only delete your own notes'' 403, s)"
    using assms found by (simp add: note_DELETE_def)
  have any: "snd (note_PUT now (Some ctx) (n_id note) requestBody s) = s
       \<and> status (fst (note_PUT now (Some ctx) (n_id note) requestBody s)) \<in> {400, 403}"
    using assms found by (simp add: note_PUT_def split: option.splits sum.splits)
  have can: "canPerformAction ctx UPDATE_OWN_NOTES (Some (n_authorId note)) = (n_authorId note = [])
       \<and> canPerformAction ctx DELETE_OWN_NOTES (Some (n_authorId note)) = (n_authorId note = [])"
    using assms(1,8) by (auto simp: canPerformAction_def hasPermission_def)
  from put del any can show ?thesis by simp
qed

theorem member_ownership_restriction_witness:
  "role acme_member_ctx = MEMBER \<and> userId acme_member_ctx \<noteq> [] \<and> tenantId acme_member_ctx \<noteq> []
   \<and> distinct (map n_id (note_rows seed_store))
   \<and> acme_note2 \<in> set (note_rows seed_store) \<and> n_tenantId acme_note2 = tenantId acme_member_ctx
   \<and> validateNoteId (n_id acme_note2)
   \<and> n_authorId acme_note2 \<noteq> userId acme_member_ctx
   \<and> validateUpdateNote retitle
        = Inr \<lparr>upd_title = Some ''Changed'', upd_content = None, upd_tags = None\<rparr>
   \<and> note_PUT 5000 (Some acme_member_ctx) (n_id acme_note2) (Some retitle) seed_store
        = (createApiError ''You can only edit your own notes'' 403, seed_store)
   \<and> note_DELETE (Some acme_member_ctx) (n_id acme_note2) seed_store
        = (createApiError ''You can only delete your own notes'' 403, seed_store)
   \<and> \<not> canPerformAction acme_member_ctx UPDATE_OWN_NOTES (Some (n_authorId acme_note2))"
proof -
  have v: "validateUpdateNote retitle
        = Inr \<lparr>upd_title = Some ''Changed'', upd_content = None, upd_tags = None\<rparr>"
    by (simp add: validateUpdateNote_def retitle_def update_title_errors_def
        update_content_errors_def trim_def is_space_def)
  have h: "role acme_member_ctx = MEMBER" "userId acme_member_ctx \<noteq> []"
    "tenantId acme_member_ctx \<noteq> []" "distinct (map n_id (note_rows seed_store))"
    "acme_note2 \<in> set (note_rows seed_store)" "n_tenantId acme_note2 = tenantId acme_member_ctx"
    "validateNoteId (n_id acme_note2)" "n_authorId acme_note2 \<noteq> userId acme_member_ctx"
    by (simp_all add: acme_member_ctx_def seed_store_def acme_note1_def acme_note2_def
        globex_note1_def validateNoteId_def cuid_char_def is_lower_def is_upper_def is_digit_def)
  from member_ownership_restriction [OF h v, of 5000 None] h v show ?thesis
    by (simp add: acme_note2_def)
qed

text \<open>The author of a note is not refused: the same request for the member's own note.\<close>

lemma member_updates_own_note:
  "status (fst (note_PUT 5000 (Some acme_member_ctx) (n_id acme_note1) (Some retitle) seed_store))
     = 200
   \<and> response_note_field
        (fst (note_PUT 5000 (Some acme_member_ctx) (n_id acme_note1) (Some retitle) seed_store))
        ''title'' = Some (JStr ''Changed'')
   \<and> status (fst (note_DELETE (Some acme_member_ctx) (n_id acme_note1) seed_store)) = 200"
  by code_simp

section \<open>The note cap of the FREE plan\<close>

lemma show_nat_3: "show_nat 3 = ''3''"
  by code_simp

lemma validateNoteCreation_free_full:
  assumes "find (\<lambda>t. t_id t = tid) (tenant_rows s) = Some tenant"
    and "t_plan tenant = FREE"
    and "length (filter (\<lambda>n. n_tenantId n = tid) (note_rows s)) = 3"
  shows "validateNoteCreation tid s = Some ''Note limit reached. Current plan allows 3 notes.''"
proof -
  from assms(1) have tid: "t_id tenant = tid"
    by (auto simp: find_Some_iff)
  have three: "(3::enat) = enat 3" by (simp add: numeral_eq_enat)
  show ?thesis
    using assms tid
    by (simp add: validateNoteCreation_def checkNoteLimit_def getSubscriptionStatus_def
        canCreateNote_def Let_def three show_nat_3)
qed

text \<open>
  C2. In a tenant on the FREE plan that holds exactly 3 notes, a valid create request of an
  authenticated caller is answered 403 with the limit message and the store is unchanged;
  whatever the body is, the request fails (400 or 403) and the store is unchanged.
\<close>

theorem free_plan_note_cap:
  assumes "find (\<lambda>t. t_id t = tenantId ctx) (tenant_rows s) = Some tenant"
    and "t_plan tenant = FREE"
    and "length (filter (\<lambda>n. n_tenantId n = tenantId ctx) (note_rows s)) = 3"
    and "userId ctx \<noteq> []" and "tenantId ctx \<noteq> []"
    and "validateCreateNote b = Inr d"
  shows "notes_POST now newId (Some ctx) (Some b) s
           = (createApiError ''Note limit reached. Current plan allows 3 notes.'' 403, s)
       \<and> snd (notes_POST now newId (Some ctx) requestBody s) = s
       \<and> status (fst (notes_POST now newId (Some ctx) requestBody s)) \<in> {400, 403}"
  using assms validateNoteCreation_free_full [OF assms(1,2,3)]
  by (simp add: notes_POST_def split: option.splits sum.splits)

lemma validate_plain_body:
  "validateCreateNote plain_body = Inr \<lparr>title = ''T'', content = ''C'', tags = []\<rparr>"
  by (simp add: validateCreateNote_def plain_body_def create_title_errors_def
      create_content_errors_def trim_def is_space_def)

theorem free_plan_note_cap_witness:
  "find (\<lambda>t. t_id t = tenantId acme_admin_ctx) (tenant_rows full_store) = Some acme
   \<and> t_plan acme = FREE
   \<and> length (filter (\<lambda>n. n_tenantId n = tenantId acme_admin_ctx) (note_rows full_store)) = 3
   \<and> userId acme_admin_ctx \<noteq> [] \<and> tenantId acme_admin_ctx \<noteq> []
   \<and> validateCreateNote plain_body = Inr \<lparr>title = ''T'', content = ''C'', tags = []\<rparr>
   \<and> notes_POST 5000 ''cnew000000000000000000001'' (Some acme_admin_ctx) (Some plain_body) full_store
        = (createApiError ''Note limit reached. Current plan allows 3 notes.'' 403, full_store)"
proof -
  have h: "find (\<lambda>t. t_id t = tenantId acme_admin_ctx) (tenant_rows full_store) = Some acme"
    "t_plan acme = FREE"
    "length (filter (\<lambda>n. n_tenantId n = tenantId acme_admin_ctx) (note_rows full_store)) = 3"
    "userId acme_admin_ctx \<noteq> []" "tenantId acme_admin_ctx \<noteq> []"
    by (simp_all add: acme_admin_ctx_def full_store_def seed_store_def acme_def globex_def
        acme_note1_def acme_note2_def acme_note3_def globex_note1_def)
  from free_plan_note_cap [OF h validate_plain_body] h validate_plain_body show ?thesis
    by simp
qed

section \<open>Tenant isolation\<close>

lemma set_order_notes [simp]: "set (order_notes sortBy sortOrder rows) = set rows"
  by (simp add: order_notes_def Let_def)

text \<open>What the single-note handler reads: a row of the caller's tenant, or nothing.\<close>

lemma note_GET_reads:
  "(\<exists>n \<in> set (note_rows s). n_id n = ident \<and> n_tenantId n = tenantId ctx
        \<and> status (fst (note_GET (Some ctx) ident s)) = 200
        \<and> response_note (fst (note_GET (Some ctx) ident s)) = Some (note_json s n))
   \<or> (status (fst (note_GET (Some ctx) ident s)) \<in> {400, 401, 404}
        \<and> response_note (fst (note_GET (Some ctx) ident s)) = None)"
proof (cases "find (\<lambda>n. n_id n = ident \<and> n_tenantId n = tenantId ctx) (note_rows s)")
  case None
  then show ?thesis
    by (simp add: note_GET_def createValidationError_def createNotFoundError_def)
next
  case (Some n)
  then have "n \<in> set (note_rows s)" and "n_id n = ident" and "n_tenantId n = tenantId ctx"
    by (auto simp: find_Some_iff)
  with Some show ?thesis
    by (auto simp add: note_GET_def createValidationError_def createNotFoundError_def)
qed

lemma page_in_tenant:
  assumes "n \<in> set (take k (drop l (order_notes a b (filter (list_where ctx se) rows))))"
  shows "n \<in> set rows \<and> n_tenantId n = tenantId ctx"
proof -
  from assms have "n \<in> set (order_notes a b (filter (list_where ctx se) rows))"
    by (meson in_set_dropD in_set_takeD)
  then show ?thesis by (simp add: list_where_def)
qed

text \<open>What the listing reads: rows of the caller's tenant only.\<close>

lemma notes_GET_reads:
  "\<exists>found. response_notes (fst (notes_GET (Some ctx) query s)) = map (note_json s) found
      \<and> (\<forall>n \<in> set found. n \<in> set (note_rows s) \<and> n_tenantId n = tenantId ctx)"
proof (cases "userId ctx = [] \<or> tenantId ctx = []")
  case True
  then have "response_notes (fst (notes_GET (Some ctx) query s)) = map (note_json s) []"
    by (simp add: notes_GET_def)
  then show ?thesis by (intro exI [of _ "[]"]) simp
next
  case auth: False
  show ?thesis
  proof (cases "validateNoteQueryParams query")
    case (Inl errors)
    with auth have "response_notes (fst (notes_GET (Some ctx) query s)) = map (note_json s) []"
      by (simp add: notes_GET_def createValidationError_def)
    then show ?thesis by (intro exI [of _ "[]"]) simp
  next
    case (Inr q)
    define page where "page = (case q_page q of Some p \<Rightarrow> p | None \<Rightarrow> ''1'')"
    define lim where "lim = (case q_limit q of Some l \<Rightarrow> l | None \<Rightarrow> ''10'')"
    show ?thesis
    proof (cases "parseInt page")
      case None
      with auth Inr have "response_notes (fst (notes_GET (Some ctx) query s)) = map (note_json s) []"
        by (simp add: notes_GET_def Let_def page_def)
      then show ?thesis by (intro exI [of _ "[]"]) simp
    next
      case pg: (Some pageNum)
      show ?thesis
      proof (cases "parseInt lim")
        case None
        with auth Inr pg
        have "response_notes (fst (notes_GET (Some ctx) query s)) = map (note_json s) []"
          by (simp add: notes_GET_def Let_def page_def lim_def)
        then show ?thesis by (intro exI [of _ "[]"]) simp
      next
        case lm: (Some limitNum)
        show ?thesis
        proof (cases "getSubscriptionStatus (tenantId ctx) s")
          case None
          with auth Inr pg lm
          have "response_notes (fst (notes_GET (Some ctx) query s)) = map (note_json s) []"
            by (simp add: notes_GET_def Let_def page_def lim_def)
          then show ?thesis by (intro exI [of _ "[]"]) simp
        next
          case (Some st)
          define found where "found = take (nat limitNum) (drop (nat ((pageNum - 1) * limitNum))
             (order_notes (case q_sortBy q of Some f \<Rightarrow> f | None \<Rightarrow> ''createdAt'')
                (case q_sortOrder q of Some ord \<Rightarrow> ord | None \<Rightarrow> ''desc'')
                (filter (list_where ctx (q_search q)) (note_rows s))))"
          from auth Inr pg lm Some
          have "response_notes (fst (notes_GET (Some ctx) query s)) = map (note_json s) found"
            by (simp add: notes_GET_def Let_def page_def lim_def found_def)
          moreover have "\<forall>n \<in> set found. n \<in> set (note_rows s) \<and> n_tenantId n = tenantId ctx"
            unfolding found_def using page_in_tenant by blast
          ultimately show ?thesis by blast
        qed
      qed
    qed
  qed
qed

text \<open>
  C1. Let a note belong to a tenant other than the caller's, in a store whose note
  identifiers are distinct (the primary key). Asking for that note by its identifier is
  answered as if the row were absent (404, or 400 when the identifier is malformed); no
  get returns a note with its identifier; no listing, whatever the query, contains a note
  with its identifier; the repository's \<^verbatim>\<open>findNoteById\<close> and \<^verbatim>\<open>listNotes\<close> do not
  return it; and an update or delete addressed to it leaves the store unchanged.
\<close>

theorem tenant_isolation:
  assumes "note \<in> set (note_rows s)" and "n_tenantId note \<noteq> tenantId ctx"
    and "distinct (map n_id (note_rows s))"
    and "userId ctx \<noteq> []" and "tenantId ctx \<noteq> []"
  shows "note_GET (Some ctx) (n_id note) s
           = (if validateNoteId (n_id note) then createNotFoundError ''Note''
              else createValidationError ''Invalid note ID format'', s)
       \<and> response_note_field (fst (note_GET (Some ctx) ident s)) ''id'' \<noteq> Some (JStr (n_id note))
       \<and> Some (JStr (n_id note)) \<notin> set (response_note_ids (fst (notes_GET (Some ctx) query s)))
       \<and> findNoteById (tenantId ctx) ident s \<noteq> Some note
       \<and> note \<notin> set (listNotes (tenantId ctx) skip tk authorId s)
       \<and> snd (note_PUT now (Some ctx) (n_id note) requestBody s) = s
       \<and> snd (note_DELETE (Some ctx) (n_id note) s) = s"
proof -
  have other: "\<And>n. n \<in> set (note_rows s) \<Longrightarrow> n_tenantId n = tenantId ctx \<Longrightarrow> n_id n \<noteq> n_id note"
    using assms(1,2,3) same_id_same_row by blast
  have none: "find (\<lambda>n. n_id n = n_id note \<and> n_tenantId n = tenantId ctx) (note_rows s) = None"
    using other by (auto simp: find_None_iff)
  have get: "note_GET (Some ctx) (n_id note) s
           = (if validateNoteId (n_id note) then createNotFoundError ''Note''
              else createValidationError ''Invalid note ID format'', s)"
    using none assms(4,5) by (simp add: note_GET_def)
  have get_id: "response_note_field (fst (note_GET (Some ctx) ident s)) ''id''
                  \<noteq> Some (JStr (n_id note))"
    using note_GET_reads [of s ident ctx] other by (auto simp: response_note_field_def)
  obtain found where f: "response_notes (fst (notes_GET (Some ctx) query s)) = map (note_json s) found"
    and t: "\<forall>n \<in> set found. n \<in> set (note_rows s) \<and> n_tenantId n = tenantId ctx"
    using notes_GET_reads by blast
  have lst: "Some (JStr (n_id note)) \<notin> set (response_note_ids (fst (notes_GET (Some ctx) query s)))"
  proof
    assume "Some (JStr (n_id note)) \<in> set (response_note_ids (fst (notes_GET (Some ctx) query s)))"
    then obtain n where "n \<in> set found" and "jget (note_json s n) ''id'' = Some (JStr (n_id note))"
      using f by (auto simp: response_note_ids_def)
    then have "n \<in> set (note_rows s)" and "n_tenantId n = tenantId ctx" and "n_id n = n_id note"
      using t by auto
    with other show False by blast
  qed
  have repo1: "findNoteById (tenantId ctx) ident s \<noteq> Some note"
    using assms(2) by (auto simp: findNoteById_def find_Some_iff)
  have repo2: "note \<notin> set (listNotes (tenantId ctx) skip tk authorId s)"
  proof
    assume "note \<in> set (listNotes (tenantId ctx) skip tk authorId s)"
    then have "note \<in> set (rev (sort_key n_updatedAt
       (filter (\<lambda>n. n_tenantId n = tenantId ctx \<and>
                     (case authorId of None \<Rightarrow> True | Some a \<Rightarrow> a = [] \<or> n_authorId n = a))
          (note_rows s))))"
      unfolding listNotes_def by (meson in_set_dropD in_set_takeD)
    then show False using assms(2) by simp
  qed
  have put: "snd (note_PUT now (Some ctx) (n_id note) requestBody s) = s"
    using none by (simp add: note_PUT_def split: option.splits sum.splits)
  have del: "snd (note_DELETE (Some ctx) (n_id note) s) = s"
    using none by (simp add: note_DELETE_def)
  from get get_id lst repo1 repo2 put del show ?thesis by blast
qed

lemma seed_listing:
  "response_note_ids (fst (notes_GET (Some acme_member_ctx) default_query seed_store))
     = [Some (JStr ''cacme00000000000000000002''), Some (JStr ''cacme00000000000000000001'')]"
  by code_simp

theorem tenant_isolation_witness:
  "globex_note1 \<in> set (note_rows seed_store)
   \<and> n_tenantId globex_note1 \<noteq> tenantId acme_member_ctx
   \<and> distinct (map n_id (note_rows seed_store))
   \<and> userId acme_member_ctx \<noteq> [] \<and> tenantId acme_member_ctx \<noteq> []
   \<and> note_GET (Some acme_member_ctx) (n_id globex_note1) seed_store
        = (createNotFoundError ''Note'', seed_store)
   \<and> Some (JStr (n_id globex_note1))
        \<notin> set (response_note_ids (fst (notes_GET (Some acme_member_ctx) default_query seed_store)))
   \<and> response_note_ids (fst (notes_GET (Some acme_member_ctx) default_query seed_store))
        = [Some (JStr ''cacme00000000000000000002''), Some (JStr ''cacme00000000000000000001'')]"
proof -
  have h: "globex_note1 \<in> set (note_rows seed_store)"
    "n_tenantId globex_note1 \<noteq> tenantId acme_member_ctx"
    "distinct (map n_id (note_rows seed_store))"
    "userId acme_member_ctx \<noteq> []" "tenantId acme_member_ctx \<noteq> []"
    by (simp_all add: acme_member_ctx_def seed_store_def acme_note1_def acme_note2_def
        globex_note1_def)
  have v: "validateNoteId (n_id globex_note1)"
    by code_simp
  from tenant_isolation [OF h, of "n_id globex_note1" default_query 0 50 None 5000 None] h v
    seed_listing
  show ?thesis by simp
qed

section \<open>Creating a note and reading it back\<close>

lemma find_fresh_append:
  assumes "\<not> list_ex (\<lambda>n. n_id n = ident) rows"
  shows "find (\<lambda>n. n_id n = ident \<and> Q n) (rows @ [x])
           = (if n_id x = ident \<and> Q x then Some x else None)"
  using assms by (induction rows) auto

lemma validateCreateNote_data:
  assumes "validateCreateNote b = Inr d"
  shows "title d = trim (string_of (jget b ''title''))
       \<and> content d = trim (string_of (jget b ''content''))"
  using assms by (auto simp: validateCreateNote_def Let_def split: if_splits)

lemma author_json_id:
  assumes "list_ex (\<lambda>u. u_id u = aid) (user_rows s)"
  shows "jget (author_json s aid) ''id'' = Some (JStr aid)"
proof -
  from assms obtain u where "find (\<lambda>u. u_id u = aid) (user_rows s) = Some u"
    by (cases "find (\<lambda>u. u_id u = aid) (user_rows s)") (auto simp: find_None_iff list_ex_iff)
  moreover from this have "u_id u = aid" by (auto simp: find_Some_iff)
  ultimately show ?thesis by (simp add: author_json_def)
qed

text \<open>What a successful creation has done.\<close>

lemma notes_POST_created:
  assumes "notes_POST now newId (Some ctx) (Some b) s = (resp, s')" and "status resp = 201"
  shows "\<exists>d. validateCreateNote b = Inr d
            \<and> userId ctx \<noteq> [] \<and> tenantId ctx \<noteq> []
            \<and> \<not> list_ex (\<lambda>n. n_id n = newId) (note_rows s)
            \<and> list_ex (\<lambda>u. u_id u = userId ctx) (user_rows s)
            \<and> s' = s\<lparr>note_rows := note_rows s @
                   [\<lparr>n_id = newId, n_title = title d, n_content = content d,
                     n_authorId = userId ctx, n_tenantId = tenantId ctx,
                     n_createdAt = now, n_updatedAt = now\<rparr>]\<rparr>"
proof (cases "validateCreateNote b")
  case (Inl errors)
  with assms show ?thesis
    by (auto simp: notes_POST_def split: if_splits)
next
  case (Inr d)
  show ?thesis
  proof (cases "validateNoteCreation (tenantId ctx) s")
    case (Some message)
    with assms Inr show ?thesis
      by (auto simp: notes_POST_def split: if_splits)
  next
    case None
    with assms Inr show ?thesis
      by (auto simp: notes_POST_def Let_def split: if_splits option.splits)
  qed
qed

text \<open>
  C7, as amended. After a successful create whose body has the title \<open>T\<close> and the content
  \<open>C\<close>, and whose new identifier \<open>newId\<close> is a CUID, a get of \<open>newId\<close> by any
  authenticated user of the same tenant succeeds and returns the note with that identifier,
  with the title \<open>trim T\<close>, the content \<open>trim C\<close> and the creating caller as author.
\<close>

theorem create_get_roundtrip:
  assumes "notes_POST now newId (Some ctx) (Some b) s = (resp, s')" and "status resp = 201"
    and "jget b ''title'' = Some (JStr T)" and "jget b ''content'' = Some (JStr C)"
    and "validateNoteId newId"
    and "userId reader \<noteq> []" and "tenantId reader = tenantId ctx"
  shows "status (fst (note_GET (Some reader) newId s')) = 200
       \<and> snd (note_GET (Some reader) newId s') = s'
       \<and> response_note_field (fst (note_GET (Some reader) newId s')) ''id'' = Some (JStr newId)
       \<and> response_note_field (fst (note_GET (Some reader) newId s')) ''title'' = Some (JStr (trim T))
       \<and> response_note_field (fst (note_GET (Some reader) newId s')) ''content''
            = Some (JStr (trim C))
       \<and> response_note_author_id (fst (note_GET (Some reader) newId s')) = Some (JStr (userId ctx))"
proof -
  from notes_POST_created [OF assms(1,2)] obtain d where
    d: "validateCreateNote b = Inr d"
    and auth: "tenantId ctx \<noteq> []"
    and fresh: "\<not> list_ex (\<lambda>n. n_id n = newId) (note_rows s)"
    and author: "list_ex (\<lambda>u. u_id u = userId ctx) (user_rows s)"
    and s': "s' = s\<lparr>note_rows := note_rows s @
                   [\<lparr>n_id = newId, n_title = title d, n_content = content d,
                     n_authorId = userId ctx, n_tenantId = tenantId ctx,
                     n_createdAt = now, n_updatedAt = now\<rparr>]\<rparr>"
    by blast
  define created where "created = \<lparr>n_id = newId, n_title = title d, n_content = content d,
                     n_authorId = userId ctx, n_tenantId = tenantId ctx,
                     n_createdAt = now, n_updatedAt = now\<rparr>"
  have found: "find (\<lambda>n. n_id n = newId \<and> n_tenantId n = tenantId reader) (note_rows s')
                 = Some created"
    using find_fresh_append [OF fresh, of "\<lambda>n. n_tenantId n = tenantId reader"] assms(7)
    by (simp add: s' created_def)
  have get: "note_GET (Some reader) newId s'
               = (createApiResponse (JObj [(''note'', note_json s' created)])
                    ''Note retrieved successfully'' 200, s')"
    using found assms(5,6,7) auth by (simp add: note_GET_def)
  have users: "user_rows s' = user_rows s" by (simp add: s')
  have aid: "json_author_id (note_json s' created) = Some (JStr (userId ctx))"
    using author_json_id [of "userId ctx" s'] author users
    by (simp add: json_author_id_def note_json_def created_def)
  show ?thesis
    using get aid validateCreateNote_data [OF d] assms(3,4)
    by (simp add: response_note_field_def response_note_author_id_def created_def)
qed

lemma seed_create_plain:
  "status (fst (notes_POST 5000 ''cnew000000000000000000001'' (Some acme_member_ctx)
                  (Some plain_body) seed_store)) = 201"
  by code_simp

theorem create_get_roundtrip_witness:
  "status (fst (notes_POST 5000 ''cnew000000000000000000001'' (Some acme_member_ctx)
                  (Some plain_body) seed_store)) = 201
   \<and> jget plain_body ''title'' = Some (JStr ''T'') \<and> jget plain_body ''content'' = Some (JStr ''C'')
   \<and> validateNoteId ''cnew000000000000000000001''
   \<and> userId acme_admin_ctx \<noteq> [] \<and> tenantId acme_admin_ctx = tenantId acme_member_ctx
   \<and> status (fst (note_GET (Some acme_admin_ctx) ''cnew000000000000000000001''
        (snd (notes_POST 5000 ''cnew000000000000000000001'' (Some acme_member_ctx)
                (Some plain_body) seed_store)))) = 200
   \<and> response_note_field (fst (note_GET (Some acme_admin_ctx) ''cnew000000000000000000001''
        (snd (notes_POST 5000 ''cnew000000000000000000001'' (Some acme_member_ctx)
                (Some plain_body) seed_store)))) ''title'' = Some (JStr ''T'')
   \<and> response_note_author_id (fst (note_GET (Some acme_admin_ctx) ''cnew000000000000000000001''
        (snd (notes_POST 5000 ''cnew000000000000000000001'' (Some acme_member_ctx)
                (Some plain_body) seed_store)))) = Some (JStr ''user-acme-member'')"
proof -
  have h: "jget plain_body ''title'' = Some (JStr ''T'')"
    "jget plain_body ''content'' = Some (JStr ''C'')"
    "validateNoteId ''cnew000000000000000000001''"
    "userId acme_admin_ctx \<noteq> []" "tenantId acme_admin_ctx = tenantId acme_member_ctx"
    by (simp_all add: plain_body_def acme_admin_ctx_def acme_member_ctx_def validateNoteId_def
        cuid_char_def is_lower_def is_upper_def is_digit_def)
  have t: "trim ''T'' = ''T''"
    by (simp add: trim_def is_space_def)
  from create_get_roundtrip [OF prod.collapse [symmetric] seed_create_plain h] h t
    seed_create_plain
  show ?thesis by (simp add: acme_member_ctx_def)
qed

text \<open>
  The claim as the specification states it fails for a title with a leading blank: the note
  read back has the title without the blank.
\<close>

theorem create_get_roundtrip_counterexample:
  "status (fst (notes_POST 5000 ''cnew000000000000000000001'' (Some acme_member_ctx)
                  (Some spaced_body) seed_store)) = 201
   \<and> jget spaced_body ''title'' = Some (JStr '' T'')
   \<and> response_note_field (fst (note_GET (Some acme_admin_ctx) ''cnew000000000000000000001''
        (snd (notes_POST 5000 ''cnew000000000000000000001'' (Some acme_member_ctx)
                (Some spaced_body) seed_store)))) ''title'' = Some (JStr ''T'')
   \<and> Some (JStr ''T'') \<noteq> Some (JStr '' T'')"
  by code_simp

section \<open>Accepting an invitation\<close>

lemma bare_error_status [simp]: "status (bare_error e st) = st"
  by (simp add: bare_error_def)

lemma bare_error_body [simp]: "body (bare_error e st) = JObj [(''error'', JStr e)]"
  by (simp add: bare_error_def)

lemma found_invitation_has_id:
  assumes "find P rows = Some invitation"
  shows "list_ex (\<lambda>i. i_id i = i_id invitation) rows"
  using assms by (auto simp: find_Some_iff list_ex_iff)

lemma invitation_update_found:
  assumes "find P (invitation_rows s) = Some invitation"
  shows "invitation_update (i_id invitation) change s
           = Some (s\<lparr>invitation_rows :=
                       map (\<lambda>i. if i_id i = i_id invitation then change i else i) (invitation_rows s)\<rparr>)"
  using found_invitation_has_id [OF assms] by (simp add: invitation_update_def)

text \<open>
  The branches of the accept handler, one lemma each, first for every client of the
  transaction and then for the datastore that throws for no other reason than the rows.
\<close>

lemma accept_POST_with_invalid:
  assumes "parse_accept b = None"
  shows "accept_POST_with tx issues h now newId (Some b) s
           = (\<lparr>status = 400,
               body = JObj [(''error'', JStr ''Invalid request data''), (''details'', issues b)]\<rparr>, s)"
  using assms by (simp add: accept_POST_with_def)

lemma accept_POST_with_unknown:
  assumes "parse_accept b = Some (tok, pw)"
    and "find (\<lambda>i. i_token i = tok \<and> i_status i = PENDING) (invitation_rows s) = None"
  shows "accept_POST_with tx issues h now newId (Some b) s
           = (bare_error ''Invalid or expired invitation token'' 404, s)"
  using assms by (simp add: accept_POST_with_def)

lemma accept_POST_with_expired:
  assumes "parse_accept b = Some (tok, pw)"
    and "find (\<lambda>i. i_token i = tok \<and> i_status i = PENDING) (invitation_rows s) = Some invitation"
    and "i_expiresAt invitation < now"
  shows "accept_POST_with tx issues h now newId (Some b) s
           = (bare_error ''Invitation has expired'' 410,
              s\<lparr>invitation_rows :=
                   map (\<lambda>i. if i_id i = i_id invitation then mark_expired i else i) (invitation_rows s)\<rparr>)"
  using assms invitation_update_found [OF assms(2), of mark_expired]
  by (simp add: accept_POST_with_def)

lemma accept_POST_with_duplicate:
  assumes "parse_accept b = Some (tok, pw)"
    and "find (\<lambda>i. i_token i = tok \<and> i_status i = PENDING) (invitation_rows s) = Some invitation"
    and "\<not> i_expiresAt invitation < now"
    and "list_ex (\<lambda>u. u_email u = i_email invitation \<and> u_tenantId u = i_tenantId invitation) (user_rows s)"
  shows "accept_POST_with tx issues h now newId (Some b) s
           = (bare_error ''User already exists in this organization'' 409,
              s\<lparr>invitation_rows :=
                   map (\<lambda>i. if i_id i = i_id invitation then mark_accepted now i else i)
                     (invitation_rows s)\<rparr>)"
  using assms invitation_update_found [OF assms(2), of "mark_accepted now"]
  by (simp add: accept_POST_with_def)

lemma accept_POST_with_proceeds:
  assumes "parse_accept b = Some (tok, pw)"
    and "find (\<lambda>i. i_token i = tok \<and> i_status i = PENDING) (invitation_rows s) = Some invitation"
    and "\<not> i_expiresAt invitation < now"
    and "\<not> list_ex (\<lambda>u. u_email u = i_email invitation \<and> u_tenantId u = i_tenantId invitation) (user_rows s)"
  shows "accept_POST_with tx issues h now newId (Some b) s =
     (case find (\<lambda>t. t_id t = i_tenantId invitation) (tenant_rows s) of
        None \<Rightarrow> (bare_error ''Internal server error'' 500, s)
      | Some tenant \<Rightarrow>
          if t_plan tenant = FREE
             \<and> length (filter (\<lambda>u. u_tenantId u = i_tenantId invitation) (user_rows s)) \<ge> 5 then
            (\<lparr>status = 403,
              body = JObj [(''error'', JStr ''User limit exceeded''),
                           (''message'', JStr ''This organization has reached its user limit. Please contact an administrator to upgrade the plan.''),
                           (''currentUsers'',
                            JNum (int (length (filter (\<lambda>u. u_tenantId u = i_tenantId invitation)
                                                 (user_rows s))))),
                           (''limit'', JNum 5)]\<rparr>, s)
          else
            (case prisma_transaction
                    (accept_tx tx
                       \<lparr>u_id = newId, u_email = i_email invitation, u_password = h pw 12,
                        u_role = i_role invitation, u_tenantId = i_tenantId invitation\<rparr>
                       (i_id invitation) now) s of
               (None, s') \<Rightarrow> (bare_error ''Internal server error'' 500, s')
             | (Some result, s') \<Rightarrow>
                 (\<lparr>status = 201,
                   body = JObj
                     [(''message'', JStr ''Account created successfully''),
                      (''user'',
                       JObj [(''id'', JStr (u_id result)),
                             (''email'', JStr (u_email result)),
                             (''role'', role_json (u_role result)),
                             (''tenantId'', JStr (u_tenantId result)),
                             (''tenantName'', JStr (t_name tenant)),
                             (''tenantSlug'', JStr (t_slug tenant))])]\<rparr>, s')))"
  unfolding accept_POST_with_def Let_def using assms by simp

lemma accept_POST_invalid:
  assumes "parse_accept b = None"
  shows "accept_POST issues h now newId (Some b) s
           = (\<lparr>status = 400,
               body = JObj [(''error'', JStr ''Invalid request data''), (''details'', issues b)]\<rparr>, s)"
  unfolding accept_POST_def by (rule accept_POST_with_invalid [OF assms])

lemma accept_POST_unknown:
  assumes "parse_accept b = Some (tok, pw)"
    and "find (\<lambda>i. i_token i = tok \<and> i_status i = PENDING) (invitation_rows s) = None"
  shows "accept_POST issues h now newId (Some b) s
           = (bare_error ''Invalid or expired invitation token'' 404, s)"
  unfolding accept_POST_def by (rule accept_POST_with_unknown [OF assms])

lemma accept_POST_expired:
  assumes "parse_accept b = Some (tok, pw)"
    and "find (\<lambda>i. i_token i = tok \<and> i_status i = PENDING) (invitation_rows s) = Some invitation"
    and "i_expiresAt invitation < now"
  shows "accept_POST issues h now newId (Some b) s
           = (bare_error ''Invitation has expired'' 410,
              s\<lparr>invitation_rows :=
                   map (\<lambda>i. if i_id i = i_id invitation then mark_expired i else i) (invitation_rows s)\<rparr>)"
  unfolding accept_POST_def by (rule accept_POST_with_expired [OF assms])

lemma accept_POST_duplicate:
  assumes "parse_accept b = Some (tok, pw)"
    and "find (\<lambda>i. i_token i = tok \<and> i_status i = PENDING) (invitation_rows s) = Some invitation"
    and "\<not> i_expiresAt invitation < now"
    and "list_ex (\<lambda>u. u_email u = i_email invitation \<and> u_tenantId u = i_tenantId invitation) (user_rows s)"
  shows "accept_POST issues h now newId (Some b) s
           = (bare_error ''User already exists in this organization'' 409,
              s\<lparr>invitation_rows :=
                   map (\<lambda>i. if i_id i = i_id invitation then mark_accepted now i else i)
                     (invitation_rows s)\<rparr>)"
  unfolding accept_POST_def by (rule accept_POST_with_duplicate [OF assms])

lemma accept_POST_proceeds:
  assumes "parse_accept b = Some (tok, pw)"
    and "find (\<lambda>i. i_token i = tok \<and> i_status i = PENDING) (invitation_rows s) = Some invitation"
    and "\<not> i_expiresAt invitation < now"
    and "\<not> list_ex (\<lambda>u. u_email u = i_email invitation \<and> u_tenantId u = i_tenantId invitation) (user_rows s)"
  shows "accept_POST issues h now newId (Some b) s =
     (case find (\<lambda>t. t_id t = i_tenantId invitation) (tenant_rows s) of
        None \<Rightarrow> (bare_error ''Internal server error'' 500, s)
      | Some tenant \<Rightarrow>
          if t_plan tenant = FREE
             \<and> length (filter (\<lambda>u. u_tenantId u = i_tenantId invitation) (user_rows s)) \<ge> 5 then
            (\<lparr>status = 403,
              body = JObj [(''error'', JStr ''User limit exceeded''),
                           (''message'', JStr ''This organization has reached its user limit. Please contact an administrator to upgrade the plan.''),
                           (''currentUsers'',
                            JNum (int (length (filter (\<lambda>u. u_tenantId u = i_tenantId invitation)
                                                 (user_rows s))))),
                           (''limit'', JNum 5)]\<rparr>, s)
          else
            (case prisma_transaction
                    (accept_tx prisma_client
                       \<lparr>u_id = newId, u_email = i_email invitation, u_password = h pw 12,
                        u_role = i_role invitation, u_tenantId = i_tenantId invitation\<rparr>
                       (i_id invitation) now) s of
               (None, s') \<Rightarrow> (bare_error ''Internal server error'' 500, s')
             | (Some result, s') \<Rightarrow>
                 (\<lparr>status = 201,
                   body = JObj
                     [(''message'', JStr ''Account created successfully''),
                      (''user'',
                       JObj [(''id'', JStr (u_id result)),
                             (''email'', JStr (u_email result)),
                             (''role'', role_json (u_role result)),
                             (''tenantId'', JStr (u_tenantId result)),
                             (''tenantName'', JStr (t_name tenant)),
                             (''tenantSlug'', JStr (t_slug tenant))])]\<rparr>, s')))"
  unfolding accept_POST_def by (rule accept_POST_with_proceeds [OF assms])

text \<open>
  Whatever the writes of the client do, the transaction ends with the store after both or
  with the store before the first.
\<close>

lemma accept_transaction_rollback:
  "prisma_transaction (accept_tx tx u ident now) t =
     (case Option.bind (tx_user_create tx u t) (tx_invitation_update tx ident (mark_accepted now)) of
        None \<Rightarrow> (None, t)
      | Some t2 \<Rightarrow> (Some u, t2))"
  by (simp add: prisma_transaction_def accept_tx_def split: option.splits)

text \<open>The transaction either changes nothing or does both writes.\<close>

lemma accept_transaction_all_or_nothing:
  "prisma_transaction (accept_tx prisma_client u ident now) t =
     (if user_create u t = None \<or> \<not> list_ex (\<lambda>i. i_id i = ident) (invitation_rows t)
      then (None, t)
      else (Some u,
            t\<lparr>user_rows := user_rows t @ [u],
              invitation_rows :=
                map (\<lambda>i. if i_id i = ident then mark_accepted now i else i) (invitation_rows t)\<rparr>))"
  by (auto simp: prisma_transaction_def accept_tx_def prisma_client_def user_create_def
      invitation_update_def split: option.splits)

lemma parse_accept_token:
  assumes "parse_accept b = Some (t, pw)" and "jget b ''token'' = Some (JStr tok)"
  shows "t = tok"
  using assms
  by (cases b) (auto simp: parse_accept_def split: option.splits json.splits if_splits)

lemma invitation_lookup_cases:
  "(find P rows = None) = (\<not> list_ex P rows)"
  by (auto simp: find_None_iff list_ex_iff)

text \<open>
  C4. An accept call whose token finds no PENDING invitation, or finds one whose
  \<^verbatim>\<open>expiresAt\<close> is earlier than the current time, is answered with an error (400 for a
  body the schema rejects, else 404 in the first case and 410 in the second) and the users
  table is unchanged.
\<close>

theorem accept_rejects_unusable_token:
  assumes "jget b ''token'' = Some (JStr tok)"
    and "(case find (\<lambda>i. i_token i = tok \<and> i_status i = PENDING) (invitation_rows s) of
            None \<Rightarrow> True
          | Some invitation \<Rightarrow> i_expiresAt invitation < now)"
  shows "status (fst (accept_POST issues h now newId (Some b) s))
           = (if parse_accept b = None then 400
              else if \<not> list_ex (\<lambda>i. i_token i = tok \<and> i_status i = PENDING) (invitation_rows s)
              then 404 else 410)
       \<and> is_string (jget (body (fst (accept_POST issues h now newId (Some b) s))) ''error'')
       \<and> user_rows (snd (accept_POST issues h now newId (Some b) s)) = user_rows s"
proof (cases "parse_accept b")
  case None
  then show ?thesis by (simp add: accept_POST_invalid)
next
  case (Some p)
  then obtain pw where p: "parse_accept b = Some (tok, pw)"
    using parse_accept_token [OF _ assms(1)] by (cases p) auto
  show ?thesis
  proof (cases "find (\<lambda>i. i_token i = tok \<and> i_status i = PENDING) (invitation_rows s)")
    case None
    then have "\<not> list_ex (\<lambda>i. i_token i = tok \<and> i_status i = PENDING) (invitation_rows s)"
      by (simp add: invitation_lookup_cases)
    with p None show ?thesis by (simp add: accept_POST_unknown)
  next
    case (Some invitation)
    then have ex: "list_ex (\<lambda>i. i_token i = tok \<and> i_status i = PENDING) (invitation_rows s)"
      by (auto simp: find_Some_iff list_ex_iff)
    from Some assms(2) have "i_expiresAt invitation < now" by simp
    with p Some ex show ?thesis by (simp add: accept_POST_expired)
  qed
qed

lemma accept_unknown_example:
  "status (fst (accept_POST no_issues demo_hash 5000 ''user-new''
                  (Some (accept_body ''token-none'')) invited_store)) = 404
   \<and> status (fst (accept_POST no_issues demo_hash 5000 ''user-new''
                  (Some (accept_body ''token-old'')) invited_store)) = 410"
  by code_simp

lemmas invited_defs = invited_store_def seed_store_def new_invitation_def
  duplicate_invitation_def old_invitation_def

theorem accept_rejects_unusable_token_witness:
  "jget (accept_body ''token-none'') ''token'' = Some (JStr ''token-none'')
   \<and> find (\<lambda>i. i_token i = ''token-none'' \<and> i_status i = PENDING) (invitation_rows invited_store)
        = None
   \<and> status (fst (accept_POST no_issues demo_hash 5000 ''user-new''
                  (Some (accept_body ''token-none'')) invited_store)) = 404
   \<and> user_rows (snd (accept_POST no_issues demo_hash 5000 ''user-new''
                  (Some (accept_body ''token-none'')) invited_store)) = user_rows invited_store
   \<and> jget (accept_body ''token-old'') ''token'' = Some (JStr ''token-old'')
   \<and> find (\<lambda>i. i_token i = ''token-old'' \<and> i_status i = PENDING) (invitation_rows invited_store)
        = Some old_invitation
   \<and> i_expiresAt old_invitation < 5000
   \<and> status (fst (accept_POST no_issues demo_hash 5000 ''user-new''
                  (Some (accept_body ''token-old'')) invited_store)) = 410
   \<and> user_rows (snd (accept_POST no_issues demo_hash 5000 ''user-new''
                  (Some (accept_body ''token-old'')) invited_store)) = user_rows invited_store"
proof -
  have t1: "jget (accept_body ''token-none'') ''token'' = Some (JStr ''token-none'')"
    and t2: "jget (accept_body ''token-old'') ''token'' = Some (JStr ''token-old'')"
    by (simp_all add: accept_body_def)
  have f1: "find (\<lambda>i. i_token i = ''token-none'' \<and> i_status i = PENDING)
              (invitation_rows invited_store) = None"
    and f2: "find (\<lambda>i. i_token i = ''token-old'' \<and> i_status i = PENDING)
              (invitation_rows invited_store) = Some old_invitation"
    and e: "i_expiresAt old_invitation < 5000"
    by (simp_all add: invited_defs)
  have c1: "(case find (\<lambda>i. i_token i = ''token-none'' \<and> i_status i = PENDING)
                    (invitation_rows invited_store) of
               None \<Rightarrow> True | Some invitation \<Rightarrow> i_expiresAt invitation < 5000)"
    by (simp add: f1)
  have c2: "(case find (\<lambda>i. i_token i = ''token-old'' \<and> i_status i = PENDING)
                    (invitation_rows invited_store) of
               None \<Rightarrow> True | Some invitation \<Rightarrow> i_expiresAt invitation < 5000)"
    by (simp add: f2 e)
  from accept_rejects_unusable_token [OF t1 c1, of no_issues demo_hash "''user-new''"]
    accept_rejects_unusable_token [OF t2 c2, of no_issues demo_hash "''user-new''"]
    accept_unknown_example t1 t2 f1 f2 e
  show ?thesis by simp
qed

text \<open>
  C10. An accept call with a valid body whose token finds a PENDING invitation that has not
  expired, for an email that a user of the invitation's tenant has already, is answered 409;
  the users table is unchanged, and the invitation is ACCEPTED with \<^verbatim>\<open>acceptedAt\<close>
  set to the time of the call.
\<close>

theorem duplicate_accept_consumes_invitation:
  assumes "parse_accept b = Some (tok, pw)"
    and "find (\<lambda>i. i_token i = tok \<and> i_status i = PENDING) (invitation_rows s) = Some invitation"
    and "\<not> i_expiresAt invitation < now"
    and "list_ex (\<lambda>u. u_email u = i_email invitation \<and> u_tenantId u = i_tenantId invitation)
           (user_rows s)"
  shows "accept_POST issues h now newId (Some b) s
           = (bare_error ''User already exists in this organization'' 409,
              s\<lparr>invitation_rows :=
                   map (\<lambda>i. if i_id i = i_id invitation then mark_accepted now i else i)
                     (invitation_rows s)\<rparr>)
       \<and> status (fst (accept_POST issues h now newId (Some b) s)) = 409
       \<and> user_rows (snd (accept_POST issues h now newId (Some b) s)) = user_rows s
       \<and> mark_accepted now invitation
            \<in> set (invitation_rows (snd (accept_POST issues h now newId (Some b) s)))
       \<and> i_status (mark_accepted now invitation) = ACCEPTED
       \<and> i_acceptedAt (mark_accepted now invitation) = Some now
       \<and> invitation \<in> set (invitation_rows s) \<and> i_status invitation = PENDING"
proof -
  from assms(2) have mem: "invitation \<in> set (invitation_rows s)" and pend: "i_status invitation = PENDING"
    by (auto simp: find_Some_iff)
  have "mark_accepted now invitation
          \<in> set (map (\<lambda>i. if i_id i = i_id invitation then mark_accepted now i else i)
                   (invitation_rows s))"
    using mem by force
  with accept_POST_duplicate [OF assms, of issues h newId] mem pend show ?thesis
    by (simp add: mark_accepted_def)
qed

lemma parse_accept_body:
  "parse_accept (accept_body tok) = (if tok = [] then None else Some (tok, ''password1''))"
  by (cases tok) (simp_all add: parse_accept_def accept_body_def)

theorem duplicate_accept_consumes_invitation_witness:
  "parse_accept (accept_body ''token-dup'') = Some (''token-dup'', ''password1'')
   \<and> find (\<lambda>i. i_token i = ''token-dup'' \<and> i_status i = PENDING) (invitation_rows invited_store)
        = Some duplicate_invitation
   \<and> \<not> i_expiresAt duplicate_invitation < 5000
   \<and> list_ex (\<lambda>u. u_email u = i_email duplicate_invitation
                    \<and> u_tenantId u = i_tenantId duplicate_invitation) (user_rows invited_store)
   \<and> status (fst (accept_POST no_issues demo_hash 5000 ''user-new''
                  (Some (accept_body ''token-dup'')) invited_store)) = 409
   \<and> user_rows (snd (accept_POST no_issues demo_hash 5000 ''user-new''
                  (Some (accept_body ''token-dup'')) invited_store)) = user_rows invited_store
   \<and> invitation_rows (snd (accept_POST no_issues demo_hash 5000 ''user-new''
                  (Some (accept_body ''token-dup'')) invited_store))
        = [new_invitation,
           duplicate_invitation\<lparr>i_status := ACCEPTED, i_acceptedAt := Some 5000\<rparr>,
           old_invitation]"
proof -
  have p: "parse_accept (accept_body ''token-dup'') = Some (''token-dup'', ''password1'')"
    by (simp add: parse_accept_body)
  have f: "find (\<lambda>i. i_token i = ''token-dup'' \<and> i_status i = PENDING)
             (invitation_rows invited_store) = Some duplicate_invitation"
    by (simp add: invited_defs)
  have e: "\<not> i_expiresAt duplicate_invitation < 5000"
    by (simp add: duplicate_invitation_def)
  have u: "list_ex (\<lambda>u. u_email u = i_email duplicate_invitation
                    \<and> u_tenantId u = i_tenantId duplicate_invitation) (user_rows invited_store)"
    by (simp add: invited_defs acme_admin_def acme_user_def)
  from duplicate_accept_consumes_invitation [OF p f e u, of no_issues demo_hash "''user-new''"]
    p f e u
  show ?thesis
    by (simp add: invited_defs mark_accepted_def)
qed

text \<open>
  Only a 201 answer comes with a new row of the users table, whatever the writes of the
  transaction do.
\<close>

lemma accept_POST_with_users:
  "status (fst (accept_POST_with tx issues h now newId requestBody s)) = 201
   \<or> user_rows (snd (accept_POST_with tx issues h now newId requestBody s)) = user_rows s"
proof (cases requestBody)
  case None
  then show ?thesis by (simp add: accept_POST_with_def)
next
  case (Some b)
  show ?thesis
  proof (cases "parse_accept b")
    case None
    with Some show ?thesis by (simp add: accept_POST_with_invalid)
  next
    case (Some p)
    obtain tok pw where p: "parse_accept b = Some (tok, pw)"
      using Some by (cases p) auto
    show ?thesis
    proof (cases "find (\<lambda>i. i_token i = tok \<and> i_status i = PENDING) (invitation_rows s)")
      case None
      with p \<open>requestBody = Some b\<close> show ?thesis by (simp add: accept_POST_with_unknown)
    next
      case found: (Some invitation)
      show ?thesis
      proof (cases "i_expiresAt invitation < now")
        case True
        with p found \<open>requestBody = Some b\<close> show ?thesis
          by (simp add: accept_POST_with_expired)
      next
        case fresh: False
        show ?thesis
        proof (cases "list_ex (\<lambda>u. u_email u = i_email invitation
                                 \<and> u_tenantId u = i_tenantId invitation) (user_rows s)")
          case True
          with p found fresh \<open>requestBody = Some b\<close> show ?thesis
            by (simp add: accept_POST_with_duplicate)
        next
          case False
          define newUser where "newUser = \<lparr>u_id = newId, u_email = i_email invitation,
            u_password = h pw 12, u_role = i_role invitation,
            u_tenantId = i_tenantId invitation\<rparr>"
          have tx: "prisma_transaction (accept_tx tx newUser (i_id invitation) now) s = (None, s)
            \<or> (\<exists>s'. prisma_transaction (accept_tx tx newUser (i_id invitation) now) s
                      = (Some newUser, s'))"
            by (simp add: accept_transaction_rollback split: option.splits)
          show ?thesis
            unfolding \<open>requestBody = Some b\<close> accept_POST_with_proceeds [OF p found fresh False]
            using tx unfolding newUser_def
            by (cases "find (\<lambda>t. t_id t = i_tenantId invitation) (tenant_rows s)") auto
        qed
      qed
    qed
  qed
qed

lemma accept_POST_users:
  "status (fst (accept_POST issues h now newId requestBody s)) = 201
   \<or> user_rows (snd (accept_POST issues h now newId requestBody s)) = user_rows s"
  unfolding accept_POST_def by (rule accept_POST_with_users)

section \<open>Accepted invitations have users\<close>

lemma same_id_same_invitation:
  assumes "distinct (map i_id rows)" and "i \<in> set rows" and "j \<in> set rows" and "i_id i = i_id j"
  shows "i = j"
  using assms by (auto simp: distinct_map inj_on_def)

lemma accepted_have_users_after_marking:
  assumes "accepted_have_users s" and "distinct (map i_id (invitation_rows s))"
    and "invitation \<in> set (invitation_rows s)"
    and "set (user_rows s) \<subseteq> set us"
    and "list_ex (\<lambda>u. u_email u = i_email invitation \<and> u_tenantId u = i_tenantId invitation) us"
  shows "accepted_have_users
           (s\<lparr>user_rows := us,
              invitation_rows :=
                map (\<lambda>i. if i_id i = i_id invitation then mark_accepted now i else i)
                  (invitation_rows s)\<rparr>)"
proof -
  have marked: "list_ex (\<lambda>u. u_email u = i_email (mark_accepted now i)
                             \<and> u_tenantId u = i_tenantId (mark_accepted now i)) us"
    if "i \<in> set (invitation_rows s)" and "i_id i = i_id invitation" for i
  proof -
    from that assms(2,3) have "i = invitation" using same_id_same_invitation by blast
    with assms(5) show ?thesis by (simp add: mark_accepted_def)
  qed
  have kept: "list_ex (\<lambda>u. u_email u = i_email i \<and> u_tenantId u = i_tenantId i) us"
    if "i \<in> set (invitation_rows s)" and "i_status i = ACCEPTED" for i
  proof -
    from that assms(1)
    have "list_ex (\<lambda>u. u_email u = i_email i \<and> u_tenantId u = i_tenantId i) (user_rows s)"
      by (auto simp: accepted_have_users_def list_all_iff)
    with assms(4) show ?thesis by (auto simp: list_ex_iff)
  qed
  show ?thesis
    using marked kept by (simp add: accepted_have_users_def list_all_iff) blast
qed

lemma accepted_have_users_after_expiring:
  assumes "accepted_have_users s"
  shows "accepted_have_users
           (s\<lparr>invitation_rows :=
                map (\<lambda>i. if i_id i = ident then mark_expired i else i) (invitation_rows s)\<rparr>)"
  using assms by (auto simp: accepted_have_users_def list_all_iff mark_expired_def)

text \<open>
  No accept call leaves an ACCEPTED invitation without a user: in a store whose invitation
  identifiers are distinct, the property is kept by every call, the 409 of an address that
  has a user already included.
\<close>

lemma accept_POST_keeps_accepted_have_users:
  assumes "accepted_have_users s" and "distinct (map i_id (invitation_rows s))"
  shows "accepted_have_users (snd (accept_POST issues h now newId requestBody s))"
proof (cases requestBody)
  case None
  with assms(1) show ?thesis by (simp add: accept_POST_def accept_POST_with_def)
next
  case (Some b)
  show ?thesis
  proof (cases "parse_accept b")
    case None
    with Some assms(1) show ?thesis by (simp add: accept_POST_invalid)
  next
    case (Some p)
    obtain tok pw where p: "parse_accept b = Some (tok, pw)"
      using Some by (cases p) auto
    show ?thesis
    proof (cases "find (\<lambda>i. i_token i = tok \<and> i_status i = PENDING) (invitation_rows s)")
      case None
      with p \<open>requestBody = Some b\<close> assms(1) show ?thesis by (simp add: accept_POST_unknown)
    next
      case found: (Some invitation)
      then have mem: "invitation \<in> set (invitation_rows s)"
        by (auto simp: find_Some_iff)
      show ?thesis
      proof (cases "i_expiresAt invitation < now")
        case True
        with p found \<open>requestBody = Some b\<close> accepted_have_users_after_expiring [OF assms(1)]
        show ?thesis by (simp add: accept_POST_expired)
      next
        case fresh: False
        show ?thesis
        proof (cases "list_ex (\<lambda>u. u_email u = i_email invitation
                                 \<and> u_tenantId u = i_tenantId invitation) (user_rows s)")
          case True
          from accepted_have_users_after_marking [OF assms mem subset_refl True, of now]
          show ?thesis
            by (simp add: \<open>requestBody = Some b\<close> accept_POST_duplicate [OF p found fresh True])
        next
          case False
          define newUser where "newUser = \<lparr>u_id = newId, u_email = i_email invitation,
            u_password = h pw 12, u_role = i_role invitation,
            u_tenantId = i_tenantId invitation\<rparr>"
          have after: "accepted_have_users
             (s\<lparr>user_rows := user_rows s @ [newUser],
                invitation_rows :=
                  map (\<lambda>i. if i_id i = i_id invitation then mark_accepted now i else i)
                    (invitation_rows s)\<rparr>)"
            by (rule accepted_have_users_after_marking [OF assms mem])
              (auto simp: newUser_def)
          have tx: "prisma_transaction (accept_tx prisma_client newUser (i_id invitation) now) s = (None, s)
            \<or> prisma_transaction (accept_tx prisma_client newUser (i_id invitation) now) s
                 = (Some newUser,
                    s\<lparr>user_rows := user_rows s @ [newUser],
                      invitation_rows :=
                        map (\<lambda>i. if i_id i = i_id invitation then mark_accepted now i else i)
                          (invitation_rows s)\<rparr>)"
            by (simp add: accept_transaction_all_or_nothing)
          show ?thesis
            unfolding \<open>requestBody = Some b\<close> accept_POST_proceeds [OF p found fresh False]
            using tx assms(1) after unfolding newUser_def
            by (cases "find (\<lambda>t. t_id t = i_tenantId invitation) (tenant_rows s)") auto
        qed
      qed
    qed
  qed
qed

text \<open>
  C5, as amended. When an accept call for a PENDING invitation is answered 201, the store
  differs from the one before in exactly two ways: the users table has the new user (with
  the invitation's email, role and tenant) and the invitation is ACCEPTED with
  \<^verbatim>\<open>acceptedAt\<close> set to the time of the call; the invitation had not expired. Both
  writes are one transaction: whatever the two writes do on the client of the transaction,
  the same call ends either with the answer 500 and the store that was there before the
  call, when one of them throws, or with the answer 201 and the store after both. So no
  accept call, with any client, adds a user without answering 201. In the other direction
  only this holds: no accept call leaves an ACCEPTED invitation without a user of its email
  in its tenant.
\<close>

theorem atomic_invitation_acceptance:
  assumes "parse_accept b = Some (tok, pw)"
    and "find (\<lambda>i. i_token i = tok \<and> i_status i = PENDING) (invitation_rows s) = Some invitation"
    and "status (fst (accept_POST issues h now newId (Some b) s)) = 201"
  shows "snd (accept_POST issues h now newId (Some b) s)
           = s\<lparr>user_rows := user_rows s @
                  [\<lparr>u_id = newId, u_email = i_email invitation, u_password = h pw 12,
                    u_role = i_role invitation, u_tenantId = i_tenantId invitation\<rparr>],
                invitation_rows :=
                  map (\<lambda>i. if i_id i = i_id invitation then mark_accepted now i else i)
                    (invitation_rows s)\<rparr>
       \<and> mark_accepted now invitation
            \<in> set (invitation_rows (snd (accept_POST issues h now newId (Some b) s)))
       \<and> i_status (mark_accepted now invitation) = ACCEPTED
       \<and> i_acceptedAt (mark_accepted now invitation) = Some now
       \<and> \<not> i_expiresAt invitation < now
       \<and> accept_POST_with tx issues h now newId (Some b) s =
           (case Option.bind
                   (tx_user_create tx
                      \<lparr>u_id = newId, u_email = i_email invitation, u_password = h pw 12,
                       u_role = i_role invitation, u_tenantId = i_tenantId invitation\<rparr> s)
                   (tx_invitation_update tx (i_id invitation) (mark_accepted now)) of
              None \<Rightarrow> (bare_error ''Internal server error'' 500, s)
            | Some s2 \<Rightarrow> (fst (accept_POST issues h now newId (Some b) s), s2))
       \<and> prisma_transaction (accept_tx tx u ident now) t =
           (case Option.bind (tx_user_create tx u t)
                   (tx_invitation_update tx ident (mark_accepted now)) of
              None \<Rightarrow> (None, t)
            | Some t2 \<Rightarrow> (Some u, t2))
       \<and> prisma_transaction (accept_tx prisma_client u ident now) t =
           (if user_create u t = None \<or> \<not> list_ex (\<lambda>i. i_id i = ident) (invitation_rows t)
            then (None, t)
            else (Some u,
                  t\<lparr>user_rows := user_rows t @ [u],
                    invitation_rows :=
                      map (\<lambda>i. if i_id i = ident then mark_accepted now i else i)
                        (invitation_rows t)\<rparr>))
       \<and> (status (fst (accept_POST_with tx issues h now newId requestBody t)) = 201
            \<or> user_rows (snd (accept_POST_with tx issues h now newId requestBody t)) = user_rows t)
       \<and> (accepted_have_users t \<and> distinct (map i_id (invitation_rows t))
            \<longrightarrow> accepted_have_users (snd (accept_POST issues h now newId requestBody t)))"
proof -
  have fresh: "\<not> i_expiresAt invitation < now"
    using assms accept_POST_expired [OF assms(1,2), of now issues h newId] by auto
  have nodup: "\<not> list_ex (\<lambda>u. u_email u = i_email invitation
                                 \<and> u_tenantId u = i_tenantId invitation) (user_rows s)"
    using assms accept_POST_duplicate [OF assms(1,2) fresh, of issues h newId] by auto
  define newUser where "newUser = \<lparr>u_id = newId, u_email = i_email invitation,
     u_password = h pw 12, u_role = i_role invitation, u_tenantId = i_tenantId invitation\<rparr>"
  define after where "after = s\<lparr>user_rows := user_rows s @ [newUser],
                invitation_rows :=
                  map (\<lambda>i. if i_id i = i_id invitation then mark_accepted now i else i)
                    (invitation_rows s)\<rparr>"
  obtain tenant where ten: "find (\<lambda>t. t_id t = i_tenantId invitation) (tenant_rows s) = Some tenant"
    using assms(3) unfolding accept_POST_proceeds [OF assms(1,2) fresh nodup]
    by (cases "find (\<lambda>t. t_id t = i_tenantId invitation) (tenant_rows s)") auto
  have room: "\<not> (t_plan tenant = FREE
        \<and> length (filter (\<lambda>u. u_tenantId u = i_tenantId invitation) (user_rows s)) \<ge> 5)"
    using assms(3) ten unfolding accept_POST_proceeds [OF assms(1,2) fresh nodup]
    by (auto split: if_splits)
  have real: "prisma_transaction (accept_tx prisma_client newUser (i_id invitation) now) s
                = (Some newUser, after)"
  proof (cases "user_create newUser s = None
          \<or> \<not> list_ex (\<lambda>i. i_id i = i_id invitation) (invitation_rows s)")
    case True
    then have "prisma_transaction (accept_tx prisma_client newUser (i_id invitation) now) s
                 = (None, s)"
      by (simp add: accept_transaction_all_or_nothing)
    with assms(3) ten room show ?thesis
      unfolding accept_POST_proceeds [OF assms(1,2) fresh nodup] newUser_def by auto
  next
    case False
    then show ?thesis
      by (simp add: accept_transaction_all_or_nothing after_def)
  qed
  define answer where "answer = \<lparr>status = 201,
                   body = JObj
                     [(''message'', JStr ''Account created successfully''),
                      (''user'',
                       JObj [(''id'', JStr (u_id newUser)),
                             (''email'', JStr (u_email newUser)),
                             (''role'', role_json (u_role newUser)),
                             (''tenantId'', JStr (u_tenantId newUser)),
                             (''tenantName'', JStr (t_name tenant)),
                             (''tenantSlug'', JStr (t_slug tenant))])]\<rparr>"
  have whole: "accept_POST issues h now newId (Some b) s = (answer, after)"
    unfolding accept_POST_proceeds [OF assms(1,2) fresh nodup]
    using ten room real unfolding newUser_def answer_def by auto
  have committed: "snd (accept_POST issues h now newId (Some b) s) = after"
    by (simp add: whole)
  have with_tx: "accept_POST_with tx issues h now newId (Some b) s =
           (case Option.bind (tx_user_create tx newUser s)
                   (tx_invitation_update tx (i_id invitation) (mark_accepted now)) of
              None \<Rightarrow> (bare_error ''Internal server error'' 500, s)
            | Some s2 \<Rightarrow> (fst (accept_POST issues h now newId (Some b) s), s2))"
  proof (cases "Option.bind (tx_user_create tx newUser s)
                   (tx_invitation_update tx (i_id invitation) (mark_accepted now))")
    case None
    then have "prisma_transaction (accept_tx tx newUser (i_id invitation) now) s = (None, s)"
      by (simp add: accept_transaction_rollback)
    with ten room None show ?thesis
      unfolding accept_POST_with_proceeds [OF assms(1,2) fresh nodup] newUser_def by auto
  next
    case (Some s2)
    then have "prisma_transaction (accept_tx tx newUser (i_id invitation) now) s
                 = (Some newUser, s2)"
      by (simp add: accept_transaction_rollback)
    with ten room Some show ?thesis
      unfolding accept_POST_with_proceeds [OF assms(1,2) fresh nodup] whole
      unfolding newUser_def answer_def by auto
  qed
  from assms(2) have mem: "invitation \<in> set (invitation_rows s)"
    by (auto simp: find_Some_iff)
  have marked: "mark_accepted now invitation
            \<in> set (invitation_rows (snd (accept_POST issues h now newId (Some b) s)))"
    unfolding committed after_def using mem by force
  from committed marked fresh with_tx accept_transaction_rollback [of tx u ident now t]
    accept_transaction_all_or_nothing [of u ident now t]
    accept_POST_with_users [of tx issues h now newId requestBody t]
    accept_POST_keeps_accepted_have_users [of t issues h now newId requestBody]
  show ?thesis
    unfolding newUser_def after_def by (simp add: mark_accepted_def)
qed

lemma accept_new_example:
  "status (fst (accept_POST no_issues demo_hash 5000 ''user-new''
                  (Some (accept_body ''token-new'')) invited_store)) = 201"
  by code_simp

theorem atomic_invitation_acceptance_witness:
  "parse_accept (accept_body ''token-new'') = Some (''token-new'', ''password1'')
   \<and> find (\<lambda>i. i_token i = ''token-new'' \<and> i_status i = PENDING) (invitation_rows invited_store)
        = Some new_invitation
   \<and> status (fst (accept_POST no_issues demo_hash 5000 ''user-new''
                  (Some (accept_body ''token-new'')) invited_store)) = 201
   \<and> user_rows (snd (accept_POST no_issues demo_hash 5000 ''user-new''
                  (Some (accept_body ''token-new'')) invited_store))
        = [acme_admin, acme_user, globex_admin, globex_user,
           \<lparr>u_id = ''user-new'', u_email = ''new@acme.test'', u_password = ''hash of password1'',
            u_role = MEMBER, u_tenantId = ''tenant-acme''\<rparr>]
   \<and> invitation_rows (snd (accept_POST no_issues demo_hash 5000 ''user-new''
                  (Some (accept_body ''token-new'')) invited_store))
        = [new_invitation\<lparr>i_status := ACCEPTED, i_acceptedAt := Some 5000\<rparr>,
           duplicate_invitation, old_invitation]
   \<and> tx_user_create failing_update
        \<lparr>u_id = ''user-new'', u_email = ''new@acme.test'', u_password = ''hash of password1'',
         u_role = MEMBER, u_tenantId = ''tenant-acme''\<rparr> invited_store
        = Some (invited_store\<lparr>user_rows := user_rows invited_store @
             [\<lparr>u_id = ''user-new'', u_email = ''new@acme.test'',
               u_password = ''hash of password1'', u_role = MEMBER,
               u_tenantId = ''tenant-acme''\<rparr>]\<rparr>)
   \<and> accept_POST_with failing_update no_issues demo_hash 5000 ''user-new''
        (Some (accept_body ''token-new'')) invited_store
        = (\<lparr>status = 500, body = JObj [(''error'', JStr ''Internal server error'')]\<rparr>,
           invited_store)
   \<and> accepted_have_users invited_store \<and> distinct (map i_id (invitation_rows invited_store))
   \<and> accepted_have_users (snd (accept_POST no_issues demo_hash 5000 ''user-new''
                  (Some (accept_body ''token-new'')) invited_store))"
proof -
  have p: "parse_accept (accept_body ''token-new'') = Some (''token-new'', ''password1'')"
    by (simp add: parse_accept_body)
  have f: "find (\<lambda>i. i_token i = ''token-new'' \<and> i_status i = PENDING)
             (invitation_rows invited_store) = Some new_invitation"
    by (simp add: invited_defs)
  have i: "accepted_have_users invited_store" "distinct (map i_id (invitation_rows invited_store))"
    by (simp_all add: accepted_have_users_def invited_defs)
  have c: "tx_user_create failing_update
        \<lparr>u_id = ''user-new'', u_email = ''new@acme.test'', u_password = ''hash of password1'',
         u_role = MEMBER, u_tenantId = ''tenant-acme''\<rparr> invited_store
        = Some (invited_store\<lparr>user_rows := user_rows invited_store @
             [\<lparr>u_id = ''user-new'', u_email = ''new@acme.test'',
               u_password = ''hash of password1'', u_role = MEMBER,
               u_tenantId = ''tenant-acme''\<rparr>]\<rparr>)"
    by (simp add: failing_update_def user_create_def invited_defs acme_def globex_def
        acme_admin_def acme_user_def globex_admin_def globex_user_def)
  note inst = atomic_invitation_acceptance [OF p f accept_new_example,
      where requestBody = "Some (accept_body ''token-new'')" and t = invited_store
        and u = acme_admin and ident = "''inv-new''" and tx = failing_update]
  from inst have after: "snd (accept_POST no_issues demo_hash 5000 ''user-new''
                  (Some (accept_body ''token-new'')) invited_store)
       = invited_store\<lparr>user_rows := user_rows invited_store @
                  [\<lparr>u_id = ''user-new'', u_email = i_email new_invitation,
                    u_password = demo_hash ''password1'' 12,
                    u_role = i_role new_invitation, u_tenantId = i_tenantId new_invitation\<rparr>],
                invitation_rows :=
                  map (\<lambda>i. if i_id i = i_id new_invitation then mark_accepted 5000 i else i)
                    (invitation_rows invited_store)\<rparr>"
    by blast
  from inst have "accept_POST_with failing_update no_issues demo_hash 5000 ''user-new''
        (Some (accept_body ''token-new'')) invited_store =
           (case Option.bind
                   (tx_user_create failing_update
                      \<lparr>u_id = ''user-new'', u_email = i_email new_invitation,
                       u_password = demo_hash ''password1'' 12,
                       u_role = i_role new_invitation, u_tenantId = i_tenantId new_invitation\<rparr>
                      invited_store)
                   (tx_invitation_update failing_update (i_id new_invitation) (mark_accepted 5000)) of
              None \<Rightarrow> (bare_error ''Internal server error'' 500, invited_store)
            | Some s2 \<Rightarrow> (fst (accept_POST no_issues demo_hash 5000 ''user-new''
                                 (Some (accept_body ''token-new'')) invited_store), s2))"
    by blast
  then have rolled: "accept_POST_with failing_update no_issues demo_hash 5000 ''user-new''
        (Some (accept_body ''token-new'')) invited_store
        = (\<lparr>status = 500, body = JObj [(''error'', JStr ''Internal server error'')]\<rparr>,
           invited_store)"
    using c by (simp add: new_invitation_def demo_hash_def bare_error_def failing_update_def)
  from inst i have kept: "accepted_have_users (snd (accept_POST no_issues demo_hash 5000 ''user-new''
                  (Some (accept_body ''token-new'')) invited_store))"
    by blast
  have rows: "user_rows (snd (accept_POST no_issues demo_hash 5000 ''user-new''
                  (Some (accept_body ''token-new'')) invited_store))
        = [acme_admin, acme_user, globex_admin, globex_user,
           \<lparr>u_id = ''user-new'', u_email = ''new@acme.test'', u_password = ''hash of password1'',
            u_role = MEMBER, u_tenantId = ''tenant-acme''\<rparr>]"
    "invitation_rows (snd (accept_POST no_issues demo_hash 5000 ''user-new''
                  (Some (accept_body ''token-new'')) invited_store))
        = [new_invitation\<lparr>i_status := ACCEPTED, i_acceptedAt := Some 5000\<rparr>,
           duplicate_invitation, old_invitation]"
    unfolding after by (simp_all add: invited_defs mark_accepted_def demo_hash_def)
  from p f i accept_new_example rows kept c rolled show ?thesis by simp
qed

text \<open>
  The claim as the specification states it fails in its second half, that no invitation
  is marked ACCEPTED without the user being created: an accept call for the PENDING
  invitation of an address that has a user in the tenant already is answered 409, leaves the
  users table as it was and marks the invitation ACCEPTED.
\<close>

theorem acceptance_converse_counterexample:
  "status (fst (accept_POST no_issues demo_hash 5000 ''user-new''
                  (Some (accept_body ''token-dup'')) invited_store)) = 409
   \<and> user_rows (snd (accept_POST no_issues demo_hash 5000 ''user-new''
                  (Some (accept_body ''token-dup'')) invited_store)) = user_rows invited_store
   \<and> invitation_rows invited_store = [new_invitation, duplicate_invitation, old_invitation]
   \<and> i_status duplicate_invitation = PENDING
   \<and> invitation_rows (snd (accept_POST no_issues demo_hash 5000 ''user-new''
                  (Some (accept_body ''token-dup'')) invited_store))
        = [new_invitation,
           duplicate_invitation\<lparr>i_status := ACCEPTED, i_acceptedAt := Some 5000\<rparr>,
           old_invitation]"
proof -
  have p: "parse_accept (accept_body ''token-dup'') = Some (''token-dup'', ''password1'')"
    by (simp add: parse_accept_body)
  have f: "find (\<lambda>i. i_token i = ''token-dup'' \<and> i_status i = PENDING)
             (invitation_rows invited_store) = Some duplicate_invitation"
    by (simp add: invited_defs)
  have e: "\<not> i_expiresAt duplicate_invitation < 5000"
    by (simp add: duplicate_invitation_def)
  have u: "list_ex (\<lambda>u. u_email u = i_email duplicate_invitation
                    \<and> u_tenantId u = i_tenantId duplicate_invitation) (user_rows invited_store)"
    by (simp add: invited_defs acme_admin_def acme_user_def)
  from accept_POST_duplicate [OF p f e u, of no_issues demo_hash "''user-new''"]
  show ?thesis
    by (simp add: invited_defs mark_accepted_def)
qed

section \<open>Issuing an invitation\<close>

text \<open>
  C6. An administrator of a tenant on the FREE plan sends a valid invitation request for an
  address that has no user and no pending invitation in the tenant. The request is answered
  403 with the store unchanged exactly when users + pending invitations + 1 exceeds 5;
  otherwise it is answered 201 and the store gains one invitation, with status PENDING.
  (The caller is a row of the users table and the new identifier and token are unused, as
  the datastore requires of the new row.)
\<close>

theorem invitation_user_cap:
  assumes "role ctx = ADMIN" and "parse_invite is_email b = Some (em, r)"
    and "\<not> list_ex (\<lambda>u. u_email u = em \<and> u_tenantId u = tenantId ctx) (user_rows s)"
    and "\<not> list_ex (\<lambda>i. i_email i = em \<and> i_tenantId i = tenantId ctx \<and> i_status i = PENDING)
             (invitation_rows s)"
    and "find (\<lambda>t. t_id t = tenantId ctx) (tenant_rows s) = Some tenant"
    and "t_plan tenant = FREE"
    and "find (\<lambda>u. u_id u = userId ctx) (user_rows s) = Some inviter"
    and "\<not> list_ex (\<lambda>i. i_id i = newId \<or> i_token i = newToken) (invitation_rows s)"
  shows "status (fst (invite_POST is_email issues appUrl now newId newToken (Some ctx) (Some b) s))
           = (if length (filter (\<lambda>u. u_tenantId u = tenantId ctx) (user_rows s))
                 + length (filter (\<lambda>i. i_tenantId i = tenantId ctx \<and> i_status i = PENDING)
                             (invitation_rows s)) + 1 > 5
              then 403 else 201)
       \<and> snd (invite_POST is_email issues appUrl now newId newToken (Some ctx) (Some b) s)
           = (if length (filter (\<lambda>u. u_tenantId u = tenantId ctx) (user_rows s))
                 + length (filter (\<lambda>i. i_tenantId i = tenantId ctx \<and> i_status i = PENDING)
                             (invitation_rows s)) + 1 > 5
              then s
              else s\<lparr>invitation_rows := invitation_rows s @
                     [\<lparr>i_id = newId, i_email = em, i_role = r, i_token = newToken,
                       i_status = PENDING, i_tenantId = tenantId ctx, i_invitedBy = userId ctx,
                       i_expiresAt = getExpirationDate now, i_acceptedAt = None,
                       i_createdAt = now\<rparr>]\<rparr>)"
  unfolding invite_POST_def Let_def using assms by simp

lemma parse_invite_body:
  "parse_invite any_email (invite_body ''fresh@acme.test'') = Some (''fresh@acme.test'', MEMBER)"
  by (simp add: parse_invite_def invite_body_def any_email_def)

theorem invitation_user_cap_witness:
  "role acme_admin_ctx = ADMIN
   \<and> parse_invite any_email (invite_body ''fresh@acme.test'') = Some (''fresh@acme.test'', MEMBER)
   \<and> find (\<lambda>t. t_id t = tenantId acme_admin_ctx) (tenant_rows invited_store) = Some acme
   \<and> t_plan acme = FREE
   \<and> find (\<lambda>u. u_id u = userId acme_admin_ctx) (user_rows invited_store) = Some acme_admin
   \<and> length (filter (\<lambda>u. u_tenantId u = tenantId acme_admin_ctx) (user_rows invited_store)) = 2
   \<and> length (filter (\<lambda>i. i_tenantId i = tenantId acme_admin_ctx \<and> i_status i = PENDING)
                (invitation_rows invited_store)) = 3
   \<and> status (fst (invite_POST any_email no_issues [] 5000 ''inv-fresh'' ''token-fresh''
                  (Some acme_admin_ctx) (Some (invite_body ''fresh@acme.test'')) invited_store)) = 403
   \<and> snd (invite_POST any_email no_issues [] 5000 ''inv-fresh'' ''token-fresh''
                  (Some acme_admin_ctx) (Some (invite_body ''fresh@acme.test'')) invited_store)
        = invited_store
   \<and> length (filter (\<lambda>i. i_tenantId i = tenantId acme_admin_ctx \<and> i_status i = PENDING)
                (invitation_rows seed_store)) = 0
   \<and> status (fst (invite_POST any_email no_issues [] 5000 ''inv-fresh'' ''token-fresh''
                  (Some acme_admin_ctx) (Some (invite_body ''fresh@acme.test'')) seed_store)) = 201
   \<and> invitation_rows (snd (invite_POST any_email no_issues [] 5000 ''inv-fresh'' ''token-fresh''
                  (Some acme_admin_ctx) (Some (invite_body ''fresh@acme.test'')) seed_store))
        = [\<lparr>i_id = ''inv-fresh'', i_email = ''fresh@acme.test'', i_role = MEMBER,
            i_token = ''token-fresh'', i_status = PENDING, i_tenantId = ''tenant-acme'',
            i_invitedBy = ''user-acme-admin'', i_expiresAt = 604805000, i_acceptedAt = None,
            i_createdAt = 5000\<rparr>]"
proof -
  have a: "role acme_admin_ctx = ADMIN" by (simp add: acme_admin_ctx_def)
  have t: "t_plan acme = FREE" by (simp add: acme_def)
  have i1: "\<not> list_ex (\<lambda>u. u_email u = ''fresh@acme.test'' \<and> u_tenantId u = tenantId acme_admin_ctx)
                (user_rows invited_store)"
    "\<not> list_ex (\<lambda>i. i_email i = ''fresh@acme.test'' \<and> i_tenantId i = tenantId acme_admin_ctx
                     \<and> i_status i = PENDING) (invitation_rows invited_store)"
    "find (\<lambda>t. t_id t = tenantId acme_admin_ctx) (tenant_rows invited_store) = Some acme"
    "find (\<lambda>u. u_id u = userId acme_admin_ctx) (user_rows invited_store) = Some acme_admin"
    "\<not> list_ex (\<lambda>i. i_id i = ''inv-fresh'' \<or> i_token i = ''token-fresh'')
                (invitation_rows invited_store)"
    "length (filter (\<lambda>u. u_tenantId u = tenantId acme_admin_ctx) (user_rows invited_store)) = 2"
    "length (filter (\<lambda>i. i_tenantId i = tenantId acme_admin_ctx \<and> i_status i = PENDING)
                (invitation_rows invited_store)) = 3"
    by (simp_all add: invited_defs acme_admin_ctx_def acme_def globex_def acme_admin_def
        acme_user_def globex_admin_def globex_user_def)
  have i2: "\<not> list_ex (\<lambda>u. u_email u = ''fresh@acme.test'' \<and> u_tenantId u = tenantId acme_admin_ctx)
                (user_rows seed_store)"
    "\<not> list_ex (\<lambda>i. i_email i = ''fresh@acme.test'' \<and> i_tenantId i = tenantId acme_admin_ctx
                     \<and> i_status i = PENDING) (invitation_rows seed_store)"
    "find (\<lambda>t. t_id t = tenantId acme_admin_ctx) (tenant_rows seed_store) = Some acme"
    "find (\<lambda>u. u_id u = userId acme_admin_ctx) (user_rows seed_store) = Some acme_admin"
    "\<not> list_ex (\<lambda>i. i_id i = ''inv-fresh'' \<or> i_token i = ''token-fresh'')
                (invitation_rows seed_store)"
    "length (filter (\<lambda>u. u_tenantId u = tenantId acme_admin_ctx) (user_rows seed_store)) = 2"
    "length (filter (\<lambda>i. i_tenantId i = tenantId acme_admin_ctx \<and> i_status i = PENDING)
                (invitation_rows seed_store)) = 0"
    by (simp_all add: seed_store_def acme_admin_ctx_def acme_def globex_def acme_admin_def
        acme_user_def globex_admin_def globex_user_def)
  from invitation_user_cap [OF a parse_invite_body i1(1,2,3) t i1(4,5), of no_issues "[]" 5000]
    invitation_user_cap [OF a parse_invite_body i2(1,2,3) t i2(4,5), of no_issues "[]" 5000]
    a t parse_invite_body i1 i2
  show ?thesis
    by (simp add: getExpirationDate_def acme_admin_ctx_def seed_store_def)
qed

section \<open>The shape of error responses\<close>

lemma envelope_createApiError [simp]: "error_envelope (body (createApiError e st))"
  by (simp add: createApiError_def)

lemma envelope_createValidationError [simp]: "error_envelope (body (createValidationError m))"
  by (simp add: createValidationError_def)

lemma envelope_createNotFoundError [simp]: "error_envelope (body (createNotFoundError r))"
  by (simp add: createNotFoundError_def)

lemma bare_bare_error [simp]: "bare_error_body (body (bare_error e st))"
  by (simp add: bare_error_def)

lemma note_GET_envelope:
  "status (fst (note_GET tc ident s)) = 200
   \<or> 400 \<le> status (fst (note_GET tc ident s)) \<and> error_envelope (body (fst (note_GET tc ident s)))"
  by (simp add: note_GET_def split: option.splits)

lemma note_DELETE_envelope:
  "status (fst (note_DELETE tc ident s)) = 200
   \<or> 400 \<le> status (fst (note_DELETE tc ident s))
     \<and> error_envelope (body (fst (note_DELETE tc ident s)))"
  by (simp add: note_DELETE_def Let_def split: option.splits)

lemma note_PUT_envelope:
  "status (fst (note_PUT now tc ident rb s)) = 200
   \<or> 400 \<le> status (fst (note_PUT now tc ident rb s))
     \<and> error_envelope (body (fst (note_PUT now tc ident rb s)))"
  by (simp add: note_PUT_def Let_def split: option.splits sum.splits)

lemma notes_POST_envelope:
  "status (fst (notes_POST now newId tc rb s)) = 201
   \<or> 400 \<le> status (fst (notes_POST now newId tc rb s))
     \<and> error_envelope (body (fst (notes_POST now newId tc rb s)))"
  by (simp add: notes_POST_def Let_def split: option.splits sum.splits)

lemma notes_GET_envelope:
  "status (fst (notes_GET tc query s)) = 200
   \<or> 400 \<le> status (fst (notes_GET tc query s))
     \<and> error_envelope (body (fst (notes_GET tc query s)))"
  unfolding notes_GET_def Let_def
  by (simp split: option.splits sum.splits prod.splits)

lemma invite_POST_bare:
  "status (fst (invite_POST is_email issues appUrl now newId newToken tc rb s)) = 201
   \<or> 400 \<le> status (fst (invite_POST is_email issues appUrl now newId newToken tc rb s))
     \<and> bare_error_body (body (fst (invite_POST is_email issues appUrl now newId newToken tc rb s)))"
  unfolding invite_POST_def Let_def
  by (simp split: option.splits prod.splits)

lemma accept_GET_bare:
  "status (fst (accept_GET now token s)) = 200
   \<or> 400 \<le> status (fst (accept_GET now token s))
     \<and> bare_error_body (body (fst (accept_GET now token s)))"
  unfolding accept_GET_def Let_def
  by (simp split: option.splits prod.splits)

lemma accept_POST_bare:
  "status (fst (accept_POST issues h now newId rb s)) = 201
   \<or> 400 \<le> status (fst (accept_POST issues h now newId rb s))
     \<and> bare_error_body (body (fst (accept_POST issues h now newId rb s)))"
  unfolding accept_POST_def accept_POST_with_def Let_def
  by (simp split: option.splits prod.splits)

lemma createForbiddenError_status [simp]: "status createForbiddenError = 403"
  by (simp add: createForbiddenError_def)

lemma envelope_createForbiddenError [simp]: "error_envelope (body createForbiddenError)"
  by (simp add: createForbiddenError_def)

lemma createApiResponse_data_status [simp]: "status (createApiResponse_data d) = 200"
  by (simp add: createApiResponse_data_def)

lemma invitations_GET_bare:
  "status (fst (invitations_GET tc iquery s)) = 200
   \<or> 400 \<le> status (fst (invitations_GET tc iquery s))
     \<and> bare_error_body (body (fst (invitations_GET tc iquery s)))"
  unfolding invitations_GET_def Let_def
  by (simp split: option.splits prod.splits)

lemma middleware_api_bare:
  "(case middleware_api jwt authHeader of
      None \<Rightarrow> True
    | Some r \<Rightarrow> status r = 401 \<and> bare_error_body (body r))"
  unfolding middleware_api_def Let_def
  by (simp split: option.splits)

lemma login_POST_envelope:
  "status (login_POST jwt compare rb s) = 200
   \<or> 400 \<le> status (login_POST jwt compare rb s)
     \<and> error_envelope (body (login_POST jwt compare rb s))"
  unfolding login_POST_def Let_def
  by (simp split: option.splits)

lemma validate_GET_envelope:
  "status (validate_GET jwt now authHeader) = 200
   \<or> 400 \<le> status (validate_GET jwt now authHeader)
     \<and> error_envelope (body (validate_GET jwt now authHeader))"
  unfolding validate_GET_def Let_def
  by (simp split: option.splits)

lemma logout_POST_envelope:
  "status (logout_POST jwt now authHeader) = 200
   \<or> 400 \<le> status (logout_POST jwt now authHeader)
     \<and> error_envelope (body (logout_POST jwt now authHeader))"
  unfolding logout_POST_def Let_def
  by (simp split: option.splits)

lemma session_GET_envelope:
  "status (session_GET jwt authHeader) = 200
   \<or> 400 \<le> status (session_GET jwt authHeader)
     \<and> error_envelope (body (session_GET jwt authHeader))"
  unfolding session_GET_def Let_def
  by (simp split: option.splits)

lemma verify_GET_envelope:
  "status (verify_GET jwt authHeader) = 200
   \<or> 400 \<le> status (verify_GET jwt authHeader)
     \<and> error_envelope (body (verify_GET jwt authHeader))"
  unfolding verify_GET_def Let_def
  by (simp split: option.splits)

lemma upgrade_POST_envelope:
  "status (fst (upgrade_POST now tc slug s)) = 200
   \<or> 400 \<le> status (fst (upgrade_POST now tc slug s))
     \<and> error_envelope (body (fst (upgrade_POST now tc slug s)))"
  unfolding upgrade_POST_def Let_def
  by (simp add: createApiResponse_def split: option.splits sum.splits prod.splits)

lemma upgrade_GET_envelope:
  "status (upgrade_GET tc slug s) = 200
   \<or> 400 \<le> status (upgrade_GET tc slug s)
     \<and> error_envelope (body (upgrade_GET tc slug s))"
  unfolding upgrade_GET_def Let_def
  by (simp split: option.splits)

lemma tenant_GET_envelope:
  "status (tenant_GET headers s) = 200
   \<or> 400 \<le> status (tenant_GET headers s)
     \<and> error_envelope (body (tenant_GET headers s))"
  unfolding tenant_GET_def Let_def
  by (simp split: option.splits)

text \<open>
  C8, as amended. Every response other than the success (200, or 201 for a creation) of the
  handlers for notes (get, update, delete, create, list), for login, logout, token validation,
  session and token verification, for the upgrade of a tenant and its eligibility check, and
  for the tenant information has a status of 400 or more and a body of exactly the shape
  \<^verbatim>\<open>{success: false, error: <message>}\<close>. Every response other than the success of
  the invitation handlers (invite, listing, accept and the token check of accept) has a
  status of 400 or more and a body with a string \<^verbatim>\<open>error\<close> and no
  \<^verbatim>\<open>success\<close> property, and so has every answer of the middleware that stops a
  request to the API, which is a 401.
\<close>

theorem error_bodies_by_handler:
  "(status (fst (note_GET tc ident s)) = 200
      \<or> 400 \<le> status (fst (note_GET tc ident s))
        \<and> error_envelope (body (fst (note_GET tc ident s))))
   \<and> (status (fst (note_PUT now tc ident rb s)) = 200
      \<or> 400 \<le> status (fst (note_PUT now tc ident rb s))
        \<and> error_envelope (body (fst (note_PUT now tc ident rb s))))
   \<and> (status (fst (note_DELETE tc ident s)) = 200
      \<or> 400 \<le> status (fst (note_DELETE tc ident s))
        \<and> error_envelope (body (fst (note_DELETE tc ident s))))
   \<and> (status (fst (notes_POST now newId tc rb s)) = 201
      \<or> 400 \<le> status (fst (notes_POST now newId tc rb s))
        \<and> error_envelope (body (fst (notes_POST now newId tc rb s))))
   \<and> (status (fst (notes_GET tc query s)) = 200
      \<or> 400 \<le> status (fst (notes_GET tc query s))
        \<and> error_envelope (body (fst (notes_GET tc query s))))
   \<and> (status (fst (invite_POST is_email issues appUrl now newId newToken tc rb s)) = 201
      \<or> 400 \<le> status (fst (invite_POST is_email issues appUrl now newId newToken tc rb s))
        \<and> bare_error_body
             (body (fst (invite_POST is_email issues appUrl now newId newToken tc rb s))))
   \<and> (status (fst (accept_POST issues h now newId rb s)) = 201
      \<or> 400 \<le> status (fst (accept_POST issues h now newId rb s))
        \<and> bare_error_body (body (fst (accept_POST issues h now newId rb s))))
   \<and> (status (fst (accept_GET now token s)) = 200
      \<or> 400 \<le> status (fst (accept_GET now token s))
        \<and> bare_error_body (body (fst (accept_GET now token s))))
   \<and> (status (fst (invitations_GET tc iquery s)) = 200
      \<or> 400 \<le> status (fst (invitations_GET tc iquery s))
        \<and> bare_error_body (body (fst (invitations_GET tc iquery s))))
   \<and> (case middleware_api jwt authHeader of
         None \<Rightarrow> True
       | Some r \<Rightarrow> status r = 401 \<and> bare_error_body (body r))
   \<and> (status (login_POST jwt compare rb s) = 200
      \<or> 400 \<le> status (login_POST jwt compare rb s)
        \<and> error_envelope (body (login_POST jwt compare rb s)))
   \<and> (status (validate_GET jwt now authHeader) = 200
      \<or> 400 \<le> status (validate_GET jwt now authHeader)
        \<and> error_envelope (body (validate_GET jwt now authHeader)))
   \<and> (status (logout_POST jwt now authHeader) = 200
      \<or> 400 \<le> status (logout_POST jwt now authHeader)
        \<and> error_envelope (body (logout_POST jwt now authHeader)))
   \<and> (status (session_GET jwt authHeader) = 200
      \<or> 400 \<le> status (session_GET jwt authHeader)
        \<and> error_envelope (body (session_GET jwt authHeader)))
   \<and> (status (verify_GET jwt authHeader) = 200
      \<or> 400 \<le> status (verify_GET jwt authHeader)
        \<and> error_envelope (body (verify_GET jwt authHeader)))
   \<and> (status (fst (upgrade_POST now tc slug s)) = 200
      \<or> 400 \<le> status (fst (upgrade_POST now tc slug s))
        \<and> error_envelope (body (fst (upgrade_POST now tc slug s))))
   \<and> (status (upgrade_GET tc slug s) = 200
      \<or> 400 \<le> status (upgrade_GET tc slug s)
        \<and> error_envelope (body (upgrade_GET tc slug s)))
   \<and> (status (tenant_GET headers s) = 200
      \<or> 400 \<le> status (tenant_GET headers s)
        \<and> error_envelope (body (tenant_GET headers s)))"
  by (intro conjI note_GET_envelope note_PUT_envelope note_DELETE_envelope notes_POST_envelope
      notes_GET_envelope invite_POST_bare accept_POST_bare accept_GET_bare invitations_GET_bare
      middleware_api_bare login_POST_envelope validate_GET_envelope logout_POST_envelope
      session_GET_envelope verify_GET_envelope upgrade_POST_envelope upgrade_GET_envelope
      tenant_GET_envelope)

text \<open>
  The claim as the specification states it fails in the invitation handlers: the 404 of an
  accept call with an unknown token and the 403 of an invite call by a MEMBER have the body
  \<^verbatim>\<open>{error: <message>}\<close>, without \<^verbatim>\<open>success\<close>.
\<close>

theorem error_envelope_counterexample:
  "accept_POST no_issues demo_hash 5000 ''user-new'' (Some (accept_body ''token-none'')) invited_store
     = (\<lparr>status = 404, body = JObj [(''error'', JStr ''Invalid or expired invitation token'')]\<rparr>,
        invited_store)
   \<and> \<not> error_envelope (JObj [(''error'', JStr ''Invalid or expired invitation token'')])
   \<and> fst (invite_POST any_email no_issues [] 5000 ''inv-fresh'' ''token-fresh''
             (Some acme_member_ctx) (Some (invite_body ''fresh@acme.test'')) seed_store)
     = \<lparr>status = 403,
        body = JObj [(''error'',
                      JStr ''Admin access required. Only administrators can invite users.'')]\<rparr>
   \<and> \<not> error_envelope
          (JObj [(''error'', JStr ''Admin access required. Only administrators can invite users.'')])"
proof -
  have p: "parse_accept (accept_body ''token-none'') = Some (''token-none'', ''password1'')"
    by (simp add: parse_accept_body)
  have f: "find (\<lambda>i. i_token i = ''token-none'' \<and> i_status i = PENDING)
             (invitation_rows invited_store) = None"
    by (simp add: invited_defs)
  have i: "fst (invite_POST any_email no_issues [] 5000 ''inv-fresh'' ''token-fresh''
             (Some acme_member_ctx) (Some (invite_body ''fresh@acme.test'')) seed_store)
     = \<lparr>status = 403,
        body = JObj [(''error'',
                      JStr ''Admin access required. Only administrators can invite users.'')]\<rparr>"
    by (simp add: invite_POST_def acme_member_ctx_def bare_error_def)
  from accept_POST_unknown [OF p f, of no_issues demo_hash 5000 "''user-new''"] i
  show ?thesis by (simp add: bare_error_def)
qed

theorem error_bodies_by_handler_witness:
  "status (fst (note_GET (Some acme_member_ctx) ''note-1'' seed_store)) = 400
   \<and> error_envelope (body (fst (note_GET (Some acme_member_ctx) ''note-1'' seed_store)))
   \<and> status (fst (accept_POST no_issues demo_hash 5000 ''user-new''
                  (Some (accept_body ''token-none'')) invited_store)) = 404
   \<and> bare_error_body (body (fst (accept_POST no_issues demo_hash 5000 ''user-new''
                  (Some (accept_body ''token-none'')) invited_store)))
   \<and> status (fst (invitations_GET (Some acme_member_ctx) no_query seed_store)) = 403
   \<and> bare_error_body (body (fst (invitations_GET (Some acme_member_ctx) no_query seed_store)))
   \<and> middleware_api no_jwt None
       = Some \<lparr>status = 401, body = JObj [(''error'', JStr ''Authentication required'')]\<rparr>
   \<and> bare_error_body (JObj [(''error'', JStr ''Authentication required'')])
   \<and> status (login_POST no_jwt no_match None seed_store) = 400
   \<and> error_envelope (body (login_POST no_jwt no_match None seed_store))
   \<and> status (verify_GET no_jwt None) = 401
   \<and> error_envelope (body (verify_GET no_jwt None))
   \<and> status (fst (upgrade_POST 5000 (Some acme_member_ctx) ''acme'' seed_store)) = 403
   \<and> error_envelope (body (fst (upgrade_POST 5000 (Some acme_member_ctx) ''acme'' seed_store)))
   \<and> status (tenant_GET no_headers seed_store) = 500
   \<and> error_envelope (body (tenant_GET no_headers seed_store))"
proof -
  have g: "status (fst (note_GET (Some acme_member_ctx) ''note-1'' seed_store)) = 400"
    by (simp add: note_GET_def acme_member_ctx_def validateNoteId_def)
  have a: "status (fst (accept_POST no_issues demo_hash 5000 ''user-new''
                  (Some (accept_body ''token-none'')) invited_store)) = 404"
    using accept_unknown_example by simp
  have l: "status (fst (invitations_GET (Some acme_member_ctx) no_query seed_store)) = 403"
    by (simp add: invitations_GET_def acme_member_ctx_def)
  have m: "middleware_api no_jwt None
       = Some \<lparr>status = 401, body = JObj [(''error'', JStr ''Authentication required'')]\<rparr>"
    by (simp add: middleware_api_def bare_error_def)
  have lg: "status (login_POST no_jwt no_match None seed_store) = 400"
    by (simp add: login_POST_def createValidationError_def)
  have v: "status (verify_GET no_jwt None) = 401"
    by (simp add: verify_GET_def)
  have up: "status (fst (upgrade_POST 5000 (Some acme_member_ctx) ''acme'' seed_store)) = 403"
    by (simp add: upgrade_POST_def acme_member_ctx_def hasPermission_def)
  have tn: "status (tenant_GET no_headers seed_store) = 500"
    by (simp add: tenant_GET_def getTenantContext_def no_headers_def)
  note first = error_bodies_by_handler [where tc = "Some acme_member_ctx" and ident = "''note-1''"
      and s = seed_store and now = 5000 and rb = None and newId = "''x''" and query = default_query
      and is_email = any_email and issues = no_issues and appUrl = "[]" and newToken = "''y''"
      and h = demo_hash and token = None and iquery = no_query and jwt = no_jwt
      and authHeader = None and compare = no_match and slug = "''acme''"
      and headers = no_headers]
  note second = error_bodies_by_handler [where tc = None and ident = "''note-1''"
      and s = invited_store and now = 5000 and rb = "Some (accept_body ''token-none'')"
      and newId = "''user-new''" and query = default_query
      and is_email = any_email and issues = no_issues and appUrl = "[]" and newToken = "''y''"
      and h = demo_hash and token = None and iquery = no_query and jwt = no_jwt
      and authHeader = None and compare = no_match and slug = "''acme''"
      and headers = no_headers]
  from first have "error_envelope (body (fst (note_GET (Some acme_member_ctx) ''note-1'' seed_store)))"
    using g by simp
  moreover
  from second
  have "bare_error_body (body (fst (accept_POST no_issues demo_hash 5000 ''user-new''
                  (Some (accept_body ''token-none'')) invited_store)))"
    using a by simp
  moreover
  from first
  have "bare_error_body (body (fst (invitations_GET (Some acme_member_ctx) no_query seed_store)))"
    using l by simp
  moreover
  from first have "bare_error_body (JObj [(''error'', JStr ''Authentication required'')])"
    using m by simp
  moreover
  from first
  have "error_envelope (body (login_POST no_jwt no_match None seed_store))"
    using lg by simp
  moreover
  from first have "error_envelope (body (verify_GET no_jwt None))"
    using v by simp
  moreover
  from first
  have "error_envelope (body (fst (upgrade_POST 5000 (Some acme_member_ctx) ''acme'' seed_store)))"
    using up by simp
  moreover
  from first have "error_envelope (body (tenant_GET no_headers seed_store))"
    using tn by simp
  ultimately show ?thesis using g a l m lg v up tn by simp
qed

end
